theory Spec2Isabelle
  imports Complex_Main
begin

section \<open>Deep belief network notebook: RBM and feed-forward classifier\<close>

text \<open>
  The development embeds the two classes of \<^verbatim>\<open>Autoencoders/DBN-Review.ipynb\<close>,
  \<^verbatim>\<open>RBM\<close> and \<^verbatim>\<open>NN\<close>.

  Conventions of the embedding.
  \<^item> A 2-D array is the list of its rows, a 1-D array a list. The \<^verbatim>\<open>float32\<close>
    entries are idealised as real numbers: rounding, overflow and NaN are not modelled.
    An array without rows does not record its width, and on an array without elements
    \<^verbatim>\<open>reduce_mean\<close> is NaN in the library; statements that depend on either say so
    in their hypotheses.
  \<^item> Random numbers are explicit inputs. Every evaluation of a
    \<^verbatim>\<open>tf.random_uniform\<close> node inside one \<^verbatim>\<open>sess.run\<close> call yields a fresh
    array of samples from \<open>[0, 1)\<close>; a sample array is a function from the position to the
    sample, and a random source gives the sample arrays of the k-th session run.
  \<^item> Python exceptions are values of type \<open>error\<close>; a function that can raise returns
    \<open>error + result\<close>. A method that assigns to fields of its object returns the updated
    object.
  \<^item> Names are those of the notebook. \<^verbatim>\<open>RBM.__init__\<close>, \<^verbatim>\<open>NN.__init__\<close> and
    \<^verbatim>\<open>NN.train\<close> are \<open>RBM_init\<close>, \<open>NN_init\<close> and \<open>NN_train\<close>; \<^verbatim>\<open>RBM.train\<close> is
    \<open>train\<close>.
\<close>

subsection \<open>Arrays\<close>

type_synonym vec = "real list"
type_synonym matrix = "real list list"

datatype error =
  AssertionError | IndexError | ValueError | ZeroDivisionError | InvalidArgumentError

definition zeros_vec :: "nat \<Rightarrow> vec" where
  "zeros_vec n = replicate n 0"

definition zeros :: "nat \<Rightarrow> nat \<Rightarrow> matrix" where
  "zeros n m = replicate n (replicate m 0)"

definition ncols :: "matrix \<Rightarrow> nat" where
  "ncols A = (case A of [] \<Rightarrow> 0 | r # _ \<Rightarrow> length r)"

definition has_shape :: "nat \<Rightarrow> nat \<Rightarrow> matrix \<Rightarrow> bool" where
  "has_shape n m A \<longleftrightarrow> length A = n \<and> list_all (\<lambda>r. length r = m) A"

definition col :: "matrix \<Rightarrow> nat \<Rightarrow> vec" where
  "col A j = map (\<lambda>r. r ! j) A"

definition dot :: "vec \<Rightarrow> vec \<Rightarrow> real" where
  "dot x y = sum_list (map2 (*) x y)"

text \<open>\<^verbatim>\<open>tf.matmul\<close> and \<^verbatim>\<open>tf.transpose\<close> on 2-D arrays.\<close>

definition matmul :: "matrix \<Rightarrow> matrix \<Rightarrow> matrix" where
  "matmul A B = map (\<lambda>r. map (\<lambda>j. dot r (col B j)) [0..<ncols B]) A"

definition transpose_m :: "matrix \<Rightarrow> matrix" where
  "transpose_m A = map (\<lambda>j. col A j) [0..<ncols A]"

text \<open>Element-wise arithmetic; \<open>add_bias\<close> is the broadcast of a row vector over the rows.\<close>

definition vadd :: "vec \<Rightarrow> vec \<Rightarrow> vec" where
  "vadd x y = map2 (+) x y"

definition vsub :: "vec \<Rightarrow> vec \<Rightarrow> vec" where
  "vsub x y = map2 (-) x y"

definition vscale :: "real \<Rightarrow> vec \<Rightarrow> vec" where
  "vscale c x = map (\<lambda>a. c * a) x"

definition madd :: "matrix \<Rightarrow> matrix \<Rightarrow> matrix" where
  "madd A B = map2 vadd A B"

definition msub :: "matrix \<Rightarrow> matrix \<Rightarrow> matrix" where
  "msub A B = map2 vsub A B"

definition mscale :: "real \<Rightarrow> matrix \<Rightarrow> matrix" where
  "mscale c A = map (vscale c) A"

definition mdiv :: "matrix \<Rightarrow> real \<Rightarrow> matrix" where
  "mdiv A c = map (map (\<lambda>a. a / c)) A"

definition add_bias :: "matrix \<Rightarrow> vec \<Rightarrow> matrix" where
  "add_bias A b = map (\<lambda>r. vadd r b) A"

definition square :: "matrix \<Rightarrow> matrix" where
  "square A = map (map (\<lambda>a. a * a)) A"

text \<open>\<^verbatim>\<open>tf.reduce_mean(A, 0)\<close> (mean of every column) and \<^verbatim>\<open>tf.reduce_mean(A)\<close>
  (mean of all entries).\<close>

definition reduce_mean0 :: "matrix \<Rightarrow> vec" where
  "reduce_mean0 A = map (\<lambda>j. sum_list (col A j) / real (length A)) [0..<ncols A]"

definition reduce_mean :: "matrix \<Rightarrow> real" where
  "reduce_mean A = sum_list (concat A) / real (length (concat A))"

definition sigmoid :: "real \<Rightarrow> real" where
  "sigmoid x = 1 / (1 + exp (- x))"

definition sign :: "real \<Rightarrow> real" where
  "sign x = (if 0 < x then 1 else if x < 0 then - 1 else 0)"

definition relu :: "real \<Rightarrow> real" where
  "relu x = max x 0"

definition sigmoid_m :: "matrix \<Rightarrow> matrix" where
  "sigmoid_m A = map (map sigmoid) A"

text \<open>Python's \<^verbatim>\<open>X[start:end]\<close> for \<open>0 \<le> start\<close>, \<open>0 \<le> end\<close>, and
  \<^verbatim>\<open>range(start, stop, step)\<close> for a positive step (a zero step raises
  \<^verbatim>\<open>ValueError\<close>, which the callers below check).\<close>

definition slice :: "'a list \<Rightarrow> nat \<Rightarrow> nat \<Rightarrow> 'a list" where
  "slice xs start end = take (end - start) (drop start xs)"

definition py_range :: "nat \<Rightarrow> nat \<Rightarrow> nat \<Rightarrow> nat list" where
  "py_range start stop step =
     map (\<lambda>k. start + k * step) [0..<(stop - start + step - 1) div step]"

text \<open>The mini-batch bounds of both training loops:
  \<^verbatim>\<open>zip(range(0, n, batchsize), range(batchsize, n, batchsize))\<close>.\<close>

definition batches :: "nat \<Rightarrow> nat \<Rightarrow> (nat \<times> nat) list" where
  "batches n bs = zip (py_range 0 n bs) (py_range bs n bs)"

subsection \<open>The RBM class\<close>

text \<open>The fields \<^verbatim>\<open>w\<close>, \<^verbatim>\<open>hb\<close>, \<^verbatim>\<open>vb\<close> carry the prefix \<open>rbm_\<close>.\<close>

record rbm =
  input_size :: nat
  output_size :: nat
  epochs :: nat
  learning_rate :: real
  batchsize :: nat
  rbm_w :: matrix
  rbm_hb :: vec
  rbm_vb :: vec

definition RBM_init :: "nat \<Rightarrow> nat \<Rightarrow> rbm" where
  "RBM_init n_in n_out =
     \<lparr> input_size = n_in, output_size = n_out, epochs = 5, learning_rate = 1,
       batchsize = 100, rbm_w = zeros n_in n_out, rbm_hb = zeros_vec n_out,
       rbm_vb = zeros_vec n_in \<rparr>"

definition prob_h_given_v :: "matrix \<Rightarrow> matrix \<Rightarrow> vec \<Rightarrow> matrix" where
  "prob_h_given_v visible W HB = sigmoid_m (add_bias (matmul visible W) HB)"

definition prob_v_given_h :: "matrix \<Rightarrow> matrix \<Rightarrow> vec \<Rightarrow> matrix" where
  "prob_v_given_h hidden W VB = sigmoid_m (add_bias (matmul hidden (transpose_m W)) VB)"

text \<open>\<^verbatim>\<open>relu(sign(probs - random_uniform(shape(probs))))\<close>; \<open>u i j\<close> is the uniform
  sample at row \<open>i\<close>, column \<open>j\<close>.\<close>

type_synonym samples = "nat \<Rightarrow> nat \<Rightarrow> real"

definition sample_prob :: "matrix \<Rightarrow> samples \<Rightarrow> matrix" where
  "sample_prob probs u =
     map (\<lambda>i. map (\<lambda>j. relu (sign (probs ! i ! j - u i j))) [0..<length (probs ! i)])
       [0..<length probs]"

text \<open>The nodes of the graph that \<^verbatim>\<open>train\<close> builds, as functions of the fed values
  (\<open>V0\<close>, \<open>W\<close>, \<open>HB\<close>, \<open>VB\<close>) and of the two sample arrays of one session run: \<open>fst d\<close>
  for the node \<^verbatim>\<open>h0\<close>, \<open>snd d\<close> for the node \<^verbatim>\<open>v1\<close>.\<close>

type_synonym draws = "samples \<times> samples"

definition h0 :: "matrix \<Rightarrow> matrix \<Rightarrow> vec \<Rightarrow> draws \<Rightarrow> matrix" where
  "h0 V0 W HB d = sample_prob (prob_h_given_v V0 W HB) (fst d)"

definition v1 :: "matrix \<Rightarrow> matrix \<Rightarrow> vec \<Rightarrow> vec \<Rightarrow> draws \<Rightarrow> matrix" where
  "v1 V0 W HB VB d = sample_prob (prob_v_given_h (h0 V0 W HB d) W VB) (snd d)"

definition h1 :: "matrix \<Rightarrow> matrix \<Rightarrow> vec \<Rightarrow> vec \<Rightarrow> draws \<Rightarrow> matrix" where
  "h1 V0 W HB VB d = prob_h_given_v (v1 V0 W HB VB d) W HB"

definition positive_grad :: "matrix \<Rightarrow> matrix \<Rightarrow> vec \<Rightarrow> draws \<Rightarrow> matrix" where
  "positive_grad V0 W HB d = matmul (transpose_m V0) (h0 V0 W HB d)"

definition negative_grad :: "matrix \<Rightarrow> matrix \<Rightarrow> vec \<Rightarrow> vec \<Rightarrow> draws \<Rightarrow> matrix" where
  "negative_grad V0 W HB VB d = matmul (transpose_m (v1 V0 W HB VB d)) (h1 V0 W HB VB d)"

definition update_w :: "real \<Rightarrow> matrix \<Rightarrow> matrix \<Rightarrow> vec \<Rightarrow> vec \<Rightarrow> draws \<Rightarrow> matrix" where
  "update_w lr V0 W HB VB d =
     madd W (mdiv (mscale lr (msub (positive_grad V0 W HB d) (negative_grad V0 W HB VB d)))
               (real (length V0)))"

definition update_vb :: "real \<Rightarrow> matrix \<Rightarrow> matrix \<Rightarrow> vec \<Rightarrow> vec \<Rightarrow> draws \<Rightarrow> vec" where
  "update_vb lr V0 W HB VB d =
     vadd VB (vscale lr (reduce_mean0 (msub V0 (v1 V0 W HB VB d))))"

definition update_hb :: "real \<Rightarrow> matrix \<Rightarrow> matrix \<Rightarrow> vec \<Rightarrow> vec \<Rightarrow> draws \<Rightarrow> vec" where
  "update_hb lr V0 W HB VB d =
     vadd HB (vscale lr (reduce_mean0 (msub (h0 V0 W HB d) (h1 V0 W HB VB d))))"

definition err :: "matrix \<Rightarrow> matrix \<Rightarrow> vec \<Rightarrow> vec \<Rightarrow> draws \<Rightarrow> real" where
  "err V0 W HB VB d = reduce_mean (square (msub V0 (v1 V0 W HB VB d)))"

text \<open>The local variables of \<^verbatim>\<open>train\<close>. \<open>run\<close> counts the session runs made so far
  (it indexes the random source) and \<open>printed\<close> collects the reconstruction errors in the
  order they are printed.\<close>

record train_state =
  prv_w :: matrix
  prv_hb :: vec
  prv_vb :: vec
  cur_w :: matrix
  cur_hb :: vec
  cur_vb :: vec
  run :: nat
  printed :: "real list"

definition train_init :: "rbm \<Rightarrow> train_state" where
  "train_init r =
     \<lparr> prv_w = zeros (input_size r) (output_size r), prv_hb = zeros_vec (output_size r),
       prv_vb = zeros_vec (input_size r),
       cur_w = zeros (input_size r) (output_size r), cur_hb = zeros_vec (output_size r),
       cur_vb = zeros_vec (input_size r), run = 0, printed = [] \<rparr>"

text \<open>The body of the inner loop: three session runs, each feeding the batch and the
  previous parameters, then \<^verbatim>\<open>prv_* = cur_*\<close>.\<close>

definition batch_step :: "rbm \<Rightarrow> matrix \<Rightarrow> (nat \<Rightarrow> draws) \<Rightarrow> train_state \<Rightarrow> nat \<times> nat \<Rightarrow> train_state" where
  "batch_step r X rng st se =
     (let batch = slice X (fst se) (snd se);
          cw = update_w (learning_rate r) batch (prv_w st) (prv_hb st) (prv_vb st) (rng (run st));
          chb = update_hb (learning_rate r) batch (prv_w st) (prv_hb st) (prv_vb st) (rng (run st + 1));
          cvb = update_vb (learning_rate r) batch (prv_w st) (prv_hb st) (prv_vb st) (rng (run st + 2))
      in st\<lparr> cur_w := cw, cur_hb := chb, cur_vb := cvb,
              prv_w := cw, prv_hb := chb, prv_vb := cvb, run := run st + 3 \<rparr>)"

text \<open>The body of the outer loop: all batches, then one run of the node \<^verbatim>\<open>err\<close> on
  the whole of \<open>X\<close> with the \<^verbatim>\<open>cur_*\<close> values, printed.\<close>

definition epoch_step :: "rbm \<Rightarrow> matrix \<Rightarrow> (nat \<Rightarrow> draws) \<Rightarrow> train_state \<Rightarrow> train_state" where
  "epoch_step r X rng st =
     (let st' = foldl (batch_step r X rng) st (batches (length X) (batchsize r));
          error = err X (cur_w st') (cur_hb st') (cur_vb st') (rng (run st'))
      in st'\<lparr> run := run st' + 1, printed := printed st' @ [error] \<rparr>)"

text \<open>\<^verbatim>\<open>RBM.train\<close>. With at least one epoch, \<^verbatim>\<open>range\<close> raises on a zero batch
  size, and feeding a row whose width is not \<^verbatim>\<open>_input_size\<close> to the placeholder
  \<^verbatim>\<open>v0\<close> raises. The result is the updated object and the printed errors.\<close>

definition train :: "rbm \<Rightarrow> matrix \<Rightarrow> (nat \<Rightarrow> draws) \<Rightarrow> error + (rbm \<times> real list)" where
  "train r X rng =
     (if 0 < epochs r \<and> batchsize r = 0 then Inl ValueError
      else if 0 < epochs r \<and> \<not> list_all (\<lambda>row. length row = input_size r) X then Inl ValueError
      else
        let st = ((epoch_step r X rng) ^^ epochs r) (train_init r)
        in Inr (r\<lparr> rbm_w := prv_w st, rbm_hb := prv_hb st, rbm_vb := prv_vb st \<rparr>, printed st))"

text \<open>\<^verbatim>\<open>RBM.rbm_output\<close>: the object is not assigned to; \<^verbatim>\<open>tf.matmul\<close> raises when
  the width of \<open>X\<close> is not the number of rows of \<^verbatim>\<open>self.w\<close>.\<close>

definition rbm_output :: "rbm \<Rightarrow> matrix \<Rightarrow> error + (rbm \<times> matrix)" where
  "rbm_output r X =
     (if \<not> list_all (\<lambda>row. length row = length (rbm_w r)) X then Inl ValueError
      else Inr (r, sigmoid_m (add_bias (matmul X (rbm_w r)) (rbm_hb r))))"

text \<open>The shapes that \<^verbatim>\<open>__init__\<close> gives the parameters of an RBM and the training
  loop gives its local variables.\<close>

definition rbm_ok :: "rbm \<Rightarrow> bool" where
  "rbm_ok r \<longleftrightarrow> has_shape (input_size r) (output_size r) (rbm_w r)
     \<and> length (rbm_hb r) = output_size r \<and> length (rbm_vb r) = input_size r"

definition state_ok :: "rbm \<Rightarrow> train_state \<Rightarrow> bool" where
  "state_ok r st \<longleftrightarrow> has_shape (input_size r) (output_size r) (prv_w st)
     \<and> length (prv_hb st) = output_size r \<and> length (prv_vb st) = input_size r
     \<and> cur_w st = prv_w st \<and> cur_hb st = prv_hb st \<and> cur_vb st = prv_vb st"

text \<open>The state after the batch loop of epoch \<open>k\<close> (epochs count from 0), before its
  error is computed.\<close>

definition after_batches :: "rbm \<Rightarrow> matrix \<Rightarrow> (nat \<Rightarrow> draws) \<Rightarrow> nat \<Rightarrow> train_state" where
  "after_batches r X rng k =
     foldl (batch_step r X rng) (((epoch_step r X rng) ^^ k) (train_init r))
       (batches (length X) (batchsize r))"

text \<open>One contrastive-divergence step as the specification words it: all three updates
  from one hidden sample \<open>H0\<close> and one visible sample \<open>V1\<close>. The result is the new
  weights, visible biases and hidden biases.\<close>

definition spec_cd_step ::
  "real \<Rightarrow> matrix \<Rightarrow> matrix \<Rightarrow> vec \<Rightarrow> vec \<Rightarrow> matrix \<Rightarrow> matrix \<Rightarrow> matrix \<times> vec \<times> vec" where
  "spec_cd_step lr V0 W HB VB H0 V1 =
     (let H1 = prob_h_given_v V1 W HB
      in (madd W (mdiv (mscale lr (msub (matmul (transpose_m V0) H0) (matmul (transpose_m V1) H1)))
                   (real (length V0))),
          vadd VB (vscale lr (reduce_mean0 (msub V0 V1))),
          vadd HB (vscale lr (reduce_mean0 (msub H0 H1)))))"

subsection \<open>The NN class\<close>

text \<open>The fields \<^verbatim>\<open>_X\<close>, \<^verbatim>\<open>_Y\<close>, \<^verbatim>\<open>_learning_rate\<close> and \<^verbatim>\<open>_batchsize\<close>
  carry the prefix \<open>nn_\<close>; the others drop the underscore.\<close>

record nn =
  sizes :: "nat list"
  nn_X :: matrix
  nn_Y :: matrix
  w_list :: "matrix list"
  b_list :: "vec list"
  nn_learning_rate :: real
  momentum :: real
  epoches :: nat
  nn_batchsize :: nat

text \<open>\<^verbatim>\<open>np.random.uniform(lo, hi, [n, m])\<close> from an array \<open>u\<close> of samples of \<open>[0, 1)\<close>.\<close>

definition uniform :: "real \<Rightarrow> real \<Rightarrow> nat \<Rightarrow> nat \<Rightarrow> samples \<Rightarrow> matrix" where
  "uniform lo hi n m u = map (\<lambda>i. map (\<lambda>j. lo + (hi - lo) * u i j) [0..<m]) [0..<n]"

text \<open>The initialization loop of \<^verbatim>\<open>NN.__init__\<close> over \<^verbatim>\<open>self._sizes + [Y.shape[1]]\<close>;
  \<open>k\<close> numbers the layers and \<open>rng k\<close> is the sample array of the k-th call of
  \<^verbatim>\<open>np.random.uniform\<close>. The float division raises when both widths are 0.\<close>

fun init_layers ::
  "nat \<Rightarrow> nat list \<Rightarrow> (nat \<Rightarrow> samples) \<Rightarrow> nat \<Rightarrow> matrix list \<times> vec list
     \<Rightarrow> error + matrix list \<times> vec list" where
  "init_layers n_in [] rng k acc = Inr acc"
| "init_layers n_in (sz # rest) rng k acc =
     (if n_in + sz = 0 then Inl ZeroDivisionError
      else
        let max_range = 4 * sqrt (6 / real (n_in + sz))
        in init_layers sz rest rng (Suc k)
             (fst acc @ [uniform (- max_range) max_range n_in sz (rng k)],
              snd acc @ [zeros_vec sz]))"

definition NN_init :: "nat list \<Rightarrow> matrix \<Rightarrow> matrix \<Rightarrow> (nat \<Rightarrow> samples) \<Rightarrow> error + nn" where
  "NN_init szs X Y rng =
     (case init_layers (ncols X) (szs @ [ncols Y]) rng 0 ([], []) of
        Inl e \<Rightarrow> Inl e
      | Inr acc \<Rightarrow>
          Inr \<lparr> sizes = szs, nn_X = X, nn_Y = Y, w_list = fst acc, b_list = snd acc,
                nn_learning_rate = 1, momentum = 0, epoches = 10, nn_batchsize = 100 \<rparr>)"

text \<open>\<^verbatim>\<open>NN.load_from_rbms\<close>: the two assertions, then the transfer loop. In the loop
  body \<^verbatim>\<open>rbm_list[i]\<close> and the assignments to \<^verbatim>\<open>self.w_list[i]\<close> and
  \<^verbatim>\<open>self.b_list[i]\<close> raise \<^verbatim>\<open>IndexError\<close> when \<open>i\<close> is out of range (the object is
  then left partly updated; the model returns the exception alone).\<close>

fun transfer :: "nn \<Rightarrow> rbm list \<Rightarrow> nat list \<Rightarrow> error + nn" where
  "transfer n rbms [] = Inr n"
| "transfer n rbms (i # rest) =
     (if i < length rbms \<and> i < length (w_list n) \<and> i < length (b_list n)
      then transfer (n\<lparr> w_list := (w_list n)[i := rbm_w (rbms ! i)],
                        b_list := (b_list n)[i := rbm_hb (rbms ! i)] \<rparr>) rbms rest
      else Inl IndexError)"

definition load_from_rbms :: "nn \<Rightarrow> nat list \<Rightarrow> rbm list \<Rightarrow> error + nn" where
  "load_from_rbms n dbn_sizes rbm_list =
     (if length dbn_sizes \<noteq> length (sizes n) then Inl AssertionError
      else if list_ex (\<lambda>i. dbn_sizes ! i \<noteq> sizes n ! i) [0..<length (sizes n)]
        then Inl AssertionError
      else transfer n rbm_list [0..<length (sizes n)])"

text \<open>Broadcasting of the last dimension, as the library does it for \<open>+\<close> and \<open>-\<close>: two
  widths are compatible when they are equal or one of them is 1, and the result has the
  other width. \<open>broadcast_add A b\<close> is \<open>A + b\<close> for a 2-D array \<open>A\<close> and a 1-D array \<open>b\<close> of
  compatible widths.\<close>

definition broadcast_width :: "nat \<Rightarrow> nat \<Rightarrow> nat option" where
  "broadcast_width m k = (if m = k \<or> k = 1 then Some m else if m = 1 then Some k else None)"

definition broadcast_add :: "matrix \<Rightarrow> vec \<Rightarrow> matrix" where
  "broadcast_add A b =
     map (\<lambda>row. if length row = length b then vadd row b
               else if length b = 1 then map (\<lambda>a. a + b ! 0) row
               else map (\<lambda>c. row ! 0 + c) b) A"

text \<open>The forward pass \<^verbatim>\<open>_a[i] = sigmoid(matmul(_a[i - 1], _w[i - 1]) + _b[i - 1])\<close>;
  the result is \<^verbatim>\<open>_a[-1]\<close>.\<close>

definition forward :: "matrix list \<Rightarrow> vec list \<Rightarrow> matrix \<Rightarrow> matrix" where
  "forward ws bs a0 =
     foldl (\<lambda>a wb. sigmoid_m (broadcast_add (matmul a (fst wb)) (snd wb))) a0 (zip ws bs)"

text \<open>The shapes the library infers while \<^verbatim>\<open>NN.train\<close> builds the graph. \<open>infer_width a
  layers\<close> is the width of the last activation for an input of width \<open>a\<close>, and \<open>None\<close> when
  the construction raises \<^verbatim>\<open>ValueError\<close>: \<^verbatim>\<open>tf.matmul\<close> needs a weight array with as
  many rows as the activation is wide, and the bias must be compatible with the product.
  (A list of rows of different lengths is no 2-D array; it is refused as well.)
  \<open>graph_width\<close> is that width for the classifier, with the input placeholder as wide as
  \<^verbatim>\<open>_X\<close>; the cost \<^verbatim>\<open>_a[-1] - y\<close> needs it compatible with the width of \<^verbatim>\<open>_Y\<close>.\<close>

fun infer_width :: "nat \<Rightarrow> (matrix \<times> vec) list \<Rightarrow> nat option" where
  "infer_width a [] = Some a"
| "infer_width a (wb # rest) =
     (if length (fst wb) \<noteq> a \<or> \<not> list_all (\<lambda>row. length row = ncols (fst wb)) (fst wb)
      then None
      else case broadcast_width (ncols (fst wb)) (length (snd wb)) of
             None \<Rightarrow> None
           | Some m \<Rightarrow> infer_width m rest)"

definition graph_width :: "nn \<Rightarrow> nat option" where
  "graph_width n =
     (case infer_width (ncols (nn_X n))
             (zip (take (length (sizes n) + 1) (w_list n)) (take (length (sizes n) + 1) (b_list n))) of
        None \<Rightarrow> None
      | Some m \<Rightarrow> (case broadcast_width m (ncols (nn_Y n)) of None \<Rightarrow> None | Some _ \<Rightarrow> Some m))"

text \<open>\<^verbatim>\<open>argmax\<close> of a row: the first position of the largest entry (on an empty row
  the library raises; the model's value there is 0).\<close>

fun argmax_from :: "real list \<Rightarrow> nat \<Rightarrow> nat \<Rightarrow> real \<Rightarrow> nat" where
  "argmax_from [] i best bv = best"
| "argmax_from (x # xs) i best bv =
     (if bv < x then argmax_from xs (Suc i) i x else argmax_from xs (Suc i) best bv)"

definition argmax :: "real list \<Rightarrow> nat" where
  "argmax xs = (case xs of [] \<Rightarrow> 0 | x # rest \<Rightarrow> argmax_from rest 1 0 x)"

text \<open>The variables of the session: the layers' weights and biases and the slots of the
  optimizer. \<^verbatim>\<open>tf.train.MomentumOptimizer(...).minimize(cost)\<close> is library code; one
  run of it is a parameter \<open>train_op\<close> of the training loop, from the session and the fed
  batch to the new session.\<close>

record 'o session =
  var_w :: "matrix list"
  var_b :: "vec list"
  slots :: 'o

definition predict_op :: "'o session \<Rightarrow> matrix \<Rightarrow> nat list" where
  "predict_op s a0 = map argmax (forward (var_w s) (var_b s) a0)"

text \<open>\<^verbatim>\<open>np.mean(a == b)\<close> for two index vectors of the same length.\<close>

definition mean_equal :: "nat list \<Rightarrow> nat list \<Rightarrow> real" where
  "mean_equal a b = real (length (filter (\<lambda>p. fst p = snd p) (zip a b))) / real (length a)"

record 'o nn_state =
  self :: nn
  sess :: "'o session"
  shown :: "real list"

definition nn_batch ::
  "('o session \<Rightarrow> matrix \<Rightarrow> matrix \<Rightarrow> 'o session) \<Rightarrow> nn \<Rightarrow> 'o session \<Rightarrow> nat \<times> nat \<Rightarrow> 'o session" where
  "nn_batch train_op n s se =
     train_op s (slice (nn_X n) (fst se) (snd se)) (slice (nn_Y n) (fst se) (snd se))"

text \<open>One epoch: all batches, the copy of the variables into \<^verbatim>\<open>w_list\<close> and
  \<^verbatim>\<open>b_list\<close>, and the printed accuracy.\<close>

definition nn_epoch ::
  "('o session \<Rightarrow> matrix \<Rightarrow> matrix \<Rightarrow> 'o session) \<Rightarrow> 'o nn_state \<Rightarrow> 'o nn_state" where
  "nn_epoch train_op st =
     (let n = self st;
          s' = foldl (nn_batch train_op n) (sess st)
                 (batches (length (nn_X n)) (nn_batchsize n));
          js = [0..<length (sizes n) + 1];
          n' = n\<lparr> w_list := foldl (\<lambda>l j. l[j := var_w s' ! j]) (w_list n) js,
                  b_list := foldl (\<lambda>l j. l[j := var_b s' ! j]) (b_list n) js \<rparr>;
          acc = mean_equal (map argmax (nn_Y n)) (predict_op s' (nn_X n))
      in \<lparr> self = n', sess = s', shown = shown st @ [acc] \<rparr>)"

text \<open>The variables \<^verbatim>\<open>_w[i]\<close>, \<^verbatim>\<open>_b[i]\<close> for \<open>i \<le> len(self._sizes)\<close>, created
  from \<^verbatim>\<open>self.w_list[i]\<close> and \<^verbatim>\<open>self.b_list[i]\<close>; \<open>o0\<close> is the initial value of
  the optimizer's slots.\<close>

definition nn_session :: "nn \<Rightarrow> 'o \<Rightarrow> 'o session" where
  "nn_session n o0 =
     \<lparr> var_w = take (length (sizes n) + 1) (w_list n),
       var_b = take (length (sizes n) + 1) (b_list n), slots = o0 \<rparr>"

text \<open>\<^verbatim>\<open>NN.train\<close>. The exceptions, in the order the code meets them:
  \<^item> reading \<^verbatim>\<open>self.w_list[i]\<close> or \<^verbatim>\<open>self.b_list[i]\<close> for \<open>i \<le> len(self._sizes)\<close> raises
    \<^verbatim>\<open>IndexError\<close> when the list is too short;
  \<^item> building the graph raises \<^verbatim>\<open>ValueError\<close> when the shapes do not fit (\<open>graph_width\<close>);
  \<^item> in the first epoch, \<^verbatim>\<open>range\<close> raises \<^verbatim>\<open>ValueError\<close> on a zero batch size;
  \<^item> for the first accuracy, \<^verbatim>\<open>np.argmax(self._Y, axis=1)\<close> raises \<^verbatim>\<open>ValueError\<close> on label
    rows without entries, and running \<^verbatim>\<open>tf.argmax(_a[-1], 1)\<close> raises
    \<^verbatim>\<open>InvalidArgumentError\<close> when the output has no columns.

  The feeds are the arrays of one dataset: \<^verbatim>\<open>_X\<close> and \<^verbatim>\<open>_Y\<close> are taken to be 2-D arrays
  with one label row per example, and statements that conclude a normal return say so in
  their hypotheses. An exception raised after the first epoch has begun leaves the object
  partly updated; the model returns the exception alone.\<close>

definition NN_train ::
  "('o session \<Rightarrow> matrix \<Rightarrow> matrix \<Rightarrow> 'o session) \<Rightarrow> 'o \<Rightarrow> nn \<Rightarrow> error + (nn \<times> real list)" where
  "NN_train train_op o0 n =
     (if length (w_list n) < length (sizes n) + 1 \<or> length (b_list n) < length (sizes n) + 1
        then Inl IndexError
      else case graph_width n of
        None \<Rightarrow> Inl ValueError
      | Some m \<Rightarrow>
          if 0 < epoches n \<and> nn_batchsize n = 0 then Inl ValueError
          else if 0 < epoches n \<and> list_ex (\<lambda>row. row = []) (nn_Y n) then Inl ValueError
          else if 0 < epoches n \<and> m = 0 then Inl InvalidArgumentError
          else
            let st = ((nn_epoch train_op) ^^ epoches n)
                       \<lparr> self = n, sess = nn_session n o0, shown = [] \<rparr>
            in Inr (self st, shown st))"

definition same_but_data :: "nn \<Rightarrow> nn \<Rightarrow> bool" where
  "same_but_data a b \<longleftrightarrow> sizes a = sizes b \<and> w_list a = w_list b \<and> b_list a = b_list b
     \<and> epoches a = epoches b \<and> nn_batchsize a = nn_batchsize b"

section \<open>Shapes and entries of the array operations\<close>

lemma has_shape_iff:
  "has_shape n m A \<longleftrightarrow> length A = n \<and> (\<forall>i<n. length (A ! i) = m)"
  by (auto simp: has_shape_def list_all_length)

lemma ncols_shape: "has_shape n m A \<Longrightarrow> 0 < n \<Longrightarrow> ncols A = m"
  by (cases A) (auto simp: has_shape_def ncols_def)

lemma sum_list_upt: "sum_list (map f [0..<n]) = (\<Sum>k<n. f k)"
  by (simp add: interv_sum_list_conv_sum_set_nat atLeast0LessThan)

lemma dot_sum: "length x = k \<Longrightarrow> length y = k \<Longrightarrow> dot x y = (\<Sum>l<k. x ! l * y ! l)"
proof -
  assume a: "length x = k" "length y = k"
  have "map2 (*) x y = map (\<lambda>l. x ! l * y ! l) [0..<k]"
    using a by (intro nth_equalityI) auto
  then show ?thesis by (simp add: dot_def sum_list_upt)
qed

lemma col_nth: "i < length A \<Longrightarrow> col A j ! i = A ! i ! j"
  by (simp add: col_def)

lemma length_col: "length (col A j) = length A"
  by (simp add: col_def)

lemma matmul_shape:
  "has_shape n k A \<Longrightarrow> has_shape k m B \<Longrightarrow> 0 < k \<Longrightarrow> has_shape n m (matmul A B)"
  by (simp add: has_shape_iff matmul_def ncols_shape[of k m B])

lemma matmul_nth:
  assumes "has_shape n k A" "has_shape k m B" "0 < k" "i < n" "j < m"
  shows "matmul A B ! i ! j = (\<Sum>l<k. A ! i ! l * B ! l ! j)"
proof -
  have nc: "ncols B = m" using assms ncols_shape by blast
  have la: "length (A ! i) = k" "length A = n" "length B = k"
    using assms by (auto simp: has_shape_iff)
  have "matmul A B ! i ! j = dot (A ! i) (col B j)"
    using assms la nc by (simp add: matmul_def)
  also have "\<dots> = (\<Sum>l<k. A ! i ! l * col B j ! l)"
    using la by (intro dot_sum) (simp_all add: length_col)
  also have "\<dots> = (\<Sum>l<k. A ! i ! l * B ! l ! j)"
    using la by (intro sum.cong) (simp_all add: col_nth)
  finally show ?thesis .
qed

lemma transpose_shape:
  "has_shape n m A \<Longrightarrow> 0 < n \<Longrightarrow> has_shape m n (transpose_m A)"
  by (simp add: has_shape_iff transpose_m_def ncols_shape[of n m A] length_col)

lemma transpose_nth:
  "has_shape n m A \<Longrightarrow> 0 < n \<Longrightarrow> i < n \<Longrightarrow> j < m \<Longrightarrow> transpose_m A ! j ! i = A ! i ! j"
  by (simp add: has_shape_iff transpose_m_def ncols_shape[of n m A] col_nth)

lemma vadd_length: "length x = m \<Longrightarrow> length y = m \<Longrightarrow> length (vadd x y) = m"
  by (simp add: vadd_def)

lemma vadd_nth: "j < length x \<Longrightarrow> j < length y \<Longrightarrow> vadd x y ! j = x ! j + y ! j"
  by (simp add: vadd_def)

lemma vsub_nth: "j < length x \<Longrightarrow> j < length y \<Longrightarrow> vsub x y ! j = x ! j - y ! j"
  by (simp add: vsub_def)

lemma add_bias_shape: "has_shape n m A \<Longrightarrow> length b = m \<Longrightarrow> has_shape n m (add_bias A b)"
  by (simp add: has_shape_iff add_bias_def vadd_def)

lemma add_bias_nth:
  "has_shape n m A \<Longrightarrow> length b = m \<Longrightarrow> i < n \<Longrightarrow> j < m \<Longrightarrow> add_bias A b ! i ! j = A ! i ! j + b ! j"
  by (simp add: has_shape_iff add_bias_def vadd_def)

lemma sigmoid_m_shape: "has_shape n m A \<Longrightarrow> has_shape n m (sigmoid_m A)"
  by (simp add: has_shape_iff sigmoid_m_def)

lemma sigmoid_m_nth:
  "has_shape n m A \<Longrightarrow> i < n \<Longrightarrow> j < m \<Longrightarrow> sigmoid_m A ! i ! j = sigmoid (A ! i ! j)"
  by (simp add: has_shape_iff sigmoid_m_def)

lemma relu_sign: "relu (sign (p - u)) = (if u < p then 1 else 0)"
  by (simp add: relu_def sign_def)

lemma sample_prob_shape: "has_shape n m A \<Longrightarrow> has_shape n m (sample_prob A u)"
  by (simp add: has_shape_iff sample_prob_def)

lemma sample_prob_nth:
  "has_shape n m A \<Longrightarrow> i < n \<Longrightarrow> j < m \<Longrightarrow>
     sample_prob A u ! i ! j = (if u i j < A ! i ! j then 1 else 0)"
  by (simp add: has_shape_iff sample_prob_def relu_sign)

lemma msub_shape: "has_shape n m A \<Longrightarrow> has_shape n m B \<Longrightarrow> has_shape n m (msub A B)"
  by (simp add: has_shape_iff msub_def vsub_def)

lemma msub_nth:
  "has_shape n m A \<Longrightarrow> has_shape n m B \<Longrightarrow> i < n \<Longrightarrow> j < m \<Longrightarrow>
     msub A B ! i ! j = A ! i ! j - B ! i ! j"
  by (simp add: has_shape_iff msub_def vsub_def)

lemma madd_shape: "has_shape n m A \<Longrightarrow> has_shape n m B \<Longrightarrow> has_shape n m (madd A B)"
  by (simp add: has_shape_iff madd_def vadd_def)

lemma madd_nth:
  "has_shape n m A \<Longrightarrow> has_shape n m B \<Longrightarrow> i < n \<Longrightarrow> j < m \<Longrightarrow>
     madd A B ! i ! j = A ! i ! j + B ! i ! j"
  by (simp add: has_shape_iff madd_def vadd_def)

lemma mscale_shape: "has_shape n m A \<Longrightarrow> has_shape n m (mscale c A)"
  by (simp add: has_shape_iff mscale_def vscale_def)

lemma mscale_nth:
  "has_shape n m A \<Longrightarrow> i < n \<Longrightarrow> j < m \<Longrightarrow> mscale c A ! i ! j = c * A ! i ! j"
  by (simp add: has_shape_iff mscale_def vscale_def)

lemma mdiv_shape: "has_shape n m A \<Longrightarrow> has_shape n m (mdiv A c)"
  by (simp add: has_shape_iff mdiv_def)

lemma mdiv_nth:
  "has_shape n m A \<Longrightarrow> i < n \<Longrightarrow> j < m \<Longrightarrow> mdiv A c ! i ! j = A ! i ! j / c"
  by (simp add: has_shape_iff mdiv_def)

lemma square_shape: "has_shape n m A \<Longrightarrow> has_shape n m (square A)"
  by (simp add: has_shape_iff square_def)

lemma square_nth:
  "has_shape n m A \<Longrightarrow> i < n \<Longrightarrow> j < m \<Longrightarrow> square A ! i ! j = A ! i ! j * A ! i ! j"
  by (simp add: has_shape_iff square_def)

lemma reduce_mean0_length: "has_shape n m A \<Longrightarrow> 0 < n \<Longrightarrow> length (reduce_mean0 A) = m"
  by (simp add: reduce_mean0_def ncols_shape[of n m A])

lemma reduce_mean0_nth:
  assumes "has_shape n m A" "0 < n" "j < m"
  shows "reduce_mean0 A ! j = (\<Sum>i<n. A ! i ! j) / real n"
proof -
  have l: "length A = n" using assms by (simp add: has_shape_iff)
  have "col A j = map (\<lambda>i. A ! i ! j) [0..<n]"
    using l by (intro nth_equalityI) (auto simp: col_def)
  then have "sum_list (col A j) = (\<Sum>i<n. A ! i ! j)"
    by (simp add: sum_list_upt)
  then show ?thesis
    using assms l by (simp add: reduce_mean0_def ncols_shape[of n m A])
qed

lemma concat_shape_sum:
  "has_shape n m A \<Longrightarrow> sum_list (concat A) = (\<Sum>i<n. \<Sum>j<m. A ! i ! j)"
proof (induction A arbitrary: n)
  case Nil
  then show ?case by (simp add: has_shape_def)
next
  case (Cons r A)
  then obtain n' where n: "n = Suc n'" and sh: "has_shape n' m A" and lr: "length r = m"
    by (cases n) (auto simp: has_shape_def)
  have "sum_list r = (\<Sum>j<m. r ! j)"
    using lr by (simp add: sum_list_sum_nth atLeast0LessThan)
  then show ?case
    using Cons.IH[OF sh] n by (simp add: sum.lessThan_Suc_shift del: sum.lessThan_Suc)
qed

lemma concat_shape_length: "has_shape n m A \<Longrightarrow> length (concat A) = n * m"
proof (induction A arbitrary: n)
  case Nil
  then show ?case by (simp add: has_shape_def)
next
  case (Cons r A)
  then show ?case by (cases n) (auto simp: has_shape_def)
qed

lemma reduce_mean_sum:
  "has_shape n m A \<Longrightarrow> reduce_mean A = (\<Sum>i<n. \<Sum>j<m. A ! i ! j) / real (n * m)"
  by (simp add: reduce_mean_def concat_shape_sum concat_shape_length)

lemma prob_h_shape:
  "has_shape n mi V \<Longrightarrow> has_shape mi mo W \<Longrightarrow> length HB = mo \<Longrightarrow> 0 < mi \<Longrightarrow>
     has_shape n mo (prob_h_given_v V W HB)"
  by (simp add: prob_h_given_v_def sigmoid_m_shape add_bias_shape matmul_shape)

lemma prob_h_nth:
  "has_shape n mi V \<Longrightarrow> has_shape mi mo W \<Longrightarrow> length HB = mo \<Longrightarrow> 0 < mi \<Longrightarrow>
     i < n \<Longrightarrow> j < mo \<Longrightarrow>
     prob_h_given_v V W HB ! i ! j = sigmoid ((\<Sum>l<mi. V ! i ! l * W ! l ! j) + HB ! j)"
  by (simp add: prob_h_given_v_def sigmoid_m_nth[of n mo] add_bias_shape matmul_shape
      add_bias_nth[of n mo] matmul_nth[of n mi _ mo])

lemma prob_v_shape:
  "has_shape n mo H \<Longrightarrow> has_shape mi mo W \<Longrightarrow> length VB = mi \<Longrightarrow> 0 < mi \<Longrightarrow> 0 < mo \<Longrightarrow>
     has_shape n mi (prob_v_given_h H W VB)"
  by (simp add: prob_v_given_h_def sigmoid_m_shape add_bias_shape matmul_shape[of n mo _ mi]
      transpose_shape)

lemma prob_v_nth:
  assumes "has_shape n mo H" "has_shape mi mo W" "length VB = mi" "0 < mi" "0 < mo"
    "i < n" "j < mi"
  shows "prob_v_given_h H W VB ! i ! j = sigmoid ((\<Sum>l<mo. H ! i ! l * W ! j ! l) + VB ! j)"
proof -
  have t: "has_shape mo mi (transpose_m W)"
    using assms by (simp add: transpose_shape)
  have m: "has_shape n mi (matmul H (transpose_m W))"
    using assms t by (simp add: matmul_shape[of n mo _ mi])
  have "matmul H (transpose_m W) ! i ! j = (\<Sum>l<mo. H ! i ! l * transpose_m W ! l ! j)"
    using assms t by (simp add: matmul_nth[of n mo _ mi])
  also have "\<dots> = (\<Sum>l<mo. H ! i ! l * W ! j ! l)"
    using assms by (intro sum.cong) (simp_all add: transpose_nth[of mi mo])
  finally show ?thesis
    using assms m
    by (simp add: prob_v_given_h_def sigmoid_m_nth[of n mi] add_bias_shape add_bias_nth[of n mi])
qed

lemma h0_shape:
  "has_shape n mi V \<Longrightarrow> has_shape mi mo W \<Longrightarrow> length HB = mo \<Longrightarrow> 0 < mi \<Longrightarrow>
     has_shape n mo (h0 V W HB d)"
  by (simp add: h0_def sample_prob_shape prob_h_shape)

lemma h0_nth:
  "has_shape n mi V \<Longrightarrow> has_shape mi mo W \<Longrightarrow> length HB = mo \<Longrightarrow> 0 < mi \<Longrightarrow>
     i < n \<Longrightarrow> j < mo \<Longrightarrow>
     h0 V W HB d ! i ! j =
       (if fst d i j < sigmoid ((\<Sum>l<mi. V ! i ! l * W ! l ! j) + HB ! j) then 1 else 0)"
  by (simp add: h0_def sample_prob_nth[of n mo] prob_h_shape prob_h_nth[of n mi _ mo])

lemma v1_shape:
  "has_shape n mi V \<Longrightarrow> has_shape mi mo W \<Longrightarrow> length HB = mo \<Longrightarrow> length VB = mi \<Longrightarrow>
     0 < mi \<Longrightarrow> 0 < mo \<Longrightarrow> has_shape n mi (v1 V W HB VB d)"
  by (simp add: v1_def sample_prob_shape prob_v_shape[of n mo] h0_shape[of n mi])

lemma v1_nth:
  "has_shape n mi V \<Longrightarrow> has_shape mi mo W \<Longrightarrow> length HB = mo \<Longrightarrow> length VB = mi \<Longrightarrow>
     0 < mi \<Longrightarrow> 0 < mo \<Longrightarrow> i < n \<Longrightarrow> j < mi \<Longrightarrow>
     v1 V W HB VB d ! i ! j =
       (if snd d i j < sigmoid ((\<Sum>l<mo. h0 V W HB d ! i ! l * W ! j ! l) + VB ! j)
        then 1 else 0)"
  by (simp add: v1_def sample_prob_nth[of n mi] prob_v_shape[of n mo] h0_shape[of n mi]
      prob_v_nth[of n mo _ mi])

lemma h1_shape:
  "has_shape n mi V \<Longrightarrow> has_shape mi mo W \<Longrightarrow> length HB = mo \<Longrightarrow> length VB = mi \<Longrightarrow>
     0 < mi \<Longrightarrow> 0 < mo \<Longrightarrow> has_shape n mo (h1 V W HB VB d)"
  by (simp add: h1_def prob_h_shape[of n mi] v1_shape[of n mi _ mo])

lemma h1_nth:
  "has_shape n mi V \<Longrightarrow> has_shape mi mo W \<Longrightarrow> length HB = mo \<Longrightarrow> length VB = mi \<Longrightarrow>
     0 < mi \<Longrightarrow> 0 < mo \<Longrightarrow> i < n \<Longrightarrow> j < mo \<Longrightarrow>
     h1 V W HB VB d ! i ! j =
       sigmoid ((\<Sum>l<mi. v1 V W HB VB d ! i ! l * W ! l ! j) + HB ! j)"
  by (simp add: h1_def prob_h_nth[of n mi _ mo] v1_shape[of n mi _ mo])

lemma grad_shape:
  "has_shape n mi A \<Longrightarrow> has_shape n mo B \<Longrightarrow> 0 < n \<Longrightarrow>
     has_shape mi mo (matmul (transpose_m A) B)"
  by (simp add: matmul_shape[of mi n _ mo] transpose_shape)

lemma grad_nth:
  assumes "has_shape n mi A" "has_shape n mo B" "0 < n" "i < mi" "j < mo"
  shows "matmul (transpose_m A) B ! i ! j = (\<Sum>k<n. A ! k ! i * B ! k ! j)"
proof -
  have "matmul (transpose_m A) B ! i ! j = (\<Sum>k<n. transpose_m A ! i ! k * B ! k ! j)"
    using assms by (simp add: matmul_nth[of mi n _ mo] transpose_shape)
  also have "\<dots> = (\<Sum>k<n. A ! k ! i * B ! k ! j)"
    using assms by (intro sum.cong) (simp_all add: transpose_nth[of n mi])
  finally show ?thesis .
qed

lemma update_w_shape:
  assumes "has_shape n mi V" "has_shape mi mo W" "length HB = mo" "length VB = mi"
    "0 < mi" "0 < mo" "0 < n"
  shows "has_shape mi mo (update_w lr V W HB VB d)"
  using assms
  by (simp add: update_w_def positive_grad_def negative_grad_def madd_shape mdiv_shape
      mscale_shape msub_shape grad_shape[of n] h0_shape[of n mi] v1_shape[of n mi _ mo]
      h1_shape[of n mi _ mo])

lemma update_w_nth:
  assumes "has_shape n mi V" "has_shape mi mo W" "length HB = mo" "length VB = mi"
    "0 < mi" "0 < mo" "0 < n" "i < mi" "j < mo"
  shows "update_w lr V W HB VB d ! i ! j =
     W ! i ! j + lr * ((\<Sum>k<n. V ! k ! i * h0 V W HB d ! k ! j)
                      - (\<Sum>k<n. v1 V W HB VB d ! k ! i * h1 V W HB VB d ! k ! j)) / real n"
proof -
  have hs: "has_shape n mo (h0 V W HB d)" "has_shape n mi (v1 V W HB VB d)"
    "has_shape n mo (h1 V W HB VB d)"
    using assms by (simp_all add: h0_shape[of n mi] v1_shape[of n mi _ mo] h1_shape[of n mi _ mo])
  have p: "has_shape mi mo (positive_grad V W HB d)"
    and q: "has_shape mi mo (negative_grad V W HB VB d)"
    using assms hs by (simp_all add: positive_grad_def negative_grad_def grad_shape[of n])
  have pn: "positive_grad V W HB d ! i ! j = (\<Sum>k<n. V ! k ! i * h0 V W HB d ! k ! j)"
    using assms hs by (simp add: positive_grad_def grad_nth[of n mi _ mo])
  have qn: "negative_grad V W HB VB d ! i ! j =
      (\<Sum>k<n. v1 V W HB VB d ! k ! i * h1 V W HB VB d ! k ! j)"
    using assms hs by (simp add: negative_grad_def grad_nth[of n mi _ mo])
  have n: "length V = n" using assms by (simp add: has_shape_iff)
  show ?thesis
    using assms p q pn qn n
    by (simp add: update_w_def madd_nth[of mi mo] mdiv_shape mscale_shape msub_shape
        mdiv_nth[of mi mo] mscale_nth[of mi mo] msub_nth[of mi mo])
qed

lemma vscale_nth: "j < length x \<Longrightarrow> vscale c x ! j = c * x ! j"
  by (simp add: vscale_def)

lemma update_vb_length:
  assumes "has_shape n mi V" "has_shape mi mo W" "length HB = mo" "length VB = mi"
    "0 < mi" "0 < mo" "0 < n"
  shows "length (update_vb lr V W HB VB d) = mi"
  using assms
  by (simp add: update_vb_def vadd_def vscale_def
      reduce_mean0_length[of n mi] msub_shape v1_shape[of n mi _ mo])

lemma update_vb_nth:
  assumes "has_shape n mi V" "has_shape mi mo W" "length HB = mo" "length VB = mi"
    "0 < mi" "0 < mo" "0 < n" "i < mi"
  shows "update_vb lr V W HB VB d ! i =
     VB ! i + lr * ((\<Sum>k<n. V ! k ! i - v1 V W HB VB d ! k ! i) / real n)"
proof -
  have hs: "has_shape n mi (v1 V W HB VB d)"
    using assms by (simp add: v1_shape[of n mi _ mo])
  have s: "has_shape n mi (msub V (v1 V W HB VB d))"
    using assms hs by (simp add: msub_shape)
  have "reduce_mean0 (msub V (v1 V W HB VB d)) ! i
      = (\<Sum>k<n. msub V (v1 V W HB VB d) ! k ! i) / real n"
    using assms s by (simp add: reduce_mean0_nth[of n mi])
  also have "(\<Sum>k<n. msub V (v1 V W HB VB d) ! k ! i) = (\<Sum>k<n. V ! k ! i - v1 V W HB VB d ! k ! i)"
    using assms hs by (intro sum.cong) (simp_all add: msub_nth[of n mi])
  finally show ?thesis
    using assms s
    by (simp add: update_vb_def vadd_nth vscale_nth vscale_def reduce_mean0_length[of n mi])
qed

lemma update_hb_length:
  assumes "has_shape n mi V" "has_shape mi mo W" "length HB = mo" "length VB = mi"
    "0 < mi" "0 < mo" "0 < n"
  shows "length (update_hb lr V W HB VB d) = mo"
  using assms
  by (simp add: update_hb_def vadd_def vscale_def
      reduce_mean0_length[of n mo] msub_shape h0_shape[of n mi] h1_shape[of n mi _ mo])

lemma update_hb_nth:
  assumes "has_shape n mi V" "has_shape mi mo W" "length HB = mo" "length VB = mi"
    "0 < mi" "0 < mo" "0 < n" "j < mo"
  shows "update_hb lr V W HB VB d ! j =
     HB ! j + lr * ((\<Sum>k<n. h0 V W HB d ! k ! j - h1 V W HB VB d ! k ! j) / real n)"
proof -
  have hs: "has_shape n mo (h0 V W HB d)" "has_shape n mo (h1 V W HB VB d)"
    using assms by (simp_all add: h0_shape[of n mi] h1_shape[of n mi _ mo])
  have s: "has_shape n mo (msub (h0 V W HB d) (h1 V W HB VB d))"
    using hs by (simp add: msub_shape)
  have "reduce_mean0 (msub (h0 V W HB d) (h1 V W HB VB d)) ! j
      = (\<Sum>k<n. msub (h0 V W HB d) (h1 V W HB VB d) ! k ! j) / real n"
    using assms s by (simp add: reduce_mean0_nth[of n mo])
  also have "(\<Sum>k<n. msub (h0 V W HB d) (h1 V W HB VB d) ! k ! j)
      = (\<Sum>k<n. h0 V W HB d ! k ! j - h1 V W HB VB d ! k ! j)"
    using assms hs by (intro sum.cong) (simp_all add: msub_nth[of n mo])
  finally show ?thesis
    using assms s
    by (simp add: update_hb_def vadd_nth vscale_nth vscale_def reduce_mean0_length[of n mo])
qed

lemma err_sum:
  assumes "has_shape n mi V" "has_shape mi mo W" "length HB = mo" "length VB = mi"
    "0 < mi" "0 < mo"
  shows "err V W HB VB d =
     (\<Sum>k<n. \<Sum>i<mi. (V ! k ! i - v1 V W HB VB d ! k ! i)\<^sup>2) / real (n * mi)"
proof -
  have hs: "has_shape n mi (v1 V W HB VB d)"
    using assms by (simp add: v1_shape[of n mi _ mo])
  have s: "has_shape n mi (msub V (v1 V W HB VB d))"
    using assms hs by (simp add: msub_shape)
  have "(\<Sum>k<n. \<Sum>i<mi. square (msub V (v1 V W HB VB d)) ! k ! i)
      = (\<Sum>k<n. \<Sum>i<mi. (V ! k ! i - v1 V W HB VB d ! k ! i)\<^sup>2)"
    using assms hs s
    by (intro sum.cong) (simp_all add: square_nth[of n mi] msub_nth[of n mi] power2_eq_square)
  then show ?thesis
    using s by (simp add: err_def reduce_mean_sum[of n mi] square_shape)
qed

section \<open>Ranges and batches\<close>

lemma py_range_length: "length (py_range a b s) = (b - a + s - 1) div s"
  by (simp add: py_range_def)

lemma py_range_nth: "k < length (py_range a b s) \<Longrightarrow> py_range a b s ! k = a + k * s"
  by (simp add: py_range_def)

lemma py_range_bound:
  assumes "0 < s" "k < length (py_range a b s)"
  shows "a + k * s < b"
proof -
  have "Suc k \<le> (b - a + s - 1) div s"
    using assms by (simp add: py_range_length)
  then have "Suc k * s \<le> b - a + s - 1"
    using assms(1) by (simp add: less_eq_div_iff_mult_less_eq)
  then show ?thesis using assms(1) by (cases "b \<le> a") auto
qed

lemma batches_elem:
  assumes "0 < bs" "se \<in> set (batches n bs)"
  shows "snd se = fst se + bs \<and> snd se < n"
proof -
  obtain k where k: "k < length (py_range 0 n bs)" "k < length (py_range bs n bs)"
    and se: "se = (py_range 0 n bs ! k, py_range bs n bs ! k)"
    using assms(2) unfolding batches_def set_zip by auto
  have "bs + k * bs < n" using py_range_bound[OF assms(1) k(2)] .
  then show ?thesis using k se by (simp add: py_range_nth)
qed

lemma batches_empty: "0 < bs \<Longrightarrow> n \<le> bs \<Longrightarrow> batches n bs = []"
  by (simp add: batches_def py_range_def)

lemma slice_append_last:
  "e \<le> length xs \<Longrightarrow> slice (xs @ [x]) s e = slice xs s e"
  by (simp add: slice_def)

lemma slice_shape:
  assumes "list_all (\<lambda>row. length row = m) X" "s + b \<le> length X"
  shows "has_shape b m (slice X s (s + b))"
proof -
  have "set (slice X s (s + b)) \<subseteq> set X"
    by (auto simp: slice_def dest: in_set_takeD in_set_dropD)
  then show ?thesis
    using assms by (auto simp: has_shape_def list_all_iff slice_def)
qed

lemma batch_shape:
  assumes "list_all (\<lambda>row. length row = m) X" "0 < bs" "se \<in> set (batches (length X) bs)"
  shows "has_shape bs m (slice X (fst se) (snd se))"
  using batches_elem[OF assms(2,3)] slice_shape[OF assms(1), of "fst se" bs] by simp

section \<open>The training loops and the last example\<close>

subsection \<open>The training loop of the RBM\<close>

lemma batch_step_printed:
  "batch_step r X rng (st\<lparr>printed := p\<rparr>) se = (batch_step r X rng st se)\<lparr>printed := p\<rparr>"
  by (simp add: batch_step_def Let_def)

lemma foldl_batch_step_printed:
  "foldl (batch_step r X rng) (st\<lparr>printed := p\<rparr>) B
     = (foldl (batch_step r X rng) st B)\<lparr>printed := p\<rparr>"
  by (induction B arbitrary: st) (simp_all add: batch_step_printed)

lemma batch_step_last_row:
  assumes "0 < bs" "se \<in> set (batches (Suc (length X)) bs)"
  shows "batch_step r (X @ [x]) rng st se = batch_step r (X @ [x']) rng st se"
proof -
  have "snd se \<le> length X" using batches_elem[OF assms] by simp
  then show ?thesis by (simp add: batch_step_def slice_append_last)
qed

lemma foldl_batch_step_last_row:
  assumes "0 < bs"
  shows "foldl (batch_step r (X @ [x]) rng) st (batches (Suc (length X)) bs)
     = foldl (batch_step r (X @ [x']) rng) st (batches (Suc (length X)) bs)"
  by (rule foldl_cong) (simp_all add: batch_step_last_row[OF assms])

lemma epoch_step_core:
  "(epoch_step r X rng st)\<lparr>printed := []\<rparr>
     = (let s = foldl (batch_step r X rng) (st\<lparr>printed := []\<rparr>) (batches (length X) (batchsize r))
        in s\<lparr>run := run s + 1\<rparr>)"
  by (simp add: epoch_step_def Let_def foldl_batch_step_printed)

lemma epoch_step_last_row:
  assumes "0 < batchsize r" "st1\<lparr>printed := []\<rparr> = st2\<lparr>printed := []\<rparr>"
  shows "(epoch_step r (X @ [x]) rng st1)\<lparr>printed := []\<rparr>
     = (epoch_step r (X @ [x']) rng st2)\<lparr>printed := []\<rparr>"
  using assms(2)
  by (simp add: epoch_step_core foldl_batch_step_last_row[OF assms(1), of r X x rng _ x'])

lemma epochs_last_row:
  assumes "0 < batchsize r"
  shows "((epoch_step r (X @ [x]) rng ^^ k) st)\<lparr>printed := []\<rparr>
     = ((epoch_step r (X @ [x']) rng ^^ k) st)\<lparr>printed := []\<rparr>"
  by (induction k) (simp_all add: epoch_step_last_row[OF assms])

lemma core_fields:
  assumes "st1\<lparr>printed := []\<rparr> = st2\<lparr>printed := []\<rparr>"
  shows "prv_w st1 = prv_w st2 \<and> prv_hb st1 = prv_hb st2 \<and> prv_vb st1 = prv_vb st2"
  using arg_cong[OF assms, of prv_w] arg_cong[OF assms, of prv_hb] arg_cong[OF assms, of prv_vb]
  by simp

lemma train_last_row:
  assumes "length x = length x'"
  shows "map_sum id fst (train r (X @ [x]) rng) = map_sum id fst (train r (X @ [x']) rng)"
proof (cases "0 < batchsize r")
  case True
  from core_fields[OF epochs_last_row[OF True, where X=X and x=x and x'=x' and rng=rng and k="epochs r" and st="train_init r"]]
  show ?thesis using assms by (simp add: train_def Let_def)
next
  case False
  then show ?thesis using assms by (cases "epochs r = 0") (simp_all add: train_def Let_def)
qed

lemma epoch_step_no_batches:
  "0 < batchsize r \<Longrightarrow> length X \<le> batchsize r \<Longrightarrow>
     epoch_step r X rng st
       = st\<lparr>run := run st + 1,
            printed := printed st @ [err X (cur_w st) (cur_hb st) (cur_vb st) (rng (run st))]\<rparr>"
  by (simp add: epoch_step_def batches_empty)

lemma batch_step_cong_rbm:
  "learning_rate r' = learning_rate r \<Longrightarrow> batch_step r' = batch_step r"
  by (simp add: fun_eq_iff batch_step_def)

lemma epoch_step_cong_rbm:
  "learning_rate r' = learning_rate r \<Longrightarrow> batchsize r' = batchsize r \<Longrightarrow>
     epoch_step r' = epoch_step r"
  by (simp add: fun_eq_iff epoch_step_def batch_step_cong_rbm[of r' r])

lemma train_ignores:
  "train (r\<lparr>rbm_w := W, rbm_hb := HB, rbm_vb := VB\<rparr>) X rng = train r X rng"
  by (simp add: train_def train_init_def
      epoch_step_cong_rbm[of "r\<lparr>rbm_w := W, rbm_hb := HB, rbm_vb := VB\<rparr>" r])

lemma train_result_shape:
  "train r X rng = Inr (r', errs) \<Longrightarrow>
     \<exists>W HB VB. r' = r\<lparr>rbm_w := W, rbm_hb := HB, rbm_vb := VB\<rparr>"
  by (auto simp: train_def Let_def split: if_splits)

lemma epochs_no_batches:
  assumes "0 < batchsize r" "length X \<le> batchsize r"
  shows "\<exists>p. ((epoch_step r X rng) ^^ k) (train_init r) = (train_init r)\<lparr>run := k, printed := p\<rparr>"
proof (induction k)
  case 0
  then show ?case by (simp add: train_init_def)
next
  case (Suc k)
  then obtain p where
    p: "((epoch_step r X rng) ^^ k) (train_init r) = (train_init r)\<lparr>run := k, printed := p\<rparr>"
    by blast
  have a: "((epoch_step r X rng) ^^ Suc k) (train_init r)
      = epoch_step r X rng ((train_init r)\<lparr>run := k, printed := p\<rparr>)"
    by (simp only: funpow.simps o_apply p)
  have b: "epoch_step r X rng ((train_init r)\<lparr>run := k, printed := p\<rparr>)
      = (train_init r)\<lparr>run := Suc k,
           printed := p @ [err X (cur_w (train_init r)) (cur_hb (train_init r))
                             (cur_vb (train_init r)) (rng k)]\<rparr>"
    by (simp add: epoch_step_no_batches[OF assms])
  show ?case unfolding a b by blast
qed

lemma train_no_batches:
  assumes "0 < batchsize r" "length X \<le> batchsize r" "list_all (\<lambda>row. length row = input_size r) X"
  shows "\<exists>errs. train r X rng
     = Inr (r\<lparr>rbm_w := zeros (input_size r) (output_size r),
              rbm_hb := zeros_vec (output_size r), rbm_vb := zeros_vec (input_size r)\<rparr>, errs)"
proof -
  obtain p where
    "((epoch_step r X rng) ^^ epochs r) (train_init r) = (train_init r)\<lparr>run := epochs r, printed := p\<rparr>"
    using epochs_no_batches[OF assms(1,2)] by blast
  then show ?thesis
    using assms by (simp add: train_def train_init_def)
qed

subsection \<open>The training loop of the classifier\<close>

lemma nn_batch_last_row:
  assumes "0 < bs" "se \<in> set (batches (Suc (length X)) bs)" "length Y = length X"
  shows "nn_batch tr (n\<lparr>nn_X := X @ [x], nn_Y := Y @ [y]\<rparr>) s se
     = nn_batch tr (n\<lparr>nn_X := X @ [x'], nn_Y := Y @ [y']\<rparr>) s se"
proof -
  have "snd se \<le> length X" using batches_elem[OF assms(1,2)] by simp
  then show ?thesis using assms(3) by (simp add: nn_batch_def slice_append_last)
qed

lemma foldl_nn_batch_last_row:
  assumes "0 < bs" "length Y = length X"
  shows "foldl (nn_batch tr (n\<lparr>nn_X := X @ [x], nn_Y := Y @ [y]\<rparr>)) s (batches (Suc (length X)) bs)
     = foldl (nn_batch tr (n\<lparr>nn_X := X @ [x'], nn_Y := Y @ [y']\<rparr>)) s (batches (Suc (length X)) bs)"
  by (rule foldl_cong) (simp_all add: nn_batch_last_row[OF assms(1) _ assms(2)])

lemma nn_batch_data:
  "nn_X n' = nn_X n \<Longrightarrow> nn_Y n' = nn_Y n \<Longrightarrow> nn_batch tr n' = nn_batch tr n"
  by (simp add: fun_eq_iff nn_batch_def)

lemma nn_epoch_last_row:
  assumes bs: "0 < nn_batchsize (self st1)" and len: "length Y = length X"
    and d1: "nn_X (self st1) = X @ [x]" "nn_Y (self st1) = Y @ [y]"
    and d2: "nn_X (self st2) = X @ [x']" "nn_Y (self st2) = Y @ [y']"
    and same: "same_but_data (self st1) (self st2)" "sess st1 = sess st2"
  shows "same_but_data (self (nn_epoch tr st1)) (self (nn_epoch tr st2))
     \<and> sess (nn_epoch tr st1) = sess (nn_epoch tr st2)
     \<and> nn_X (self (nn_epoch tr st1)) = X @ [x] \<and> nn_Y (self (nn_epoch tr st1)) = Y @ [y]
     \<and> nn_X (self (nn_epoch tr st2)) = X @ [x'] \<and> nn_Y (self (nn_epoch tr st2)) = Y @ [y']
     \<and> nn_batchsize (self (nn_epoch tr st1)) = nn_batchsize (self st1)"
proof -
  have f: "nn_batchsize (self st2) = nn_batchsize (self st1)"
    using same(1) by (simp add: same_but_data_def)
  have b1: "nn_batch tr (self st1) = nn_batch tr ((self st1)\<lparr>nn_X := X @ [x], nn_Y := Y @ [y]\<rparr>)"
    by (rule nn_batch_data) (simp_all add: d1)
  have b2: "nn_batch tr (self st2) = nn_batch tr ((self st1)\<lparr>nn_X := X @ [x'], nn_Y := Y @ [y']\<rparr>)"
    by (rule nn_batch_data) (simp_all add: d2)
  have s: "foldl (nn_batch tr (self st1)) (sess st1) (batches (Suc (length X)) (nn_batchsize (self st1)))
      = foldl (nn_batch tr (self st2)) (sess st2) (batches (Suc (length X)) (nn_batchsize (self st1)))"
    unfolding b1 b2 same(2) by (rule foldl_nn_batch_last_row[OF bs len])
  show ?thesis
    using s f same d1 d2
    by (simp add: nn_epoch_def Let_def same_but_data_def)
qed

lemma nn_epochs_last_row:
  assumes bs: "0 < nn_batchsize (self st1)" and len: "length Y = length X"
    and d1: "nn_X (self st1) = X @ [x]" "nn_Y (self st1) = Y @ [y]"
    and d2: "nn_X (self st2) = X @ [x']" "nn_Y (self st2) = Y @ [y']"
    and same: "same_but_data (self st1) (self st2)" "sess st1 = sess st2"
  shows "same_but_data (self ((nn_epoch tr ^^ k) st1)) (self ((nn_epoch tr ^^ k) st2))
     \<and> sess ((nn_epoch tr ^^ k) st1) = sess ((nn_epoch tr ^^ k) st2)
     \<and> nn_X (self ((nn_epoch tr ^^ k) st1)) = X @ [x] \<and> nn_Y (self ((nn_epoch tr ^^ k) st1)) = Y @ [y]
     \<and> nn_X (self ((nn_epoch tr ^^ k) st2)) = X @ [x'] \<and> nn_Y (self ((nn_epoch tr ^^ k) st2)) = Y @ [y']
     \<and> nn_batchsize (self ((nn_epoch tr ^^ k) st1)) = nn_batchsize (self st1)"
proof (induction k)
  case 0
  then show ?case using assms by simp
next
  case (Suc k)
  have "0 < nn_batchsize (self ((nn_epoch tr ^^ k) st1))" using Suc bs by simp
  from nn_epoch_last_row[OF this len, where ?st2.0="(nn_epoch tr ^^ k) st2" and x=x and y=y and x'=x' and y'=y' and tr=tr] Suc
  show ?case by simp
qed

lemma ncols_append_last: "length x = length x' \<Longrightarrow> ncols (X @ [x]) = ncols (X @ [x'])"
  by (cases X) (simp_all add: ncols_def)

lemma empty_row_append_last:
  "length y = length y' \<Longrightarrow>
     list_ex (\<lambda>row. row = []) (Y @ [y]) = list_ex (\<lambda>row. row = []) (Y @ [y'])"
  by (auto simp: list_ex_iff)

lemma graph_width_last_row:
  assumes "length x = length x'" "length y = length y'"
  shows "graph_width (n\<lparr>nn_X := X @ [x], nn_Y := Y @ [y]\<rparr>)
     = graph_width (n\<lparr>nn_X := X @ [x'], nn_Y := Y @ [y']\<rparr>)"
  by (simp add: graph_width_def ncols_append_last[OF assms(1), of X]
      ncols_append_last[OF assms(2), of Y] cong: option.case_cong)

lemma NN_train_last_row:
  assumes "length Y = length X" "length x = length x'" "length y = length y'"
  shows "map_sum id (\<lambda>p. (w_list (fst p), b_list (fst p)))
       (NN_train tr o0 (n\<lparr>nn_X := X @ [x], nn_Y := Y @ [y]\<rparr>))
     = map_sum id (\<lambda>p. (w_list (fst p), b_list (fst p)))
       (NN_train tr o0 (n\<lparr>nn_X := X @ [x'], nn_Y := Y @ [y']\<rparr>))"
proof (cases "0 < nn_batchsize n")
  case True
  define st1 where "st1 = \<lparr> self = n\<lparr>nn_X := X @ [x], nn_Y := Y @ [y]\<rparr>,
      sess = nn_session (n\<lparr>nn_X := X @ [x], nn_Y := Y @ [y]\<rparr>) o0, shown = [] \<rparr>"
  define st2 where "st2 = \<lparr> self = n\<lparr>nn_X := X @ [x'], nn_Y := Y @ [y']\<rparr>,
      sess = nn_session (n\<lparr>nn_X := X @ [x'], nn_Y := Y @ [y']\<rparr>) o0, shown = [] \<rparr>"
  have "same_but_data (self ((nn_epoch tr ^^ epoches n) st1)) (self ((nn_epoch tr ^^ epoches n) st2))"
    using nn_epochs_last_row[where ?st1.0=st1 and Y=Y and X=X and x=x and y=y and ?st2.0=st2 and x'=x' and y'=y' and tr=tr and k="epoches n"] True assms(1)
    by (simp add: st1_def st2_def same_but_data_def nn_session_def)
  then have r: "w_list (self ((nn_epoch tr ^^ epoches n) st1)) = w_list (self ((nn_epoch tr ^^ epoches n) st2))"
    "b_list (self ((nn_epoch tr ^^ epoches n) st1)) = b_list (self ((nn_epoch tr ^^ epoches n) st2))"
    by (simp_all add: same_but_data_def)
  show ?thesis
    unfolding NN_train_def Let_def st1_def[symmetric] st2_def[symmetric]
      graph_width_last_row[OF assms(2,3), where n=n and X=X and Y=Y]
    using r empty_row_append_last[OF assms(3), of Y]
    by (auto split: option.split)
next
  case False
  then show ?thesis
    unfolding NN_train_def Let_def graph_width_last_row[OF assms(2,3), where n=n and X=X and Y=Y]
    using empty_row_append_last[OF assms(3), of Y]
    by (simp split: option.split)
qed

lemma foldl_update_same:
  "\<forall>j\<in>set js. j < length l \<longrightarrow> v ! j = l ! j \<Longrightarrow> foldl (\<lambda>l j. l[j := v ! j]) l js = l"
proof (induction js)
  case Nil
  then show ?case by simp
next
  case (Cons j js)
  have "l[j := v ! j] = l"
    using Cons.prems by (cases "j < length l") (simp_all add: list_update_beyond)
  then show ?case using Cons by simp
qed

lemma nn_epoch_no_batches:
  assumes "0 < nn_batchsize (self st)" "length (nn_X (self st)) \<le> nn_batchsize (self st)"
    and "var_w (sess st) = take (length (sizes (self st)) + 1) (w_list (self st))"
    and "var_b (sess st) = take (length (sizes (self st)) + 1) (b_list (self st))"
  shows "\<exists>a. nn_epoch tr st = st\<lparr>shown := shown st @ [a]\<rparr>"
proof -
  have w: "foldl (\<lambda>l j. l[j := var_w (sess st) ! j]) (w_list (self st)) [0..<length (sizes (self st)) + 1]
      = w_list (self st)"
    by (rule foldl_update_same) (simp add: assms(3))
  have b: "foldl (\<lambda>l j. l[j := var_b (sess st) ! j]) (b_list (self st)) [0..<length (sizes (self st)) + 1]
      = b_list (self st)"
    by (rule foldl_update_same) (simp add: assms(4))
  show ?thesis
    unfolding nn_epoch_def Let_def batches_empty[OF assms(1,2)] foldl_Nil w b
    by (cases st) simp
qed

lemma nn_epochs_no_batches:
  assumes "0 < nn_batchsize n" "length (nn_X n) \<le> nn_batchsize n"
  shows "\<exists>as. (nn_epoch tr ^^ k) \<lparr> self = n, sess = nn_session n o0, shown = [] \<rparr>
     = \<lparr> self = n, sess = nn_session n o0, shown = as \<rparr>"
proof (induction k)
  case 0
  then show ?case by simp
next
  case (Suc k)
  then obtain as where
    as: "(nn_epoch tr ^^ k) \<lparr> self = n, sess = nn_session n o0, shown = [] \<rparr>
      = \<lparr> self = n, sess = nn_session n o0, shown = as \<rparr>"
    by blast
  have a: "(nn_epoch tr ^^ Suc k) \<lparr> self = n, sess = nn_session n o0, shown = [] \<rparr>
      = nn_epoch tr \<lparr> self = n, sess = nn_session n o0, shown = as \<rparr>"
    by (simp only: funpow.simps o_apply as)
  obtain a' where "nn_epoch tr \<lparr> self = n, sess = nn_session n o0, shown = as \<rparr>
      = \<lparr> self = n, sess = nn_session n o0, shown = as @ [a'] \<rparr>"
    using nn_epoch_no_batches[where st="\<lparr> self = n, sess = nn_session n o0, shown = as \<rparr>" and tr=tr]
      assms by (auto simp: nn_session_def)
  then show ?case unfolding a by simp
qed

lemma NN_train_no_batches:
  assumes "0 < nn_batchsize n" "length (nn_X n) \<le> nn_batchsize n"
    and "length (sizes n) + 1 \<le> length (w_list n)" "length (sizes n) + 1 \<le> length (b_list n)"
    and "graph_width n = Some m" "0 < m" "\<not> list_ex (\<lambda>row. row = []) (nn_Y n)"
  shows "\<exists>accs. NN_train tr o0 n = Inr (n, accs)"
proof -
  obtain as where "(nn_epoch tr ^^ epoches n) \<lparr> self = n, sess = nn_session n o0, shown = [] \<rparr>
     = \<lparr> self = n, sess = nn_session n o0, shown = as \<rparr>"
    using nn_epochs_no_batches[OF assms(1,2), where tr=tr and k="epoches n"] by blast
  then show ?thesis using assms by (simp add: NN_train_def Let_def)
qed

section \<open>Claim C9: the last example is in no mini-batch\<close>

lemma no_empty_label_row:
  assumes "has_shape k (ncols Y) Y" "0 < ncols Y"
  shows "\<not> list_ex (\<lambda>row. row = []) Y"
  using assms by (auto simp: has_shape_def list_all_iff list_ex_iff)

text \<open>
  C9. For a dataset of \<open>n \<ge> 1\<close> examples and a batch size \<open>bs \<ge> 1\<close>, every mini-batch
  \<open>(start, end)\<close> of \<^verbatim>\<open>zip(range(0, n, bs), range(bs, n, bs))\<close> has \<open>end = start + bs\<close>
  and \<open>end < n\<close>, so the index \<open>n - 1\<close> of the last example lies in no batch, and there is
  no batch at all when \<open>n \<le> bs\<close>. For both training loops this means:
  \<^item> replacing the last example by another one of the same width does not change what
    \<^verbatim>\<open>RBM.train\<close> does: the same exception, or the same stored parameters;
  \<^item> for a classifier whose \<^verbatim>\<open>_X\<close> and \<^verbatim>\<open>_Y\<close> are 2-D arrays with one label row per
    example, replacing the last example and its label row by others of the same widths does
    not change what \<^verbatim>\<open>NN.train\<close> does: the same exception, or the same stored weights and
    biases;
  \<^item> on a dataset of at most \<open>bs\<close> examples \<^verbatim>\<open>RBM.train\<close> stores the all-zero parameters
    it started from;
  \<^item> on a dataset of at most \<open>bs\<close> examples, \<^verbatim>\<open>NN.train\<close> returns and leaves the
    classifier as it was, provided that the graph can be built and run: \<^verbatim>\<open>_X\<close> and \<^verbatim>\<open>_Y\<close>
    are 2-D arrays with one label row per example and at least one label column, the weight
    and bias lists hold an array for every layer, the shapes fit (\<open>graph_width\<close>) and the
    output layer has at least one unit. Without these the code raises before the first
    epoch ends, as \<open>NN_train\<close> says.
\<close>

theorem last_example_in_no_batch:
  assumes "1 \<le> n" and "1 \<le> bs" and "length x = length x'"
  shows "(\<forall>se\<in>set (batches n bs). snd se = fst se + bs \<and> snd se < n \<and> n - 1 \<notin> {fst se..<snd se})
    \<and> (n \<le> bs \<longrightarrow> batches n bs = [])
    \<and> map_sum id fst (train r (X @ [x]) rng) = map_sum id fst (train r (X @ [x']) rng)
    \<and> (length Y = length X \<and> length y = length y'
         \<and> list_all (\<lambda>row. length row = length x) X \<and> list_all (\<lambda>row. length row = length y) Y
         \<longrightarrow> map_sum id (\<lambda>p. (w_list (fst p), b_list (fst p)))
               (NN_train tr o0 (c\<lparr>nn_X := X @ [x], nn_Y := Y @ [y]\<rparr>))
             = map_sum id (\<lambda>p. (w_list (fst p), b_list (fst p)))
               (NN_train tr o0 (c\<lparr>nn_X := X @ [x'], nn_Y := Y @ [y']\<rparr>)))
    \<and> (0 < batchsize r \<and> length D \<le> batchsize r \<and> list_all (\<lambda>row. length row = input_size r) D
         \<longrightarrow> (\<exists>errs. train r D rng
               = Inr (r\<lparr>rbm_w := zeros (input_size r) (output_size r),
                        rbm_hb := zeros_vec (output_size r),
                        rbm_vb := zeros_vec (input_size r)\<rparr>, errs)))
    \<and> (0 < nn_batchsize c' \<and> 1 \<le> length (nn_X c') \<and> length (nn_X c') \<le> nn_batchsize c'
         \<and> length (sizes c') + 1 \<le> length (w_list c') \<and> length (sizes c') + 1 \<le> length (b_list c')
         \<and> has_shape (length (nn_X c')) (ncols (nn_X c')) (nn_X c')
         \<and> has_shape (length (nn_X c')) (ncols (nn_Y c')) (nn_Y c')
         \<and> 0 < ncols (nn_Y c') \<and> graph_width c' = Some m \<and> 0 < m
         \<longrightarrow> (\<exists>accs. NN_train tr o0 c' = Inr (c', accs)))"
proof -
  have a: "\<forall>se\<in>set (batches n bs). snd se = fst se + bs \<and> snd se < n \<and> n - 1 \<notin> {fst se..<snd se}"
  proof
    fix se assume "se \<in> set (batches n bs)"
    then have "snd se = fst se + bs \<and> snd se < n"
      using batches_elem[of bs se n] assms(2) by simp
    then show "snd se = fst se + bs \<and> snd se < n \<and> n - 1 \<notin> {fst se..<snd se}"
      by auto
  qed
  have b: "n \<le> bs \<longrightarrow> batches n bs = []"
    using assms(2) by (simp add: batches_empty)
  have c: "map_sum id fst (train r (X @ [x]) rng) = map_sum id fst (train r (X @ [x']) rng)"
    by (rule train_last_row[OF assms(3)])
  have d: "length Y = length X \<and> length y = length y'
         \<and> list_all (\<lambda>row. length row = length x) X \<and> list_all (\<lambda>row. length row = length y) Y
         \<longrightarrow> map_sum id (\<lambda>p. (w_list (fst p), b_list (fst p)))
               (NN_train tr o0 (c\<lparr>nn_X := X @ [x], nn_Y := Y @ [y]\<rparr>))
             = map_sum id (\<lambda>p. (w_list (fst p), b_list (fst p)))
               (NN_train tr o0 (c\<lparr>nn_X := X @ [x'], nn_Y := Y @ [y']\<rparr>))"
    by (intro impI, elim conjE, rule NN_train_last_row[OF _ assms(3)])
  have e: "0 < batchsize r \<and> length D \<le> batchsize r \<and> list_all (\<lambda>row. length row = input_size r) D
         \<longrightarrow> (\<exists>errs. train r D rng
               = Inr (r\<lparr>rbm_w := zeros (input_size r) (output_size r),
                        rbm_hb := zeros_vec (output_size r),
                        rbm_vb := zeros_vec (input_size r)\<rparr>, errs))"
    by (intro impI, elim conjE, rule train_no_batches)
  have f: "0 < nn_batchsize c' \<and> 1 \<le> length (nn_X c') \<and> length (nn_X c') \<le> nn_batchsize c'
         \<and> length (sizes c') + 1 \<le> length (w_list c') \<and> length (sizes c') + 1 \<le> length (b_list c')
         \<and> has_shape (length (nn_X c')) (ncols (nn_X c')) (nn_X c')
         \<and> has_shape (length (nn_X c')) (ncols (nn_Y c')) (nn_Y c')
         \<and> 0 < ncols (nn_Y c') \<and> graph_width c' = Some m \<and> 0 < m
         \<longrightarrow> (\<exists>accs. NN_train tr o0 c' = Inr (c', accs))"
  proof (intro impI, elim conjE)
    assume h: "0 < nn_batchsize c'" "length (nn_X c') \<le> nn_batchsize c'"
      "length (sizes c') + 1 \<le> length (w_list c')" "length (sizes c') + 1 \<le> length (b_list c')"
      "has_shape (length (nn_X c')) (ncols (nn_Y c')) (nn_Y c')" "0 < ncols (nn_Y c')"
      "graph_width c' = Some m" "0 < m"
    show "\<exists>accs. NN_train tr o0 c' = Inr (c', accs)"
      by (rule NN_train_no_batches[OF h(1-4) h(7,8) no_empty_label_row[OF h(5,6)]])
  qed
  show ?thesis
    by (rule conjI[OF a conjI[OF b conjI[OF c conjI[OF d conjI[OF e f]]]]])
qed

lemma eval_graph_width_1:
  "graph_width \<lparr> sizes = [], nn_X = [[0]], nn_Y = [[1]], w_list = [[[0]]], b_list = [[0]],
       nn_learning_rate = lr, momentum = mo, epoches = e, nn_batchsize = bsz \<rparr> = Some (Suc 0)"
  by (simp add: graph_width_def broadcast_width_def ncols_def)

theorem last_example_in_no_batch_witness:
  "batches 250 100 = [(0, 100), (100, 200)]
   \<and> snd (batches 250 100 ! 1) < 250 \<and> (250::nat) - 1 \<notin> {fst (batches 250 100 ! 1)..<snd (batches 250 100 ! 1)}
   \<and> batches 100 100 = []
   \<and> map_sum id fst (train (RBM_init 1 1) ([] @ [[0]]) (\<lambda>k. (\<lambda>i j. 0, \<lambda>i j. 0)))
     = map_sum id fst (train (RBM_init 1 1) ([] @ [[1]]) (\<lambda>k. (\<lambda>i j. 0, \<lambda>i j. 0)))
   \<and> map_sum id (\<lambda>p. (w_list (fst p), b_list (fst p)))
       (NN_train (\<lambda>s bx by. s) ()
         \<lparr> sizes = [], nn_X = [[2], [0]], nn_Y = [[3], [0]], w_list = [[[0]]], b_list = [[0]],
           nn_learning_rate = 1, momentum = 0, epoches = 10, nn_batchsize = 100 \<rparr>)
     = map_sum id (\<lambda>p. (w_list (fst p), b_list (fst p)))
       (NN_train (\<lambda>s bx by. s) ()
         \<lparr> sizes = [], nn_X = [[2], [1]], nn_Y = [[3], [1]], w_list = [[[0]]], b_list = [[0]],
           nn_learning_rate = 1, momentum = 0, epoches = 10, nn_batchsize = 100 \<rparr>)
   \<and> (\<exists>errs. train (RBM_init 1 1) [[1]] (\<lambda>k. (\<lambda>i j. 0, \<lambda>i j. 0)) = Inr (RBM_init 1 1, errs))
   \<and> (\<exists>accs. NN_train (\<lambda>s bx by. s) ()
         \<lparr> sizes = [], nn_X = [[0]], nn_Y = [[1]], w_list = [[[0]]], b_list = [[0]],
           nn_learning_rate = 1, momentum = 0, epoches = 10, nn_batchsize = 100 \<rparr>
       = Inr (\<lparr> sizes = [], nn_X = [[0]], nn_Y = [[1]], w_list = [[[0]]], b_list = [[0]],
           nn_learning_rate = 1, momentum = 0, epoches = 10, nn_batchsize = 100 \<rparr>, accs))"
proof -
  have b: "batches 250 100 = [(0, 100), (100, 200)]"
    by (simp add: batches_def py_range_def upt_rec)
  note t1 = last_example_in_no_batch[where n=250 and bs=100 and x="[0]" and x'="[1]" and X="[[2]]"
      and Y="[[3]]" and r="RBM_init 1 1" and rng="\<lambda>k. (\<lambda>i j. 0, \<lambda>i j. 0)" and tr="\<lambda>s bx by. s"
      and ?o0.0="()" and y="[0]" and y'="[1]" and D="[[1]]" and m="Suc 0"
      and c="\<lparr> sizes = [], nn_X = [], nn_Y = [], w_list = [[[0]]], b_list = [[0]],
           nn_learning_rate = 1, momentum = 0, epoches = 10, nn_batchsize = 100 \<rparr>"
      and c'="\<lparr> sizes = [], nn_X = [[0]], nn_Y = [[1]], w_list = [[[0]]], b_list = [[0]],
           nn_learning_rate = 1, momentum = 0, epoches = 10, nn_batchsize = 100 \<rparr>"]
  note t2 = last_example_in_no_batch[where n=100 and bs=100 and x="[0]" and x'="[1]" and X="[]"
      and Y="[]" and r="RBM_init 1 1" and rng="\<lambda>k. (\<lambda>i j. 0, \<lambda>i j. 0)" and tr="\<lambda>s bx by. s"
      and ?o0.0="()" and y="[0]" and y'="[1]" and D="[[1]]" and m="Suc 0"
      and c="\<lparr> sizes = [], nn_X = [], nn_Y = [], w_list = [[[0]]], b_list = [[0]],
           nn_learning_rate = 1, momentum = 0, epoches = 10, nn_batchsize = 100 \<rparr>"
      and c'="\<lparr> sizes = [], nn_X = [[0]], nn_Y = [[1]], w_list = [[[0]]], b_list = [[0]],
           nn_learning_rate = 1, momentum = 0, epoches = 10, nn_batchsize = 100 \<rparr>"]
  show ?thesis
    using t1 t2 b
    by (simp add: RBM_init_def zeros_def zeros_vec_def has_shape_def ncols_def eval_graph_width_1)
qed

section \<open>The model evaluated on small inputs\<close>

lemmas array_defs = zeros_def zeros_vec_def ncols_def col_def dot_def matmul_def transpose_m_def
  vadd_def vsub_def vscale_def madd_def msub_def mscale_def mdiv_def add_bias_def square_def
  reduce_mean0_def reduce_mean_def sign_def relu_def sigmoid_m_def slice_def
  sample_prob_def

lemmas node_defs = prob_h_given_v_def prob_v_given_h_def h0_def v1_def h1_def positive_grad_def
  negative_grad_def update_w_def update_vb_def update_hb_def err_def

lemma sigmoid_pos: "0 < sigmoid x"
  by (simp add: sigmoid_def add_pos_pos)

lemma sigmoid_less_one: "sigmoid x < 1"
  by (simp add: sigmoid_def add_pos_pos)

lemma sigmoid_zero: "sigmoid 0 = 1 / 2"
  by (simp add: sigmoid_def)

subsection \<open>One epoch of one batch\<close>

lemma eval_update_w: "update_w 1 [[1]] [[0]] [0] [0] (\<lambda>i j. 0, \<lambda>i j. 0) = [[1 / 2]]"
  by (simp add: array_defs node_defs sigmoid_pos sigmoid_zero)

lemma eval_update_hb: "update_hb 1 [[1]] [[0]] [0] [0] (\<lambda>i j. 0, \<lambda>i j. 0) = [1 / 2]"
  by (simp add: array_defs node_defs sigmoid_pos sigmoid_zero)

lemma eval_update_vb: "update_vb 1 [[1]] [[0]] [0] [0] (\<lambda>i j. 0, \<lambda>i j. 0) = [0]"
  by (simp add: array_defs node_defs sigmoid_pos sigmoid_zero)

lemma eval_err: "err [[1], [1]] [[1 / 2]] [1 / 2] [0] (\<lambda>i j. 0, \<lambda>i j. 0) = 0"
  by (simp add: array_defs node_defs sigmoid_pos sigmoid_zero)

lemma eval_batches_2_1: "batches (Suc (Suc 0)) (Suc 0) = [(0, Suc 0)]"
  by (simp add: batches_def py_range_def upt_conv_Cons)

lemma eval_batch_step:
  "batch_step ((RBM_init 1 1)\<lparr>epochs := 1, batchsize := 1\<rparr>) [[1], [1]] (\<lambda>k. (\<lambda>i j. 0, \<lambda>i j. 0))
     (train_init ((RBM_init 1 1)\<lparr>epochs := 1, batchsize := 1\<rparr>)) (0, Suc 0)
   = \<lparr> prv_w = [[1 / 2]], prv_hb = [1 / 2], prv_vb = [0],
       cur_w = [[1 / 2]], cur_hb = [1 / 2], cur_vb = [0], run = 3, printed = [] \<rparr>"
  by (simp add: batch_step_def Let_def train_init_def RBM_init_def
      slice_def zeros_def zeros_vec_def eval_update_w eval_update_hb eval_update_vb)

lemma eval_epoch_step:
  "epoch_step ((RBM_init 1 1)\<lparr>epochs := 1, batchsize := 1\<rparr>) [[1], [1]] (\<lambda>k. (\<lambda>i j. 0, \<lambda>i j. 0))
     (train_init ((RBM_init 1 1)\<lparr>epochs := 1, batchsize := 1\<rparr>))
   = \<lparr> prv_w = [[1 / 2]], prv_hb = [1 / 2], prv_vb = [0],
       cur_w = [[1 / 2]], cur_hb = [1 / 2], cur_vb = [0], run = 4, printed = [0] \<rparr>"
proof -
  have b: "batches (length [[1], [1::real]]) (batchsize ((RBM_init 1 1)\<lparr>epochs := 1, batchsize := 1\<rparr>))
      = [(0, Suc 0)]"
    by (simp add: eval_batches_2_1)
  show ?thesis
    unfolding epoch_step_def b foldl_Cons foldl_Nil eval_batch_step
    by (simp add: eval_err)
qed

lemma eval_train:
  "train ((RBM_init 1 1)\<lparr>epochs := 1, batchsize := 1\<rparr>) [[1], [1]] (\<lambda>k. (\<lambda>i j. 0, \<lambda>i j. 0))
     = Inr ((RBM_init 1 1)\<lparr>epochs := 1, batchsize := 1, rbm_w := [[1 / 2]], rbm_hb := [1 / 2],
              rbm_vb := [0]\<rparr>, [0])"
proof -
  have e: "epochs ((RBM_init 1 1)\<lparr>epochs := 1, batchsize := 1\<rparr>) = Suc 0"
    "batchsize ((RBM_init 1 1)\<lparr>epochs := 1, batchsize := 1\<rparr>) = Suc 0"
    "input_size ((RBM_init 1 1)\<lparr>epochs := 1, batchsize := 1\<rparr>) = Suc 0"
    by (simp_all add: RBM_init_def)
  show ?thesis
    unfolding train_def e funpow.simps o_apply id_apply Let_def eval_epoch_step
    by simp
qed

section \<open>Claim C10: training restarts from zero\<close>

text \<open>
  C10. \<^verbatim>\<open>RBM.train\<close> never reads the parameters \<^verbatim>\<open>w\<close>, \<^verbatim>\<open>hb\<close>, \<^verbatim>\<open>vb\<close> of the
  object: its result is the same whatever values they hold before the call. Hence two RBMs
  that agree on the sizes and on the hyper-parameters set by \<^verbatim>\<open>__init__\<close> (epochs,
  learning rate, batch size) get the same parameters and report the same errors when they
  are trained on the same data with the same random draws; a second call of \<^verbatim>\<open>train\<close>
  on a trained object behaves as a call on the untrained one (it restarts from zero); and
  with no epoch to run the stored parameters are the zero arrays the working parameters
  start from.
\<close>

theorem train_restarts_from_zero:
  "train (r\<lparr>rbm_w := W, rbm_hb := HB, rbm_vb := VB\<rparr>) X rng = train r X rng
   \<and> (input_size r1 = input_size r2 \<and> output_size r1 = output_size r2 \<and> epochs r1 = epochs r2
        \<and> learning_rate r1 = learning_rate r2 \<and> batchsize r1 = batchsize r2
      \<longrightarrow> map_sum id (\<lambda>p. (rbm_w (fst p), rbm_hb (fst p), rbm_vb (fst p), snd p)) (train r1 X rng)
          = map_sum id (\<lambda>p. (rbm_w (fst p), rbm_hb (fst p), rbm_vb (fst p), snd p)) (train r2 X rng))
   \<and> (\<forall>r' errs. train r X rng = Inr (r', errs) \<longrightarrow> train r' X' rng' = train r X' rng')
   \<and> (epochs r = 0 \<longrightarrow>
        train r X rng = Inr (r\<lparr>rbm_w := zeros (input_size r) (output_size r),
                                 rbm_hb := zeros_vec (output_size r),
                                 rbm_vb := zeros_vec (input_size r)\<rparr>, []))"
proof -
  have a: "train (r\<lparr>rbm_w := W, rbm_hb := HB, rbm_vb := VB\<rparr>) X rng = train r X rng" for r W HB VB X rng
    by (rule train_ignores)
  have b: "input_size r1 = input_size r2 \<and> output_size r1 = output_size r2 \<and> epochs r1 = epochs r2
        \<and> learning_rate r1 = learning_rate r2 \<and> batchsize r1 = batchsize r2
      \<longrightarrow> map_sum id (\<lambda>p. (rbm_w (fst p), rbm_hb (fst p), rbm_vb (fst p), snd p)) (train r1 X rng)
          = map_sum id (\<lambda>p. (rbm_w (fst p), rbm_hb (fst p), rbm_vb (fst p), snd p)) (train r2 X rng)"
  proof (intro impI, elim conjE)
    assume h: "input_size r1 = input_size r2" "output_size r1 = output_size r2"
      "epochs r1 = epochs r2" "learning_rate r1 = learning_rate r2" "batchsize r1 = batchsize r2"
    have "r1 = r2\<lparr>rbm_w := rbm_w r1, rbm_hb := rbm_hb r1, rbm_vb := rbm_vb r1\<rparr>"
      using h by (cases r1, cases r2) simp
    then have "train r1 X rng = train (r2\<lparr>rbm_w := rbm_w r1, rbm_hb := rbm_hb r1, rbm_vb := rbm_vb r1\<rparr>) X rng"
      by simp
    then have e: "train r1 X rng = train r2 X rng" by (simp only: a)
    show "map_sum id (\<lambda>p. (rbm_w (fst p), rbm_hb (fst p), rbm_vb (fst p), snd p)) (train r1 X rng)
          = map_sum id (\<lambda>p. (rbm_w (fst p), rbm_hb (fst p), rbm_vb (fst p), snd p)) (train r2 X rng)"
      by (simp only: e)
  qed
  have c: "\<forall>r' errs. train r X rng = Inr (r', errs) \<longrightarrow> train r' X' rng' = train r X' rng'"
  proof (intro allI impI)
    fix r' errs assume "train r X rng = Inr (r', errs)"
    then obtain W HB VB where "r' = r\<lparr>rbm_w := W, rbm_hb := HB, rbm_vb := VB\<rparr>"
      using train_result_shape by blast
    then show "train r' X' rng' = train r X' rng'" by (simp only: a)
  qed
  have d: "epochs r = 0 \<longrightarrow>
        train r X rng = Inr (r\<lparr>rbm_w := zeros (input_size r) (output_size r),
                                 rbm_hb := zeros_vec (output_size r),
                                 rbm_vb := zeros_vec (input_size r)\<rparr>, [])"
    by (simp add: train_def train_init_def)
  show ?thesis
    by (rule conjI[OF a conjI[OF b conjI[OF c d]]])
qed

theorem train_restarts_from_zero_witness:
  "train ((RBM_init 1 1)\<lparr>epochs := 1, batchsize := 1\<rparr>) [[1], [1]] (\<lambda>k. (\<lambda>i j. 0, \<lambda>i j. 0))
     = Inr ((RBM_init 1 1)\<lparr>epochs := 1, batchsize := 1, rbm_w := [[1 / 2]], rbm_hb := [1 / 2],
              rbm_vb := [0]\<rparr>, [0])
   \<and> train ((RBM_init 1 1)\<lparr>epochs := 1, batchsize := 1, rbm_w := [[1 / 2]], rbm_hb := [1 / 2],
              rbm_vb := [0]\<rparr>) [[1], [1]] (\<lambda>k. (\<lambda>i j. 0, \<lambda>i j. 0))
     = train ((RBM_init 1 1)\<lparr>epochs := 1, batchsize := 1\<rparr>) [[1], [1]] (\<lambda>k. (\<lambda>i j. 0, \<lambda>i j. 0))
   \<and> map_sum id (\<lambda>p. (rbm_w (fst p), rbm_hb (fst p), rbm_vb (fst p), snd p))
        (train ((RBM_init 1 1)\<lparr>epochs := 1, batchsize := 1, rbm_w := [[7]], rbm_hb := [8]\<rparr>)
           [[1], [1]] (\<lambda>k. (\<lambda>i j. 0, \<lambda>i j. 0)))
     = Inr ([[1 / 2]], [1 / 2], [0], [0])
   \<and> train ((RBM_init 1 1)\<lparr>epochs := 0, rbm_w := [[7]]\<rparr>) [[1], [1]] (\<lambda>k. (\<lambda>i j. 0, \<lambda>i j. 0))
     = Inr ((RBM_init 1 1)\<lparr>epochs := 0\<rparr>, [])"
proof -
  let ?r = "(RBM_init 1 1)\<lparr>epochs := 1, batchsize := 1\<rparr>"
  let ?r1 = "(RBM_init 1 1)\<lparr>epochs := 1, batchsize := 1, rbm_w := [[7]], rbm_hb := [8]\<rparr>"
  let ?rng = "\<lambda>k::nat. (\<lambda>(i::nat) (j::nat). 0::real, \<lambda>(i::nat) (j::nat). 0::real)"
  note t = train_restarts_from_zero[where r="?r" and X="[[1], [1]]" and X'="[[1], [1]]"
      and rng="?rng" and rng'="?rng" and ?r1.0="?r1" and ?r2.0="?r"]
  note z = train_restarts_from_zero[where r="(RBM_init 1 1)\<lparr>epochs := 0, rbm_w := [[7]]\<rparr>"
      and X="[[1], [1]]" and rng="?rng"]
  have a: "train ((RBM_init 1 1)\<lparr>epochs := 1, batchsize := 1, rbm_w := [[1 / 2]], rbm_hb := [1 / 2],
              rbm_vb := [0]\<rparr>) [[1], [1]] ?rng = train ?r [[1], [1]] ?rng"
    by (rule t[THEN conjunct2, THEN conjunct2, THEN conjunct1, rule_format, OF eval_train])
  have p: "input_size ?r1 = input_size ?r \<and> output_size ?r1 = output_size ?r
      \<and> epochs ?r1 = epochs ?r \<and> learning_rate ?r1 = learning_rate ?r \<and> batchsize ?r1 = batchsize ?r"
    by simp
  have b: "map_sum id (\<lambda>p. (rbm_w (fst p), rbm_hb (fst p), rbm_vb (fst p), snd p)) (train ?r1 [[1], [1]] ?rng)
     = Inr ([[1 / 2]], [1 / 2], [0], [0])"
    unfolding t[THEN conjunct2, THEN conjunct1, rule_format, OF p] eval_train
    by simp
  have c: "train ((RBM_init 1 1)\<lparr>epochs := 0, rbm_w := [[7]]\<rparr>) [[1], [1]] ?rng
     = Inr ((RBM_init 1 1)\<lparr>epochs := 0\<rparr>, [])"
    using z[THEN conjunct2, THEN conjunct2, THEN conjunct2]
    by (simp add: RBM_init_def zeros_def zeros_vec_def)
  show ?thesis
    by (rule conjI[OF eval_train conjI[OF a conjI[OF b c]]])
qed

section \<open>The transfer loop of the classifier\<close>

lemma length_foldl_update: "length (foldl (\<lambda>l i. l[i := f i]) l js) = length l"
  by (induction js arbitrary: l) simp_all

lemma nth_foldl_update:
  "j < length l \<Longrightarrow>
     foldl (\<lambda>l i. l[i := f i]) l js ! j = (if j \<in> set js then f j else l ! j)"
proof (induction js arbitrary: l)
  case Nil
  then show ?case by simp
next
  case (Cons i js)
  then show ?case by (simp add: nth_list_update)
qed

lemma drop_foldl_update:
  "\<forall>i\<in>set js. i < k \<Longrightarrow> drop k (foldl (\<lambda>l i. l[i := f i]) l js) = drop k l"
  by (induction js arbitrary: l) simp_all

lemma transfer_eq:
  "transfer n rbms js =
     (if \<forall>i\<in>set js. i < length rbms \<and> i < length (w_list n) \<and> i < length (b_list n)
      then Inr (n\<lparr> w_list := foldl (\<lambda>l i. l[i := rbm_w (rbms ! i)]) (w_list n) js,
                    b_list := foldl (\<lambda>l i. l[i := rbm_hb (rbms ! i)]) (b_list n) js \<rparr>)
      else Inl IndexError)"
  by (induction js arbitrary: n) simp_all

lemma transfer_result:
  "transfer n rbms js = Inr n' \<Longrightarrow>
     n' = n\<lparr> w_list := foldl (\<lambda>l i. l[i := rbm_w (rbms ! i)]) (w_list n) js,
              b_list := foldl (\<lambda>l i. l[i := rbm_hb (rbms ! i)]) (b_list n) js \<rparr>"
  by (simp add: transfer_eq split: if_splits)

lemma transfer_never_asserts: "transfer n rbms js \<noteq> Inl AssertionError"
  by (induction js arbitrary: n) simp_all

lemma transfer_reads_w_hb_only:
  "map rbm_w rbms = map rbm_w rbms' \<Longrightarrow> map rbm_hb rbms = map rbm_hb rbms' \<Longrightarrow>
     transfer n rbms js = transfer n rbms' js"
proof (induction js arbitrary: n)
  case Nil
  then show ?case by simp
next
  case (Cons i js)
  have l: "length rbms = length rbms'"
    using Cons.prems(1) by (rule map_eq_imp_length_eq)
  have "i < length rbms \<Longrightarrow> rbm_w (rbms ! i) = rbm_w (rbms' ! i) \<and> rbm_hb (rbms ! i) = rbm_hb (rbms' ! i)"
    using Cons.prems l by (metis nth_map)
  then show ?case using Cons.IH[OF Cons.prems] l by simp
qed

lemma sizes_differ_iff:
  "dbn_sizes \<noteq> szs \<longleftrightarrow>
     length dbn_sizes \<noteq> length szs \<or> list_ex (\<lambda>i. dbn_sizes ! i \<noteq> szs ! i) [0..<length szs]"
  using list_eq_iff_nth_eq[of dbn_sizes szs] by (auto simp: list_ex_iff)

lemma load_asserts_iff:
  "load_from_rbms n dbn_sizes rbm_list = Inl AssertionError \<longleftrightarrow> dbn_sizes \<noteq> sizes n"
  by (simp add: load_from_rbms_def sizes_differ_iff[of dbn_sizes "sizes n"] transfer_never_asserts)

lemma load_eq_transfer:
  "load_from_rbms n (sizes n) rbm_list = transfer n rbm_list [0..<length (sizes n)]"
  by (simp add: load_from_rbms_def list_ex_iff)

lemma load_result:
  assumes "load_from_rbms n dbn_sizes rbm_list = Inr n'"
  shows "dbn_sizes = sizes n" "transfer n rbm_list [0..<length (sizes n)] = Inr n'"
proof -
  have "load_from_rbms n dbn_sizes rbm_list \<noteq> Inl AssertionError" using assms by simp
  then show a: "dbn_sizes = sizes n" by (simp add: load_asserts_iff)
  show "transfer n rbm_list [0..<length (sizes n)] = Inr n'"
    using assms unfolding a load_eq_transfer .
qed

section \<open>Claim C2: the precondition of the parameter transfer\<close>

text \<open>
  C2, as the code has it. \<^verbatim>\<open>NN.load_from_rbms\<close> raises \<^verbatim>\<open>AssertionError\<close> exactly when
  the supplied list of layer sizes differs from the declared hidden-layer sizes (in length
  or at some position); the sizes of the RBM units in the supplied list are not compared
  with anything. When the two size lists agree and the RBM list has a unit, and the
  classifier a weight and a bias entry, for every hidden layer, the call succeeds and
  hidden layer \<open>i\<close> gets the weight matrix and the hidden-bias vector of RBM \<open>i\<close>.
\<close>

theorem load_from_rbms_precondition:
  "(load_from_rbms n dbn_sizes rbm_list = Inl AssertionError \<longleftrightarrow> dbn_sizes \<noteq> sizes n)
   \<and> (dbn_sizes = sizes n \<and> length (sizes n) \<le> length rbm_list
        \<and> length (sizes n) \<le> length (w_list n) \<and> length (sizes n) \<le> length (b_list n)
      \<longrightarrow> (\<exists>n'. load_from_rbms n dbn_sizes rbm_list = Inr n'
            \<and> (\<forall>i<length (sizes n). w_list n' ! i = rbm_w (rbm_list ! i)
                                     \<and> b_list n' ! i = rbm_hb (rbm_list ! i))))"
proof -
  have b: "dbn_sizes = sizes n \<and> length (sizes n) \<le> length rbm_list
        \<and> length (sizes n) \<le> length (w_list n) \<and> length (sizes n) \<le> length (b_list n)
      \<longrightarrow> (\<exists>n'. load_from_rbms n dbn_sizes rbm_list = Inr n'
            \<and> (\<forall>i<length (sizes n). w_list n' ! i = rbm_w (rbm_list ! i)
                                     \<and> b_list n' ! i = rbm_hb (rbm_list ! i)))"
  proof (intro impI, elim conjE)
    assume h: "dbn_sizes = sizes n" "length (sizes n) \<le> length rbm_list"
      "length (sizes n) \<le> length (w_list n)" "length (sizes n) \<le> length (b_list n)"
    let ?n' = "n\<lparr> w_list := foldl (\<lambda>l i. l[i := rbm_w (rbm_list ! i)]) (w_list n) [0..<length (sizes n)],
                  b_list := foldl (\<lambda>l i. l[i := rbm_hb (rbm_list ! i)]) (b_list n) [0..<length (sizes n)] \<rparr>"
    have "load_from_rbms n dbn_sizes rbm_list = Inr ?n'"
      using h by (simp add: load_eq_transfer transfer_eq)
    moreover have "\<forall>i<length (sizes n). w_list ?n' ! i = rbm_w (rbm_list ! i)
        \<and> b_list ?n' ! i = rbm_hb (rbm_list ! i)"
      using h by (simp add: nth_foldl_update)
    ultimately show "\<exists>n'. load_from_rbms n dbn_sizes rbm_list = Inr n'
            \<and> (\<forall>i<length (sizes n). w_list n' ! i = rbm_w (rbm_list ! i)
                                     \<and> b_list n' ! i = rbm_hb (rbm_list ! i))"
      by blast
  qed
  show ?thesis by (rule conjI[OF load_asserts_iff b])
qed

theorem load_from_rbms_precondition_witness:
  "load_from_rbms
      \<lparr> sizes = [2], nn_X = [[0]], nn_Y = [[1]], w_list = [[[3, 4]], [[5], [6]]],
        b_list = [[7, 8], [9]], nn_learning_rate = 1, momentum = 0, epoches = 10,
        nn_batchsize = 100 \<rparr> [3] [RBM_init 1 2] = Inl AssertionError
   \<and> (\<exists>n'. load_from_rbms
      \<lparr> sizes = [2], nn_X = [[0]], nn_Y = [[1]], w_list = [[[3, 4]], [[5], [6]]],
        b_list = [[7, 8], [9]], nn_learning_rate = 1, momentum = 0, epoches = 10,
        nn_batchsize = 100 \<rparr> [2] [RBM_init 1 2] = Inr n'
      \<and> w_list n' ! 0 = [[0, 0]] \<and> b_list n' ! 0 = [0, 0])"
proof -
  let ?n = "\<lparr> sizes = [2], nn_X = [[0]], nn_Y = [[1]], w_list = [[[3, 4]], [[5], [6]]],
        b_list = [[7, 8], [9]], nn_learning_rate = 1, momentum = 0, epoches = 10,
        nn_batchsize = 100 \<rparr>"
  have a: "load_from_rbms ?n [3] [RBM_init 1 2] = Inl AssertionError"
    using load_from_rbms_precondition[where n="?n" and dbn_sizes="[3]" and rbm_list="[RBM_init 1 2]"]
    by simp
  have b: "\<exists>n'. load_from_rbms ?n [2] [RBM_init 1 2] = Inr n'
      \<and> w_list n' ! 0 = [[0, 0]] \<and> b_list n' ! 0 = [0, 0]"
    using load_from_rbms_precondition[where n="?n" and dbn_sizes="[2]" and rbm_list="[RBM_init 1 2]"]
    by (simp add: RBM_init_def zeros_def zeros_vec_def numeral_2_eq_2)
  show ?thesis by (rule conjI[OF a b])
qed

text \<open>
  The claim as stated fails: an RBM unit with two hidden units is accepted for a hidden
  layer declared, and announced in the size list, with one unit.
\<close>

theorem load_from_rbms_counterexample:
  "output_size (RBM_init 1 2) \<noteq> [1] ! 0
   \<and> load_from_rbms
      \<lparr> sizes = [1], nn_X = [[0]], nn_Y = [[1]], w_list = [[[3]], [[5]]],
        b_list = [[7], [9]], nn_learning_rate = 1, momentum = 0, epoches = 10,
        nn_batchsize = 100 \<rparr> [1] [RBM_init 1 2]
     = Inr \<lparr> sizes = [1], nn_X = [[0]], nn_Y = [[1]], w_list = [[[0, 0]], [[5]]],
        b_list = [[0, 0], [9]], nn_learning_rate = 1, momentum = 0, epoches = 10,
        nn_batchsize = 100 \<rparr>"
  by (simp add: load_from_rbms_def RBM_init_def zeros_def zeros_vec_def numeral_2_eq_2)

section \<open>Claim C5: what the parameter transfer writes and reads\<close>

text \<open>
  C5. A successful \<^verbatim>\<open>NN.load_from_rbms\<close> changes nothing but the entries of
  \<^verbatim>\<open>w_list\<close> and \<^verbatim>\<open>b_list\<close> for the hidden layers: every other field of the
  classifier, the lengths of the two lists and their entries from position
  \<open>len(self._sizes)\<close> on are as before, so the weight matrix and the bias vector of the
  final layer are unchanged. The call reads only the \<^verbatim>\<open>w\<close> and \<^verbatim>\<open>hb\<close> of the RBM units:
  two RBM lists with the same weights and hidden biases give the same outcome, whatever
  their visible biases.
\<close>

theorem load_from_rbms_frame:
  "(load_from_rbms n dbn_sizes rbm_list = Inr n' \<longrightarrow>
      sizes n' = sizes n \<and> nn_X n' = nn_X n \<and> nn_Y n' = nn_Y n
      \<and> nn_learning_rate n' = nn_learning_rate n \<and> momentum n' = momentum n
      \<and> epoches n' = epoches n \<and> nn_batchsize n' = nn_batchsize n
      \<and> length (w_list n') = length (w_list n) \<and> length (b_list n') = length (b_list n)
      \<and> drop (length (sizes n)) (w_list n') = drop (length (sizes n)) (w_list n)
      \<and> drop (length (sizes n)) (b_list n') = drop (length (sizes n)) (b_list n)
      \<and> (length (w_list n) = length (sizes n) + 1 \<longrightarrow> last (w_list n') = last (w_list n))
      \<and> (length (b_list n) = length (sizes n) + 1 \<longrightarrow> last (b_list n') = last (b_list n)))
   \<and> (map rbm_w rbm_list = map rbm_w rbm_list' \<and> map rbm_hb rbm_list = map rbm_hb rbm_list'
      \<longrightarrow> load_from_rbms n dbn_sizes rbm_list = load_from_rbms n dbn_sizes rbm_list')
   \<and> load_from_rbms n dbn_sizes (map (\<lambda>r. r\<lparr>rbm_vb := vb r\<rparr>) rbm_list)
      = load_from_rbms n dbn_sizes rbm_list"
proof -
  have last_eq: "length l' = length l \<Longrightarrow> length l = k + 1 \<Longrightarrow> drop k l' = drop k l \<Longrightarrow> last l' = last l"
    for l l' :: "'a list" and k
  proof -
    assume a: "length l' = length l" "length l = k + 1" "drop k l' = drop k l"
    have x: "last (drop k l') = last l'" by (rule last_drop) (use a in simp)
    have y: "last (drop k l) = last l" by (rule last_drop) (use a in simp)
    show ?thesis using x y a(3) by (simp only:)
  qed
  have a: "load_from_rbms n dbn_sizes rbm_list = Inr n' \<longrightarrow>
      sizes n' = sizes n \<and> nn_X n' = nn_X n \<and> nn_Y n' = nn_Y n
      \<and> nn_learning_rate n' = nn_learning_rate n \<and> momentum n' = momentum n
      \<and> epoches n' = epoches n \<and> nn_batchsize n' = nn_batchsize n
      \<and> length (w_list n') = length (w_list n) \<and> length (b_list n') = length (b_list n)
      \<and> drop (length (sizes n)) (w_list n') = drop (length (sizes n)) (w_list n)
      \<and> drop (length (sizes n)) (b_list n') = drop (length (sizes n)) (b_list n)
      \<and> (length (w_list n) = length (sizes n) + 1 \<longrightarrow> last (w_list n') = last (w_list n))
      \<and> (length (b_list n) = length (sizes n) + 1 \<longrightarrow> last (b_list n') = last (b_list n))"
  proof
    assume h: "load_from_rbms n dbn_sizes rbm_list = Inr n'"
    note r = transfer_result[OF load_result(2)[OF h]]
    have lw: "length (w_list n') = length (w_list n)" and lb: "length (b_list n') = length (b_list n)"
      by (simp_all add: r length_foldl_update)
    have dw: "drop (length (sizes n)) (w_list n') = drop (length (sizes n)) (w_list n)"
      and db: "drop (length (sizes n)) (b_list n') = drop (length (sizes n)) (b_list n)"
      by (simp_all add: r drop_foldl_update)
    have f: "sizes n' = sizes n \<and> nn_X n' = nn_X n \<and> nn_Y n' = nn_Y n
      \<and> nn_learning_rate n' = nn_learning_rate n \<and> momentum n' = momentum n
      \<and> epoches n' = epoches n \<and> nn_batchsize n' = nn_batchsize n"
      by (simp add: r)
    show "sizes n' = sizes n \<and> nn_X n' = nn_X n \<and> nn_Y n' = nn_Y n
      \<and> nn_learning_rate n' = nn_learning_rate n \<and> momentum n' = momentum n
      \<and> epoches n' = epoches n \<and> nn_batchsize n' = nn_batchsize n
      \<and> length (w_list n') = length (w_list n) \<and> length (b_list n') = length (b_list n)
      \<and> drop (length (sizes n)) (w_list n') = drop (length (sizes n)) (w_list n)
      \<and> drop (length (sizes n)) (b_list n') = drop (length (sizes n)) (b_list n)
      \<and> (length (w_list n) = length (sizes n) + 1 \<longrightarrow> last (w_list n') = last (w_list n))
      \<and> (length (b_list n) = length (sizes n) + 1 \<longrightarrow> last (b_list n') = last (b_list n))"
      using f lw lb dw db last_eq[OF lw _ dw] last_eq[OF lb _ db] by blast
  qed
  have b: "map rbm_w rbm_list = map rbm_w rbm_list' \<and> map rbm_hb rbm_list = map rbm_hb rbm_list'
      \<longrightarrow> load_from_rbms n dbn_sizes rbm_list = load_from_rbms n dbn_sizes rbm_list'"
    by (simp add: load_from_rbms_def transfer_reads_w_hb_only[of rbm_list rbm_list'])
  have c: "load_from_rbms n dbn_sizes (map (\<lambda>r. r\<lparr>rbm_vb := vb r\<rparr>) rbm_list)
      = load_from_rbms n dbn_sizes rbm_list"
    unfolding load_from_rbms_def
    by (simp add: transfer_reads_w_hb_only[of "map (\<lambda>r. r\<lparr>rbm_vb := vb r\<rparr>) rbm_list" rbm_list] comp_def)
  show ?thesis by (rule conjI[OF a conjI[OF b c]])
qed

theorem load_from_rbms_frame_witness:
  "load_from_rbms
      \<lparr> sizes = [2], nn_X = [[0]], nn_Y = [[1]], w_list = [[[3, 4]], [[5], [6]]],
        b_list = [[7, 8], [9]], nn_learning_rate = 1, momentum = 0, epoches = 10,
        nn_batchsize = 100 \<rparr> [2] [RBM_init 1 2]
     = Inr \<lparr> sizes = [2], nn_X = [[0]], nn_Y = [[1]], w_list = [[[0, 0]], [[5], [6]]],
        b_list = [[0, 0], [9]], nn_learning_rate = 1, momentum = 0, epoches = 10,
        nn_batchsize = 100 \<rparr>
   \<and> last [[[0, 0]], [[5], [6::real]]] = last [[[3, 4]], [[5], [6]]]
   \<and> last [[0, 0], [9::real]] = last [[7, 8], [9]]
   \<and> load_from_rbms
      \<lparr> sizes = [2], nn_X = [[0]], nn_Y = [[1]], w_list = [[[3, 4]], [[5], [6]]],
        b_list = [[7, 8], [9]], nn_learning_rate = 1, momentum = 0, epoches = 10,
        nn_batchsize = 100 \<rparr> [2] [(RBM_init 1 2)\<lparr>rbm_vb := [42]\<rparr>]
     = load_from_rbms
      \<lparr> sizes = [2], nn_X = [[0]], nn_Y = [[1]], w_list = [[[3, 4]], [[5], [6]]],
        b_list = [[7, 8], [9]], nn_learning_rate = 1, momentum = 0, epoches = 10,
        nn_batchsize = 100 \<rparr> [2] [RBM_init 1 2]"
proof -
  let ?n = "\<lparr> sizes = [2], nn_X = [[0]], nn_Y = [[1]], w_list = [[[3, 4]], [[5], [6]]],
        b_list = [[7, 8], [9]], nn_learning_rate = 1, momentum = 0, epoches = 10,
        nn_batchsize = 100 \<rparr>"
  let ?n' = "\<lparr> sizes = [2], nn_X = [[0]], nn_Y = [[1]], w_list = [[[0, 0]], [[5], [6]]],
        b_list = [[0, 0], [9]], nn_learning_rate = 1, momentum = 0, epoches = 10,
        nn_batchsize = 100 \<rparr>"
  have e: "load_from_rbms ?n [2] [RBM_init 1 2] = Inr ?n'"
    by (simp add: load_from_rbms_def RBM_init_def zeros_def zeros_vec_def numeral_2_eq_2)
  note t = load_from_rbms_frame[where n="?n" and n'="?n'" and dbn_sizes="[2]"
      and rbm_list="[RBM_init 1 2]" and rbm_list'="[(RBM_init 1 2)\<lparr>rbm_vb := [42]\<rparr>]"]
  have a: "last (w_list ?n') = last (w_list ?n)" "last (b_list ?n') = last (b_list ?n)"
    using t[THEN conjunct1, rule_format, OF e] by simp_all
  have b: "load_from_rbms ?n [2] [(RBM_init 1 2)\<lparr>rbm_vb := [42]\<rparr>] = load_from_rbms ?n [2] [RBM_init 1 2]"
    using t[THEN conjunct2, THEN conjunct1] by simp
  show ?thesis using e a b by simp
qed

section \<open>Shapes and printed errors in the training loop of the RBM\<close>

lemma zeros_shape: "has_shape n m (zeros n m)"
  by (simp add: has_shape_iff zeros_def)

lemma zeros_nth: "i < n \<Longrightarrow> j < m \<Longrightarrow> zeros n m ! i ! j = 0"
  by (simp add: zeros_def)

lemma train_init_ok: "state_ok r (train_init r)"
  by (simp add: state_ok_def train_init_def zeros_shape zeros_vec_def)

lemma batch_step_ok:
  assumes "state_ok r st" "has_shape n (input_size r) (slice X (fst se) (snd se))" "0 < n"
    "0 < input_size r" "0 < output_size r"
  shows "state_ok r (batch_step r X rng st se)"
  using assms
  by (simp add: state_ok_def batch_step_def Let_def
      update_w_shape[of n "input_size r" _ "output_size r"]
      update_hb_length[of n "input_size r" _ "output_size r"]
      update_vb_length[of n "input_size r" _ "output_size r"])

lemma foldl_invariant:
  "P a \<Longrightarrow> (\<And>a x. P a \<Longrightarrow> x \<in> set xs \<Longrightarrow> P (f a x)) \<Longrightarrow> P (foldl f a xs)"
  by (induction xs arbitrary: a) simp_all

lemma batches_ok:
  assumes "state_ok r st" "list_all (\<lambda>row. length row = input_size r) X" "0 < batchsize r"
    "0 < input_size r" "0 < output_size r"
  shows "state_ok r (foldl (batch_step r X rng) st (batches (length X) (batchsize r)))"
proof (rule foldl_invariant[where P="state_ok r"])
  show "state_ok r st" by (rule assms(1))
next
  fix a se
  assume a: "state_ok r a" "se \<in> set (batches (length X) (batchsize r))"
  show "state_ok r (batch_step r X rng a se)"
    by (rule batch_step_ok[OF a(1) batch_shape[OF assms(2,3) a(2)] assms(3,4,5)])
qed

lemma epoch_step_ok:
  assumes "state_ok r st" "list_all (\<lambda>row. length row = input_size r) X" "0 < batchsize r"
    "0 < input_size r" "0 < output_size r"
  shows "state_ok r (epoch_step r X rng st)"
  using batches_ok[OF assms, of rng]
  by (simp add: epoch_step_def Let_def state_ok_def)

lemma epochs_ok:
  assumes "list_all (\<lambda>row. length row = input_size r) X" "0 < batchsize r"
    "0 < input_size r" "0 < output_size r"
  shows "state_ok r ((epoch_step r X rng ^^ k) (train_init r))"
  by (induction k) (simp_all add: train_init_ok epoch_step_ok[OF _ assms])

lemma after_batches_ok:
  assumes "list_all (\<lambda>row. length row = input_size r) X" "0 < batchsize r"
    "0 < input_size r" "0 < output_size r"
  shows "state_ok r (after_batches r X rng k)"
  unfolding after_batches_def
  by (rule batches_ok[OF epochs_ok[OF assms] assms])

lemma epoch_step_after:
  "(epoch_step r X rng ^^ Suc k) (train_init r)
     = (let s = after_batches r X rng k
        in s\<lparr>run := run s + 1,
             printed := printed s @ [err X (cur_w s) (cur_hb s) (cur_vb s) (rng (run s))]\<rparr>)"
  by (simp add: after_batches_def epoch_step_def Let_def)

lemma printed_batch_step: "printed (batch_step r X rng st se) = printed st"
  by (simp add: batch_step_def Let_def)

lemma printed_batches: "printed (foldl (batch_step r X rng) st B) = printed st"
  by (induction B arbitrary: st) (simp_all add: printed_batch_step)

lemma printed_epoch_step:
  "printed (epoch_step r X rng st)
     = printed st @ [let s = foldl (batch_step r X rng) st (batches (length X) (batchsize r))
                     in err X (cur_w s) (cur_hb s) (cur_vb s) (rng (run s))]"
  by (simp add: epoch_step_def Let_def printed_batches)

lemma printed_epochs_length:
  "length (printed ((epoch_step r X rng ^^ k) (train_init r))) = k"
  by (induction k) (simp_all add: printed_epoch_step train_init_def)

lemma printed_epochs_nth:
  "k < m \<Longrightarrow> printed ((epoch_step r X rng ^^ m) (train_init r)) ! k
     = (let s = after_batches r X rng k
        in err X (cur_w s) (cur_hb s) (cur_vb s) (rng (run s)))"
proof (induction m)
  case 0
  then show ?case by simp
next
  case (Suc m)
  show ?case
  proof (cases "k = m")
    case True
    then show ?thesis
      by (simp add: printed_epoch_step printed_epochs_length nth_append after_batches_def Let_def)
  next
    case False
    then have "k < m" using Suc.prems by simp
    then show ?thesis
      using Suc.IH by (simp add: printed_epoch_step printed_epochs_length nth_append)
  qed
qed

section \<open>Claim C4: one reconstruction error per epoch, over the whole dataset\<close>

lemma train_Inr:
  assumes "train r X rng = Inr (r', errs)"
  shows "errs = printed ((epoch_step r X rng ^^ epochs r) (train_init r))"
    and "rbm_w r' = prv_w ((epoch_step r X rng ^^ epochs r) (train_init r))"
    and "rbm_hb r' = prv_hb ((epoch_step r X rng ^^ epochs r) (train_init r))"
    and "rbm_vb r' = prv_vb ((epoch_step r X rng ^^ epochs r) (train_init r))"
    and "0 < epochs r \<Longrightarrow> 0 < batchsize r"
    and "0 < epochs r \<Longrightarrow> list_all (\<lambda>row. length row = input_size r) X"
  using assms by (auto simp: train_def Let_def split: if_splits)

text \<open>
  C4. When \<^verbatim>\<open>RBM.train\<close> returns (on a non-empty dataset, for an RBM with at least one
  visible and one hidden unit), it has printed exactly one reconstruction error per epoch.
  The error of epoch \<open>k\<close> is the sum over all rows \<open>i\<close> of the dataset and all visible units
  \<open>j\<close> of \<open>(X[i][j] - v1[i][j])\<^sup>2\<close>, divided by the number of entries of the dataset, where
  \<open>v1\<close> is the sampled reconstruction of the whole dataset computed with the parameters
  that the batch loop of epoch \<open>k\<close> has reached; these are the parameters the epoch ends
  with, and after the last epoch they are the parameters stored in the object.
\<close>

theorem reconstruction_error_per_epoch:
  assumes "train r X rng = Inr (r', errs)" and "0 < input_size r" and "0 < output_size r"
    and "X \<noteq> []"
  shows "length errs = epochs r
    \<and> (\<forall>k<epochs r.
          errs ! k
            = (\<Sum>i<length X. \<Sum>j<input_size r.
                 (X ! i ! j
                   - v1 X (prv_w (after_batches r X rng k)) (prv_hb (after_batches r X rng k))
                       (prv_vb (after_batches r X rng k)) (rng (run (after_batches r X rng k)))
                     ! i ! j)\<^sup>2)
              / real (length X * input_size r)
          \<and> prv_w ((epoch_step r X rng ^^ Suc k) (train_init r)) = prv_w (after_batches r X rng k)
          \<and> prv_hb ((epoch_step r X rng ^^ Suc k) (train_init r)) = prv_hb (after_batches r X rng k)
          \<and> prv_vb ((epoch_step r X rng ^^ Suc k) (train_init r)) = prv_vb (after_batches r X rng k))
    \<and> (0 < epochs r \<longrightarrow>
          rbm_w r' = prv_w (after_batches r X rng (epochs r - 1))
          \<and> rbm_hb r' = prv_hb (after_batches r X rng (epochs r - 1))
          \<and> rbm_vb r' = prv_vb (after_batches r X rng (epochs r - 1)))"
proof -
  note t = train_Inr[OF assms(1)]
  have len: "length errs = epochs r"
    by (simp add: t(1) printed_epochs_length)
  have per: "\<forall>k<epochs r.
          errs ! k
            = (\<Sum>i<length X. \<Sum>j<input_size r.
                 (X ! i ! j
                   - v1 X (prv_w (after_batches r X rng k)) (prv_hb (after_batches r X rng k))
                       (prv_vb (after_batches r X rng k)) (rng (run (after_batches r X rng k)))
                     ! i ! j)\<^sup>2)
              / real (length X * input_size r)
          \<and> prv_w ((epoch_step r X rng ^^ Suc k) (train_init r)) = prv_w (after_batches r X rng k)
          \<and> prv_hb ((epoch_step r X rng ^^ Suc k) (train_init r)) = prv_hb (after_batches r X rng k)
          \<and> prv_vb ((epoch_step r X rng ^^ Suc k) (train_init r)) = prv_vb (after_batches r X rng k)"
  proof (intro allI impI)
    fix k assume k: "k < epochs r"
    then have e: "0 < epochs r" by simp
    note rows = t(6)[OF e] and bs = t(5)[OF e]
    have ok: "state_ok r (after_batches r X rng k)"
      by (rule after_batches_ok[OF rows bs assms(2,3)])
    have sh: "has_shape (length X) (input_size r) X"
      using rows by (simp add: has_shape_def)
    let ?s = "after_batches r X rng k"
    have "errs ! k = err X (cur_w ?s) (cur_hb ?s) (cur_vb ?s) (rng (run ?s))"
      using k by (simp add: t(1) printed_epochs_nth Let_def)
    also have "\<dots> = err X (prv_w ?s) (prv_hb ?s) (prv_vb ?s) (rng (run ?s))"
      using ok by (simp add: state_ok_def)
    also have "\<dots> = (\<Sum>i<length X. \<Sum>j<input_size r.
                 (X ! i ! j - v1 X (prv_w ?s) (prv_hb ?s) (prv_vb ?s) (rng (run ?s)) ! i ! j)\<^sup>2)
              / real (length X * input_size r)"
      using ok assms(2,3)
      by (intro err_sum[OF sh, where mo="output_size r"]) (simp_all add: state_ok_def)
    finally have a: "errs ! k = (\<Sum>i<length X. \<Sum>j<input_size r.
                 (X ! i ! j - v1 X (prv_w ?s) (prv_hb ?s) (prv_vb ?s) (rng (run ?s)) ! i ! j)\<^sup>2)
              / real (length X * input_size r)" .
    have b: "prv_w ((epoch_step r X rng ^^ Suc k) (train_init r)) = prv_w ?s
        \<and> prv_hb ((epoch_step r X rng ^^ Suc k) (train_init r)) = prv_hb ?s
        \<and> prv_vb ((epoch_step r X rng ^^ Suc k) (train_init r)) = prv_vb ?s"
      unfolding epoch_step_after by (simp add: Let_def)
    show "errs ! k
            = (\<Sum>i<length X. \<Sum>j<input_size r.
                 (X ! i ! j - v1 X (prv_w ?s) (prv_hb ?s) (prv_vb ?s) (rng (run ?s)) ! i ! j)\<^sup>2)
              / real (length X * input_size r)
          \<and> prv_w ((epoch_step r X rng ^^ Suc k) (train_init r)) = prv_w ?s
          \<and> prv_hb ((epoch_step r X rng ^^ Suc k) (train_init r)) = prv_hb ?s
          \<and> prv_vb ((epoch_step r X rng ^^ Suc k) (train_init r)) = prv_vb ?s"
      by (rule conjI[OF a b])
  qed
  have fin: "0 < epochs r \<longrightarrow>
          rbm_w r' = prv_w (after_batches r X rng (epochs r - 1))
          \<and> rbm_hb r' = prv_hb (after_batches r X rng (epochs r - 1))
          \<and> rbm_vb r' = prv_vb (after_batches r X rng (epochs r - 1))"
  proof
    assume "0 < epochs r"
    then obtain m where m: "epochs r = Suc m" by (cases "epochs r") simp_all
    show "rbm_w r' = prv_w (after_batches r X rng (epochs r - 1))
          \<and> rbm_hb r' = prv_hb (after_batches r X rng (epochs r - 1))
          \<and> rbm_vb r' = prv_vb (after_batches r X rng (epochs r - 1))"
      unfolding t(2,3,4) m epoch_step_after by (simp add: Let_def)
  qed
  show ?thesis by (rule conjI[OF len conjI[OF per fin]])
qed

theorem reconstruction_error_per_epoch_witness:
  "train ((RBM_init 1 1)\<lparr>epochs := 1, batchsize := 1\<rparr>) [[1], [1]] (\<lambda>k. (\<lambda>i j. 0, \<lambda>i j. 0))
     = Inr ((RBM_init 1 1)\<lparr>epochs := 1, batchsize := 1, rbm_w := [[1 / 2]], rbm_hb := [1 / 2],
              rbm_vb := [0]\<rparr>, [0])
   \<and> length [0::real] = epochs ((RBM_init 1 1)\<lparr>epochs := 1, batchsize := 1\<rparr>)
   \<and> [0::real] ! 0
       = (\<Sum>i<length [[1], [1::real]]. \<Sum>j<input_size ((RBM_init 1 1)\<lparr>epochs := 1, batchsize := 1\<rparr>).
            ([[1], [1]] ! i ! j
              - v1 [[1], [1]]
                  (prv_w (after_batches ((RBM_init 1 1)\<lparr>epochs := 1, batchsize := 1\<rparr>) [[1], [1]]
                     (\<lambda>k. (\<lambda>i j. 0, \<lambda>i j. 0)) 0))
                  (prv_hb (after_batches ((RBM_init 1 1)\<lparr>epochs := 1, batchsize := 1\<rparr>) [[1], [1]]
                     (\<lambda>k. (\<lambda>i j. 0, \<lambda>i j. 0)) 0))
                  (prv_vb (after_batches ((RBM_init 1 1)\<lparr>epochs := 1, batchsize := 1\<rparr>) [[1], [1]]
                     (\<lambda>k. (\<lambda>i j. 0, \<lambda>i j. 0)) 0))
                  (\<lambda>i j. 0, \<lambda>i j. 0) ! i ! j)\<^sup>2)
         / real (length [[1], [1::real]] * input_size ((RBM_init 1 1)\<lparr>epochs := 1, batchsize := 1\<rparr>))
   \<and> prv_w (after_batches ((RBM_init 1 1)\<lparr>epochs := 1, batchsize := 1\<rparr>) [[1], [1]]
         (\<lambda>k. (\<lambda>i j. 0, \<lambda>i j. 0)) 0) = [[1 / 2]]"
proof -
  let ?r = "(RBM_init 1 1)\<lparr>epochs := 1, batchsize := 1\<rparr>"
  let ?rng = "\<lambda>k::nat. (\<lambda>(i::nat) (j::nat). 0::real, \<lambda>(i::nat) (j::nat). 0::real)"
  have p: "0 < input_size ?r" "0 < output_size ?r" "[[1], [1::real]] \<noteq> []" "0 < epochs ?r"
    "epochs ?r - 1 = 0"
    by (simp_all add: RBM_init_def)
  note t = reconstruction_error_per_epoch[OF eval_train p(1,2,3)]
  note a = t[THEN conjunct1]
  note b = t[THEN conjunct2, THEN conjunct1, rule_format, OF p(4), THEN conjunct1]
  have c: "prv_w (after_batches ?r [[1], [1]] ?rng 0) = [[1 / 2]]"
    using t[THEN conjunct2, THEN conjunct2, rule_format, OF p(4), THEN conjunct1]
    unfolding p(5) by simp
  show ?thesis
    by (rule conjI[OF eval_train conjI[OF a conjI[OF b c]]])
qed

section \<open>Claim C1: the update of one training step\<close>

lemma graph_is_spec_cd_step:
  "(update_w lr V W HB VB d, update_vb lr V W HB VB d, update_hb lr V W HB VB d)
     = spec_cd_step lr V W HB VB (h0 V W HB d) (v1 V W HB VB d)"
  by (simp add: spec_cd_step_def update_w_def update_vb_def update_hb_def positive_grad_def
      negative_grad_def h1_def Let_def)

lemma batch_step_fields:
  "cur_w (batch_step r X rng st se)
     = update_w (learning_rate r) (slice X (fst se) (snd se)) (prv_w st) (prv_hb st) (prv_vb st)
         (rng (run st))"
  "cur_hb (batch_step r X rng st se)
     = update_hb (learning_rate r) (slice X (fst se) (snd se)) (prv_w st) (prv_hb st) (prv_vb st)
         (rng (run st + 1))"
  "cur_vb (batch_step r X rng st se)
     = update_vb (learning_rate r) (slice X (fst se) (snd se)) (prv_w st) (prv_hb st) (prv_vb st)
         (rng (run st + 2))"
  "run (batch_step r X rng st se) = run st + 3"
  by (simp_all add: batch_step_def Let_def)

text \<open>
  What one training step computes. Let the RBM have at least one visible and one hidden
  unit, let \<open>V0\<close> be a mini-batch of \<open>n \<ge> 1\<close> rows of width \<^verbatim>\<open>input_size\<close>, and let \<open>W\<close>,
  \<open>HB\<close>, \<open>VB\<close> be the parameters before the step. The graph of lines 129-140 has one
  \<open>h0\<close>, one \<open>v1\<close> and one \<open>h1\<close>, read by all three update nodes; the loop (lines 154-156)
  evaluates the three update nodes in three session runs, and each run draws its samples
  anew:
  the weights become \<open>W + lr * (V0\<^sup>T h0 - v1\<^sup>T h1) / n\<close> with the samples of the first run,
  the hidden biases \<open>HB + lr * mean (h0 - h1)\<close> with the samples of the second run, and
  the visible biases \<open>VB + lr * mean (V0 - v1)\<close> with the samples of the third run, the
  means taken over the rows of the batch. In every run \<open>h0\<close> is 1 where the uniform draw
  is below \<open>sigmoid (V0 W + HB)\<close> and 0 elsewhere, \<open>v1\<close> is 1 where the draw is below
  \<open>sigmoid (h0 W\<^sup>T + VB)\<close> and 0 elsewhere, and \<open>h1 = sigmoid (v1 W + HB)\<close>. The nodes of
  one run form the contrastive-divergence step of the specification; the whole training
  step does so only when its three runs happen to draw the same samples.
\<close>

lemma batch_step_runs:
  fixes r :: rbm and st :: train_state and X :: matrix and rng :: "nat \<Rightarrow> draws"
    and se :: "nat \<times> nat" and n :: nat
  defines "V0 \<equiv> slice X (fst se) (snd se)"
    and "W \<equiv> prv_w st" and "HB \<equiv> prv_hb st" and "VB \<equiv> prv_vb st"
    and "lr \<equiv> learning_rate r"
    and "st' \<equiv> batch_step r X rng st se"
  assumes "state_ok r st" and "0 < input_size r" and "0 < output_size r"
    and "has_shape n (input_size r) V0" and "0 < n"
  shows "(\<forall>i<input_size r. \<forall>j<output_size r.
            cur_w st' ! i ! j
              = W ! i ! j
                + lr * ((\<Sum>k<n. V0 ! k ! i * h0 V0 W HB (rng (run st)) ! k ! j)
                        - (\<Sum>k<n. v1 V0 W HB VB (rng (run st)) ! k ! i
                                   * h1 V0 W HB VB (rng (run st)) ! k ! j)) / real n)
    \<and> (\<forall>j<output_size r.
            cur_hb st' ! j
              = HB ! j
                + lr * ((\<Sum>k<n. h0 V0 W HB (rng (run st + 1)) ! k ! j
                                 - h1 V0 W HB VB (rng (run st + 1)) ! k ! j) / real n))
    \<and> (\<forall>i<input_size r.
            cur_vb st' ! i
              = VB ! i
                + lr * ((\<Sum>k<n. V0 ! k ! i - v1 V0 W HB VB (rng (run st + 2)) ! k ! i) / real n))
    \<and> state_ok r st' \<and> run st' = run st + 3
    \<and> (\<forall>d. \<forall>k<n. \<forall>j<output_size r.
            h0 V0 W HB d ! k ! j
              = (if fst d k j < sigmoid ((\<Sum>l<input_size r. V0 ! k ! l * W ! l ! j) + HB ! j)
                 then 1 else 0))
    \<and> (\<forall>d. \<forall>k<n. \<forall>i<input_size r.
            v1 V0 W HB VB d ! k ! i
              = (if snd d k i
                    < sigmoid ((\<Sum>l<output_size r. h0 V0 W HB d ! k ! l * W ! i ! l) + VB ! i)
                 then 1 else 0))
    \<and> (\<forall>d. \<forall>k<n. \<forall>j<output_size r.
            h1 V0 W HB VB d ! k ! j
              = sigmoid ((\<Sum>l<input_size r. v1 V0 W HB VB d ! k ! l * W ! l ! j) + HB ! j))
    \<and> (\<forall>d. (update_w lr V0 W HB VB d, update_vb lr V0 W HB VB d, update_hb lr V0 W HB VB d)
            = spec_cd_step lr V0 W HB VB (h0 V0 W HB d) (v1 V0 W HB VB d))
    \<and> (rng (run st + 1) = rng (run st) \<and> rng (run st + 2) = rng (run st)
        \<longrightarrow> (cur_w st', cur_vb st', cur_hb st')
            = spec_cd_step lr V0 W HB VB (h0 V0 W HB (rng (run st)))
                (v1 V0 W HB VB (rng (run st))))"
proof -
  have s: "has_shape (input_size r) (output_size r) W" "length HB = output_size r"
    "length VB = input_size r"
    using assms(7) by (simp_all add: state_ok_def W_def HB_def VB_def)
  note h = assms(10) s assms(8,9)
  have f: "cur_w st' = update_w lr V0 W HB VB (rng (run st))"
    "cur_hb st' = update_hb lr V0 W HB VB (rng (run st + 1))"
    "cur_vb st' = update_vb lr V0 W HB VB (rng (run st + 2))"
    "run st' = run st + 3"
    unfolding st'_def V0_def W_def HB_def VB_def lr_def by (rule batch_step_fields)+
  have w: "\<forall>i<input_size r. \<forall>j<output_size r.
            cur_w st' ! i ! j
              = W ! i ! j
                + lr * ((\<Sum>k<n. V0 ! k ! i * h0 V0 W HB (rng (run st)) ! k ! j)
                        - (\<Sum>k<n. v1 V0 W HB VB (rng (run st)) ! k ! i
                                   * h1 V0 W HB VB (rng (run st)) ! k ! j)) / real n"
    unfolding f using update_w_nth[OF h assms(11)] by blast
  have hb: "\<forall>j<output_size r.
            cur_hb st' ! j
              = HB ! j
                + lr * ((\<Sum>k<n. h0 V0 W HB (rng (run st + 1)) ! k ! j
                                 - h1 V0 W HB VB (rng (run st + 1)) ! k ! j) / real n)"
    unfolding f using update_hb_nth[OF h assms(11)] by blast
  have vb: "\<forall>i<input_size r.
            cur_vb st' ! i
              = VB ! i
                + lr * ((\<Sum>k<n. V0 ! k ! i - v1 V0 W HB VB (rng (run st + 2)) ! k ! i) / real n)"
    unfolding f using update_vb_nth[OF h assms(11)] by blast
  have ok: "state_ok r st'"
    unfolding st'_def
    by (rule batch_step_ok[OF assms(7) assms(10)[unfolded V0_def] assms(11,8,9)])
  have e0: "\<forall>d. \<forall>k<n. \<forall>j<output_size r.
            h0 V0 W HB d ! k ! j
              = (if fst d k j < sigmoid ((\<Sum>l<input_size r. V0 ! k ! l * W ! l ! j) + HB ! j)
                 then 1 else 0)"
    using h0_nth[OF h(1,2,3,5)] by blast
  have e1: "\<forall>d. \<forall>k<n. \<forall>i<input_size r.
            v1 V0 W HB VB d ! k ! i
              = (if snd d k i
                    < sigmoid ((\<Sum>l<output_size r. h0 V0 W HB d ! k ! l * W ! i ! l) + VB ! i)
                 then 1 else 0)"
    using v1_nth[OF h] by blast
  have e2: "\<forall>d. \<forall>k<n. \<forall>j<output_size r.
            h1 V0 W HB VB d ! k ! j
              = sigmoid ((\<Sum>l<input_size r. v1 V0 W HB VB d ! k ! l * W ! l ! j) + HB ! j)"
    using h1_nth[OF h] by blast
  have g: "\<forall>d. (update_w lr V0 W HB VB d, update_vb lr V0 W HB VB d, update_hb lr V0 W HB VB d)
            = spec_cd_step lr V0 W HB VB (h0 V0 W HB d) (v1 V0 W HB VB d)"
    by (simp add: graph_is_spec_cd_step)
  have same: "rng (run st + 1) = rng (run st) \<and> rng (run st + 2) = rng (run st)
        \<longrightarrow> (cur_w st', cur_vb st', cur_hb st')
            = spec_cd_step lr V0 W HB VB (h0 V0 W HB (rng (run st)))
                (v1 V0 W HB VB (rng (run st)))"
    unfolding f by (simp add: graph_is_spec_cd_step)
  show ?thesis
    by (rule conjI[OF w conjI[OF hb conjI[OF vb conjI[OF ok conjI[OF f(4) conjI[OF e0
          conjI[OF e1 conjI[OF e2 conjI[OF g same]]]]]]]]])
qed

lemma eval0_update_w: "update_w 1 [[0]] [[0]] [0] [0] (\<lambda>i j. 0, \<lambda>i j. 0) = [[- (1 / 2)]]"
  by (simp add: array_defs node_defs sigmoid_pos sigmoid_zero)

lemma eval0_update_hb: "update_hb 1 [[0]] [[0]] [0] [0] (\<lambda>i j. 0, \<lambda>i j. 0) = [1 / 2]"
  by (simp add: array_defs node_defs sigmoid_pos sigmoid_zero)

lemma eval0_update_vb: "update_vb 1 [[0]] [[0]] [0] [0] (\<lambda>i j. 0, \<lambda>i j. 1 / 2) = [0]"
  by (simp add: array_defs node_defs sigmoid_pos sigmoid_zero)

lemma eval0_spec_cd_step:
  "spec_cd_step 1 [[0]] [[0]] [0] [0] [[h]] [[v]] = ([[- (v / 2)]], [- v], [h - 1 / 2])"
  by (simp add: spec_cd_step_def Let_def array_defs prob_h_given_v_def sigmoid_zero)

lemma eval0_nodes:
  "h0 [[0]] [[0]] [0] (\<lambda>i j. 0, \<lambda>i j. 0) = [[1]]"
  "v1 [[0]] [[0]] [0] [0] (\<lambda>i j. 0, \<lambda>i j. 0) = [[1]]"
  by (simp_all add: array_defs node_defs sigmoid_pos sigmoid_zero)

text \<open>
  C1. One training step of \<^verbatim>\<open>RBM.train\<close> is not one step of contrastive divergence: the
  three updates do not come from one pair of samples \<open>h0\<close>, \<open>v1\<close>. Take the fresh
  \<^verbatim>\<open>RBM(1, 1)\<close> (zero parameters, learning rate 1) and the mini-batch \<open>[[0]]\<close>, and let every
  uniform draw be 0 except the visible draw of the third session run (the one that
  evaluates \<^verbatim>\<open>update_vb\<close>), which is 1/2. The step stores the weight \<open>-1/2\<close>, the visible
  bias 0 and the hidden bias 1/2. The run that moved the weight sampled \<open>h0 = 1\<close> and
  \<open>v1 = 1\<close>; one contrastive-divergence step with these samples moves the visible bias to
  \<open>-1\<close>, but the code leaves it at 0, because its own run sampled \<open>v1 = 0\<close>. No pair of
  samples at all gives the three stored values.
\<close>

theorem batch_step_resamples:
  "let rng = (\<lambda>k. if k = 2 then (\<lambda>i j. 0, \<lambda>i j. 1 / 2) else (\<lambda>i j. 0, \<lambda>i j. 0));
       S = batch_step (RBM_init 1 1) [[0]] rng (train_init (RBM_init 1 1)) (0, 1)
   in (cur_w S, cur_vb S, cur_hb S) = ([[- (1 / 2)]], [0], [1 / 2])
      \<and> spec_cd_step 1 [[0]] (zeros 1 1) (zeros_vec 1) (zeros_vec 1)
            (h0 [[0]] (zeros 1 1) (zeros_vec 1) (rng 0))
            (v1 [[0]] (zeros 1 1) (zeros_vec 1) (zeros_vec 1) (rng 0))
          = ([[- (1 / 2)]], [- 1], [1 / 2])
      \<and> (\<forall>h v. spec_cd_step 1 [[0]] (zeros 1 1) (zeros_vec 1) (zeros_vec 1) [[h]] [[v]]
                 \<noteq> (cur_w S, cur_vb S, cur_hb S))"
proof -
  have z: "zeros 1 1 = [[0]]" "zeros_vec 1 = [0]"
    by (simp_all add: zeros_def zeros_vec_def)
  have f: "learning_rate (RBM_init 1 1) = 1" "slice [[0::real]] (fst (0::nat, 1::nat)) (snd (0::nat, 1::nat)) = [[0]]"
    "prv_w (train_init (RBM_init 1 1)) = [[0]]" "prv_hb (train_init (RBM_init 1 1)) = [0]"
    "prv_vb (train_init (RBM_init 1 1)) = [0]" "run (train_init (RBM_init 1 1)) = 0"
    by (simp_all add: RBM_init_def train_init_def slice_def zeros_def zeros_vec_def)
  show ?thesis
    unfolding Let_def batch_step_fields f z
    by (simp add: eval0_nodes eval0_spec_cd_step eval0_update_w eval0_update_hb eval0_update_vb)
qed

lemma eval_nodes:
  "h0 [[1]] [[0]] [0] (\<lambda>i j. 0, \<lambda>i j. 0) = [[1]]"
  "v1 [[1]] [[0]] [0] [0] (\<lambda>i j. 0, \<lambda>i j. 0) = [[1]]"
  "h1 [[1]] [[0]] [0] [0] (\<lambda>i j. 0, \<lambda>i j. 0) = [[1 / 2]]"
  by (simp_all add: array_defs node_defs sigmoid_pos sigmoid_zero)

lemma batch_step_runs_example:
  "state_ok (RBM_init 1 1) (train_init (RBM_init 1 1))
   \<and> has_shape 1 (input_size (RBM_init 1 1)) (slice [[1]] (fst (0::nat, 1::nat)) (snd (0::nat, 1::nat)))
   \<and> cur_w (batch_step (RBM_init 1 1) [[1]] (\<lambda>k. (\<lambda>i j. 0, \<lambda>i j. 0))
              (train_init (RBM_init 1 1)) (0, 1)) ! 0 ! 0 = 1 / 2
   \<and> cur_hb (batch_step (RBM_init 1 1) [[1]] (\<lambda>k. (\<lambda>i j. 0, \<lambda>i j. 0))
              (train_init (RBM_init 1 1)) (0, 1)) ! 0 = 1 / 2
   \<and> cur_vb (batch_step (RBM_init 1 1) [[1]] (\<lambda>k. (\<lambda>i j. 0, \<lambda>i j. 0))
              (train_init (RBM_init 1 1)) (0, 1)) ! 0 = 0
   \<and> run (batch_step (RBM_init 1 1) [[1]] (\<lambda>k. (\<lambda>i j. 0, \<lambda>i j. 0))
              (train_init (RBM_init 1 1)) (0, 1)) = 3"
proof -
  let ?r = "RBM_init 1 1"
  let ?rng = "\<lambda>k::nat. (\<lambda>(i::nat) (j::nat). 0::real, \<lambda>(i::nat) (j::nat). 0::real)"
  have f: "learning_rate ?r = 1" "slice [[1::real]] (fst (0::nat, 1::nat)) (snd (0::nat, 1::nat)) = [[1]]"
    "prv_w (train_init ?r) = [[0]]" "prv_hb (train_init ?r) = [0]"
    "prv_vb (train_init ?r) = [0]" "run (train_init ?r) = 0"
    "input_size ?r = 1" "output_size ?r = 1"
    by (simp_all add: RBM_init_def train_init_def slice_def zeros_def zeros_vec_def)
  have p: "state_ok ?r (train_init ?r)" "0 < input_size ?r" "0 < output_size ?r"
    "has_shape 1 (input_size ?r) (slice [[1]] (fst (0::nat, 1::nat)) (snd (0::nat, 1::nat)))"
    "0 < (1::nat)"
    by (simp_all add: train_init_ok RBM_init_def slice_def has_shape_def)
  note t = batch_step_runs[OF p, where rng="?rng", unfolded f eval_nodes]
  have w: "cur_w (batch_step ?r [[1]] ?rng (train_init ?r) (0, 1)) ! 0 ! 0 = 1 / 2"
    using t[THEN conjunct1] by simp
  have hb: "cur_hb (batch_step ?r [[1]] ?rng (train_init ?r) (0, 1)) ! 0 = 1 / 2"
    using t[THEN conjunct2, THEN conjunct1] by simp
  have vb: "cur_vb (batch_step ?r [[1]] ?rng (train_init ?r) (0, 1)) ! 0 = 0"
    using t[THEN conjunct2, THEN conjunct2, THEN conjunct1] by simp
  have rn: "run (batch_step ?r [[1]] ?rng (train_init ?r) (0, 1)) = 3"
    using t[THEN conjunct2, THEN conjunct2, THEN conjunct2, THEN conjunct2, THEN conjunct1] by simp
  show ?thesis
    by (rule conjI[OF p(1) conjI[OF p(4) conjI[OF w conjI[OF hb conjI[OF vb rn]]]]])
qed

section \<open>Claim C3: the reconstruction error of a fresh RBM on a zero batch\<close>

lemma v1_fresh_zero:
  assumes "0 < mi" "0 < mo" "k < n" "i < mi"
  shows "v1 (zeros n mi) (zeros mi mo) (zeros_vec mo) (zeros_vec mi) d ! k ! i
     = (if snd d k i < 1 / 2 then 1 else 0)"
proof -
  have "(\<Sum>l<mo. h0 (zeros n mi) (zeros mi mo) (zeros_vec mo) d ! k ! l * zeros mi mo ! i ! l) = 0"
    using assms by (intro sum.neutral) (simp add: zeros_nth)
  then show ?thesis
    using assms
    by (simp add: v1_nth[of n mi _ mo] zeros_shape zeros_vec_def sigmoid_zero)
qed

lemma err_fresh_zero:
  assumes "0 < mi" "0 < mo"
  shows "err (zeros n mi) (zeros mi mo) (zeros_vec mo) (zeros_vec mi) d
     = (\<Sum>k<n. \<Sum>i<mi. if snd d k i < 1 / 2 then 1 else 0) / real (n * mi)"
proof -
  have "(\<Sum>k<n. \<Sum>i<mi. (zeros n mi ! k ! i
            - v1 (zeros n mi) (zeros mi mo) (zeros_vec mo) (zeros_vec mi) d ! k ! i)\<^sup>2)
      = (\<Sum>k<n. \<Sum>i<mi. if snd d k i < 1 / 2 then 1 else 0)"
    using assms by (intro sum.cong refl) (simp add: v1_fresh_zero zeros_nth)
  then show ?thesis
    using assms
    by (simp add: err_sum[of n mi _ mo] zeros_shape zeros_vec_def)
qed

lemma indicator_sum_bounds:
  fixes n m :: nat
  shows "0 \<le> (\<Sum>k<n. \<Sum>i<m. if P k i then 1 else (0::real))"
    and "(\<Sum>k<n. \<Sum>i<m. if P k i then 1 else (0::real)) \<le> real (n * m)"
proof -
  show "0 \<le> (\<Sum>k<n. \<Sum>i<m. if P k i then 1 else (0::real))"
    by (intro sum_nonneg) simp
  have "(\<Sum>k<n. \<Sum>i<m. if P k i then 1 else (0::real)) \<le> (\<Sum>k<n. \<Sum>i<m. 1)"
    by (intro sum_mono) simp
  then show "(\<Sum>k<n. \<Sum>i<m. if P k i then 1 else (0::real)) \<le> real (n * m)"
    by simp
qed

lemma indicator_sum_zero:
  fixes n m :: nat
  shows "(\<Sum>k<n. \<Sum>i<m. if P k i then 1 else (0::real)) = 0 \<longleftrightarrow> (\<forall>k<n. \<forall>i<m. \<not> P k i)"
proof -
  have "(\<Sum>k<n. \<Sum>i<m. if P k i then 1 else (0::real)) = 0
      \<longleftrightarrow> (\<forall>k\<in>{..<n}. (\<Sum>i<m. if P k i then 1 else (0::real)) = 0)"
    by (rule sum_nonneg_eq_0_iff) (auto intro: sum_nonneg)
  also have "\<dots> \<longleftrightarrow> (\<forall>k\<in>{..<n}. \<forall>i\<in>{..<m}. (if P k i then 1 else (0::real)) = 0)"
    by (intro ball_cong refl, rule sum_nonneg_eq_0_iff) auto
  also have "\<dots> \<longleftrightarrow> (\<forall>k<n. \<forall>i<m. \<not> P k i)"
    by auto
  finally show ?thesis .
qed

lemma epochs_no_batches_printed:
  assumes "0 < batchsize r" "length X \<le> batchsize r"
  shows "((epoch_step r X rng) ^^ k) (train_init r)
     = (train_init r)\<lparr>run := k,
          printed := map (\<lambda>e. err X (zeros (input_size r) (output_size r))
                                 (zeros_vec (output_size r)) (zeros_vec (input_size r)) (rng e))
                       [0..<k]\<rparr>"
proof (induction k)
  case 0
  then show ?case by (simp add: train_init_def)
next
  case (Suc k)
  have a: "((epoch_step r X rng) ^^ Suc k) (train_init r)
      = epoch_step r X rng (((epoch_step r X rng) ^^ k) (train_init r))"
    by simp
  show ?case
    unfolding a Suc.IH
    by (simp add: epoch_step_no_batches[OF assms] train_init_def)
qed

lemma train_fresh_small:
  assumes "n \<le> 100"
  shows "train (RBM_init mi mo) (zeros n mi) rng
     = Inr (RBM_init mi mo,
            map (\<lambda>e. err (zeros n mi) (zeros mi mo) (zeros_vec mo) (zeros_vec mi) (rng e)) [0..<5])"
proof -
  have f: "epochs (RBM_init mi mo) = 5" "batchsize (RBM_init mi mo) = 100"
    "input_size (RBM_init mi mo) = mi" "output_size (RBM_init mi mo) = mo"
    by (simp_all add: RBM_init_def)
  have l: "length (zeros n mi) \<le> batchsize (RBM_init mi mo)" "0 < batchsize (RBM_init mi mo)"
    using assms by (simp_all add: f zeros_def)
  have rows: "list_all (\<lambda>row. length row = mi) (zeros n mi)"
    by (simp add: zeros_def list_all_iff)
  show ?thesis
    unfolding train_def Let_def epochs_no_batches_printed[OF l(2,1)]
    using rows by (simp add: f train_init_def RBM_init_def)
qed

lemma err_fresh_zero_all_drawn:
  "err (zeros 1 1) (zeros 1 1) (zeros_vec 1) (zeros_vec 1) (\<lambda>i j. 0, \<lambda>i j. 0) = 1"
  by (simp add: err_fresh_zero)

text \<open>
  C3, as the code has it. For a freshly constructed RBM (all parameters zero) with at least
  one visible and one hidden unit and a constant-zero batch of \<open>n \<ge> 1\<close> rows, every visible
  unit is reconstructed as 1 exactly when its uniform draw is below \<open>sigmoid 0 = 1/2\<close>, so
  the reconstruction error is the fraction of the visible draws that are below 1/2. It lies
  between 0 and 1, and it is 0 exactly when every visible draw is at least 1/2. For up to
  100 rows (one batch size) training makes no update and prints this value in each of
  its five epochs.
\<close>

theorem fresh_rbm_zero_batch_error:
  assumes "0 < mi" and "0 < mo" and "0 < n"
  shows "err (zeros n mi) (rbm_w (RBM_init mi mo)) (rbm_hb (RBM_init mi mo))
           (rbm_vb (RBM_init mi mo)) d
         = (\<Sum>k<n. \<Sum>i<mi. if snd d k i < 1 / 2 then 1 else 0) / real (n * mi)
    \<and> 0 \<le> err (zeros n mi) (rbm_w (RBM_init mi mo)) (rbm_hb (RBM_init mi mo))
             (rbm_vb (RBM_init mi mo)) d
    \<and> err (zeros n mi) (rbm_w (RBM_init mi mo)) (rbm_hb (RBM_init mi mo))
             (rbm_vb (RBM_init mi mo)) d \<le> 1
    \<and> (err (zeros n mi) (rbm_w (RBM_init mi mo)) (rbm_hb (RBM_init mi mo))
             (rbm_vb (RBM_init mi mo)) d = 0
         \<longleftrightarrow> (\<forall>k<n. \<forall>i<mi. 1 / 2 \<le> snd d k i))
    \<and> (n \<le> 100 \<longrightarrow>
          train (RBM_init mi mo) (zeros n mi) rng
            = Inr (RBM_init mi mo,
                   map (\<lambda>e. err (zeros n mi) (rbm_w (RBM_init mi mo)) (rbm_hb (RBM_init mi mo))
                              (rbm_vb (RBM_init mi mo)) (rng e)) [0..<5]))"
proof -
  have p: "rbm_w (RBM_init mi mo) = zeros mi mo" "rbm_hb (RBM_init mi mo) = zeros_vec mo"
    "rbm_vb (RBM_init mi mo) = zeros_vec mi"
    by (simp_all add: RBM_init_def)
  let ?s = "\<Sum>k<n. \<Sum>i<mi. if snd d k i < 1 / 2 then 1 else (0::real)"
  have pos: "0 < real (n * mi)" using assms by simp
  have e: "err (zeros n mi) (zeros mi mo) (zeros_vec mo) (zeros_vec mi) d = ?s / real (n * mi)"
    by (rule err_fresh_zero[OF assms(1,2)])
  have lo: "0 \<le> ?s / real (n * mi)"
    using indicator_sum_bounds(1)[where n=n and m=mi and P="\<lambda>k i. snd d k i < 1 / 2"] by simp
  have hi: "?s / real (n * mi) \<le> 1"
    using indicator_sum_bounds(2)[where n=n and m=mi and P="\<lambda>k i. snd d k i < 1 / 2"] pos
    by (simp add: divide_le_eq)
  have z: "?s / real (n * mi) = 0 \<longleftrightarrow> (\<forall>k<n. \<forall>i<mi. 1 / 2 \<le> snd d k i)"
    using indicator_sum_zero[where n=n and m=mi and P="\<lambda>k i. snd d k i < 1 / 2"] assms
    by (simp add: not_less)
  have t: "n \<le> 100 \<longrightarrow>
          train (RBM_init mi mo) (zeros n mi) rng
            = Inr (RBM_init mi mo,
                   map (\<lambda>e. err (zeros n mi) (zeros mi mo) (zeros_vec mo) (zeros_vec mi) (rng e))
                     [0..<5])"
    using train_fresh_small by blast
  show ?thesis
    unfolding p e using lo hi z t[unfolded e] by (intro conjI refl)
qed

theorem fresh_rbm_zero_batch_error_witness:
  "err (zeros 2 1) (rbm_w (RBM_init 1 1)) (rbm_hb (RBM_init 1 1)) (rbm_vb (RBM_init 1 1))
      (\<lambda>i j. 0, \<lambda>i j. if i = 0 then 0 else 1 / 2) = 1 / 2
   \<and> err (zeros 2 1) (rbm_w (RBM_init 1 1)) (rbm_hb (RBM_init 1 1)) (rbm_vb (RBM_init 1 1))
      (\<lambda>i j. 0, \<lambda>i j. 1 / 2) = 0
   \<and> train (RBM_init 1 1) (zeros 2 1) (\<lambda>k. (\<lambda>i j. 0, \<lambda>i j. 1 / 2))
      = Inr (RBM_init 1 1, [0, 0, 0, 0, 0])"
proof -
  have p: "0 < (1::nat)" "0 < (2::nat)" by simp_all
  note a = fresh_rbm_zero_batch_error[OF p(1) p(1) p(2),
      where d="(\<lambda>i j. 0, \<lambda>i j. if i = 0 then 0 else 1 / 2)"]
  note b = fresh_rbm_zero_batch_error[OF p(1) p(1) p(2), where d="(\<lambda>i j. 0, \<lambda>i j. 1 / 2)"
      and rng="\<lambda>k. (\<lambda>i j. 0, \<lambda>i j. 1 / 2)"]
  have x: "err (zeros 2 1) (rbm_w (RBM_init 1 1)) (rbm_hb (RBM_init 1 1)) (rbm_vb (RBM_init 1 1))
      (\<lambda>i j. 0, \<lambda>i j. if i = 0 then 0 else 1 / 2) = 1 / 2"
    unfolding a[THEN conjunct1] by (simp add: lessThan_Suc numeral_2_eq_2)
  have y: "err (zeros 2 1) (rbm_w (RBM_init 1 1)) (rbm_hb (RBM_init 1 1)) (rbm_vb (RBM_init 1 1))
      (\<lambda>i j. 0, \<lambda>i j. 1 / 2) = 0"
    unfolding b[THEN conjunct1] by simp
  have u: "[0..<5] = [0, 1, 2, 3, 4]" by (simp add: upt_conv_Cons)
  have z: "train (RBM_init 1 1) (zeros 2 1) (\<lambda>k. (\<lambda>i j. 0, \<lambda>i j. 1 / 2))
      = Inr (RBM_init 1 1, [0, 0, 0, 0, 0])"
    using b[THEN conjunct2, THEN conjunct2, THEN conjunct2, THEN conjunct2] unfolding y u by simp
  show ?thesis by (rule conjI[OF x conjI[OF y z]])
qed

text \<open>
  The claim as stated fails: with every draw equal to 0 the visible unit is reconstructed
  as 1, and training a fresh RBM on the zero batch prints the error 1 in every epoch.
\<close>

theorem fresh_rbm_zero_batch_error_counterexample:
  "train (RBM_init 1 1) (zeros 1 1) (\<lambda>k. (\<lambda>i j. 0, \<lambda>i j. 0))
     = Inr (RBM_init 1 1, [1, 1, 1, 1, 1])"
proof -
  have u: "[0..<5] = [0, 1, 2, 3, 4]" by (simp add: upt_conv_Cons)
  have l: "(1::nat) \<le> 100" by simp
  show ?thesis
    unfolding train_fresh_small[OF l] u by (simp only: list.map err_fresh_zero_all_drawn)
qed

section \<open>Claim C6: the forward inference of an RBM\<close>

lemma RBM_init_ok: "rbm_ok (RBM_init mi mo)"
  by (simp add: rbm_ok_def RBM_init_def zeros_shape zeros_vec_def)

lemma train_ok:
  assumes "train r X rng = Inr (r', errs)" "0 < input_size r" "0 < output_size r"
  shows "rbm_ok r' \<and> input_size r' = input_size r \<and> output_size r' = output_size r"
proof -
  note t = train_Inr[OF assms(1)]
  have ok: "state_ok r ((epoch_step r X rng ^^ epochs r) (train_init r))"
  proof (cases "0 < epochs r")
    case True
    show ?thesis by (rule epochs_ok[OF t(6)[OF True] t(5)[OF True] assms(2,3)])
  next
    case False
    then show ?thesis by (simp add: train_init_ok)
  qed
  obtain W HB VB where r': "r' = r\<lparr>rbm_w := W, rbm_hb := HB, rbm_vb := VB\<rparr>"
    using train_result_shape[OF assms(1)] by blast
  have s: "input_size r' = input_size r" "output_size r' = output_size r"
    by (simp_all add: r')
  show ?thesis
    using ok by (simp add: rbm_ok_def state_ok_def t(2,3,4) s)
qed

lemma rbm_output_eq:
  "list_all (\<lambda>row. length row = length (rbm_w r)) X \<Longrightarrow>
     rbm_output r X = Inr (r, prob_h_given_v X (rbm_w r) (rbm_hb r))"
  by (simp add: rbm_output_def prob_h_given_v_def)

text \<open>
  C6. For an RBM whose parameters have the shapes that construction and training give them,
  with at least one visible unit, and an input batch \<open>X\<close> of rows of width
  \<^verbatim>\<open>input_size\<close>, \<^verbatim>\<open>rbm_output\<close> returns the array whose entry \<open>(i, j)\<close> is
  \<open>sigmoid ((\<Sum>l. X[i][l] * w[l][j]) + hb[j])\<close>, computed with the stored \<^verbatim>\<open>w\<close> and
  \<^verbatim>\<open>hb\<close>. The result is a function of the object and of \<open>X\<close> alone (no random draw
  enters it), and the object is left as it was. A freshly constructed RBM has these shapes,
  and so has every RBM that \<^verbatim>\<open>train\<close> returns.
\<close>

theorem rbm_output_is_sigmoid:
  "(rbm_ok r \<and> 0 < input_size r \<and> has_shape n (input_size r) X \<longrightarrow>
      (\<exists>Y. rbm_output r X = Inr (r, Y) \<and> has_shape n (output_size r) Y
         \<and> (\<forall>i<n. \<forall>j<output_size r.
               Y ! i ! j = sigmoid ((\<Sum>l<input_size r. X ! i ! l * rbm_w r ! l ! j) + rbm_hb r ! j))))
   \<and> rbm_ok (RBM_init mi mo)
   \<and> (train r0 D rng = Inr (r1, errs) \<and> 0 < input_size r0 \<and> 0 < output_size r0 \<longrightarrow>
        rbm_ok r1 \<and> input_size r1 = input_size r0 \<and> output_size r1 = output_size r0)"
proof -
  have a: "rbm_ok r \<and> 0 < input_size r \<and> has_shape n (input_size r) X \<longrightarrow>
      (\<exists>Y. rbm_output r X = Inr (r, Y) \<and> has_shape n (output_size r) Y
         \<and> (\<forall>i<n. \<forall>j<output_size r.
               Y ! i ! j = sigmoid ((\<Sum>l<input_size r. X ! i ! l * rbm_w r ! l ! j) + rbm_hb r ! j)))"
  proof (intro impI, elim conjE)
    assume h: "rbm_ok r" "0 < input_size r" "has_shape n (input_size r) X"
    have s: "has_shape (input_size r) (output_size r) (rbm_w r)" "length (rbm_hb r) = output_size r"
      using h(1) by (simp_all add: rbm_ok_def)
    have rows: "list_all (\<lambda>row. length row = length (rbm_w r)) X"
      using h(3) s(1) by (simp add: has_shape_def)
    let ?Y = "prob_h_given_v X (rbm_w r) (rbm_hb r)"
    have 1: "rbm_output r X = Inr (r, ?Y)" by (rule rbm_output_eq[OF rows])
    have 2: "has_shape n (output_size r) ?Y" by (rule prob_h_shape[OF h(3) s h(2)])
    have 3: "\<forall>i<n. \<forall>j<output_size r.
        ?Y ! i ! j = sigmoid ((\<Sum>l<input_size r. X ! i ! l * rbm_w r ! l ! j) + rbm_hb r ! j)"
      using prob_h_nth[OF h(3) s h(2)] by blast
    show "\<exists>Y. rbm_output r X = Inr (r, Y) \<and> has_shape n (output_size r) Y
         \<and> (\<forall>i<n. \<forall>j<output_size r.
               Y ! i ! j = sigmoid ((\<Sum>l<input_size r. X ! i ! l * rbm_w r ! l ! j) + rbm_hb r ! j))"
      using 1 2 3 by blast
  qed
  have c: "train r0 D rng = Inr (r1, errs) \<and> 0 < input_size r0 \<and> 0 < output_size r0 \<longrightarrow>
        rbm_ok r1 \<and> input_size r1 = input_size r0 \<and> output_size r1 = output_size r0"
    using train_ok by blast
  show ?thesis by (rule conjI[OF a conjI[OF RBM_init_ok c]])
qed

theorem rbm_output_is_sigmoid_witness:
  "\<exists>Y. rbm_output ((RBM_init 1 1)\<lparr>epochs := 1, batchsize := 1, rbm_w := [[1 / 2]], rbm_hb := [1 / 2],
              rbm_vb := [0]\<rparr>) [[2]]
        = Inr ((RBM_init 1 1)\<lparr>epochs := 1, batchsize := 1, rbm_w := [[1 / 2]], rbm_hb := [1 / 2],
              rbm_vb := [0]\<rparr>, Y)
      \<and> Y ! 0 ! 0 = sigmoid (3 / 2)"
proof -
  let ?a = "(RBM_init 1 1)\<lparr>epochs := 1, batchsize := 1\<rparr>"
  let ?b = "(RBM_init 1 1)\<lparr>epochs := 1, batchsize := 1, rbm_w := [[1 / 2]], rbm_hb := [1 / 2],
              rbm_vb := [0]\<rparr>"
  note t = rbm_output_is_sigmoid[where r="?b" and n=1 and X="[[2]]" and ?r0.0="?a"
      and D="[[1], [1]]" and rng="\<lambda>k. (\<lambda>i j. 0, \<lambda>i j. 0)" and ?r1.0="?b" and errs="[0]"]
  have p: "0 < input_size ?a" "0 < output_size ?a" "0 < input_size ?b"
    "has_shape 1 (input_size ?b) [[2]]"
    by (simp_all add: RBM_init_def has_shape_def)
  have ok: "rbm_ok ?b"
    using t[THEN conjunct2, THEN conjunct2] eval_train p(1,2) by blast
  obtain Y where Y: "rbm_output ?b [[2]] = Inr (?b, Y)"
    "\<forall>i<1. \<forall>j<output_size ?b.
       Y ! i ! j = sigmoid ((\<Sum>l<input_size ?b. [[2]] ! i ! l * rbm_w ?b ! l ! j) + rbm_hb ?b ! j)"
    using t[THEN conjunct1] ok p(3,4) by blast
  have "Y ! 0 ! 0 = sigmoid (3 / 2)"
    using Y(2) by (simp add: RBM_init_def)
  then show ?thesis using Y(1) by blast
qed

section \<open>Claim C7: the accuracy printed after an epoch\<close>

lemma length_forward: "length (forward ws bs a0) = length a0"
proof -
  have "length (foldl (\<lambda>a wb. sigmoid_m (broadcast_add (matmul a (fst wb)) (snd wb))) a0 l) = length a0"
    for l :: "(matrix \<times> vec) list"
    by (induction l arbitrary: a0) (simp_all add: sigmoid_m_def broadcast_add_def matmul_def)
  then show ?thesis by (simp add: forward_def)
qed

lemma length_predict_op: "length (predict_op s X) = length X"
  by (simp add: predict_op_def length_forward)

lemma mean_equal_card:
  assumes "length a = n" "length b = n"
  shows "mean_equal a b = real (card {i. i < n \<and> a ! i = b ! i}) / real n"
proof -
  have "{i. i < length (zip a b) \<and> fst (zip a b ! i) = snd (zip a b ! i)} = {i. i < n \<and> a ! i = b ! i}"
    using assms by auto
  then show ?thesis
    using assms by (simp add: mean_equal_def length_filter_conv_card)
qed

lemma mean_equal_bounds:
  assumes "a \<noteq> []"
  shows "0 \<le> mean_equal a b" "mean_equal a b \<le> 1"
proof -
  show "0 \<le> mean_equal a b" by (simp add: mean_equal_def)
  have "length (filter (\<lambda>p. fst p = snd p) (zip a b)) \<le> length (zip a b)"
    by (rule length_filter_le)
  then have "length (filter (\<lambda>p. fst p = snd p) (zip a b)) \<le> length a" by simp
  then show "mean_equal a b \<le> 1"
    using assms by (simp add: mean_equal_def divide_le_eq)
qed

lemma nn_epoch_fields:
  "nn_X (self (nn_epoch tr st)) = nn_X (self st)"
  "nn_Y (self (nn_epoch tr st)) = nn_Y (self st)"
  "sizes (self (nn_epoch tr st)) = sizes (self st)"
  "nn_batchsize (self (nn_epoch tr st)) = nn_batchsize (self st)"
  "sess (nn_epoch tr st)
     = foldl (nn_batch tr (self st)) (sess st)
         (batches (length (nn_X (self st))) (nn_batchsize (self st)))"
  "shown (nn_epoch tr st)
     = shown st @ [mean_equal (map argmax (nn_Y (self st)))
                     (predict_op (sess (nn_epoch tr st)) (nn_X (self st)))]"
  by (simp_all add: nn_epoch_def Let_def)

lemma nn_epochs_fields:
  "nn_X (self ((nn_epoch tr ^^ k) st)) = nn_X (self st)
   \<and> nn_Y (self ((nn_epoch tr ^^ k) st)) = nn_Y (self st)
   \<and> sizes (self ((nn_epoch tr ^^ k) st)) = sizes (self st)
   \<and> nn_batchsize (self ((nn_epoch tr ^^ k) st)) = nn_batchsize (self st)
   \<and> length (shown ((nn_epoch tr ^^ k) st)) = length (shown st) + k"
  by (induction k) (simp_all add: nn_epoch_fields(1,2,3,4,6))

lemma nn_sess_step:
  "sess ((nn_epoch tr ^^ Suc k) st)
     = foldl (nn_batch tr (self st)) (sess ((nn_epoch tr ^^ k) st))
         (batches (length (nn_X (self st))) (nn_batchsize (self st)))"
proof -
  have "nn_batch tr (self ((nn_epoch tr ^^ k) st)) = nn_batch tr (self st)"
    by (rule nn_batch_data) (simp_all add: nn_epochs_fields)
  then show ?thesis
    by (simp add: nn_epoch_fields(5) nn_epochs_fields)
qed

lemma nn_shown_nth:
  "k < m \<Longrightarrow> shown st = [] \<Longrightarrow>
     shown ((nn_epoch tr ^^ m) st) ! k
       = mean_equal (map argmax (nn_Y (self st)))
           (predict_op (sess ((nn_epoch tr ^^ Suc k) st)) (nn_X (self st)))"
proof (induction m)
  case 0
  then show ?case by simp
next
  case (Suc m)
  have l: "length (shown ((nn_epoch tr ^^ m) st)) = m"
    using nn_epochs_fields[where tr=tr and k=m and st=st] Suc.prems(2) by simp
  have s: "shown ((nn_epoch tr ^^ Suc m) st)
      = shown ((nn_epoch tr ^^ m) st)
        @ [mean_equal (map argmax (nn_Y (self st)))
             (predict_op (sess ((nn_epoch tr ^^ Suc m) st)) (nn_X (self st)))]"
    using nn_epoch_fields(6)[where tr=tr and st="(nn_epoch tr ^^ m) st"]
    by (simp add: nn_epochs_fields)
  show ?case
  proof (cases "k = m")
    case True
    then show ?thesis unfolding s using l by (simp add: nth_append)
  next
    case False
    then have "k < m" using Suc.prems(1) by simp
    then show ?thesis unfolding s using l Suc.IH Suc.prems(2) by (simp add: nth_append)
  qed
qed

lemma NN_train_Inr:
  assumes "NN_train tr o0 n = Inr (n', accs)"
  shows "accs = shown ((nn_epoch tr ^^ epoches n) \<lparr> self = n, sess = nn_session n o0, shown = [] \<rparr>)"
    and "n' = self ((nn_epoch tr ^^ epoches n) \<lparr> self = n, sess = nn_session n o0, shown = [] \<rparr>)"
  using assms by (auto simp: NN_train_def Let_def split: if_splits option.splits)

text \<open>
  C7. When \<^verbatim>\<open>NN.train\<close> returns, on a non-empty training set with as many label rows as
  examples, it has printed one accuracy per epoch. The accuracy of epoch \<open>k\<close> is the number
  of examples \<open>i\<close> of the whole training set for which the arg-max of the network's output
  row equals the arg-max of the label row, divided by the number of examples, where the
  output is computed with the session variables as the batch loop of epoch \<open>k\<close> has left
  them. Every printed accuracy lies between 0 and 1.
\<close>

theorem accuracy_per_epoch:
  assumes "NN_train tr o0 n = Inr (n', accs)" and "nn_X n \<noteq> []"
    and "length (nn_Y n) = length (nn_X n)"
  shows "length accs = epoches n
    \<and> (\<forall>k<epoches n.
          accs ! k
            = real (card {i. i < length (nn_X n)
                          \<and> argmax (forward
                                (var_w (sess ((nn_epoch tr ^^ Suc k)
                                   \<lparr> self = n, sess = nn_session n o0, shown = [] \<rparr>)))
                                (var_b (sess ((nn_epoch tr ^^ Suc k)
                                   \<lparr> self = n, sess = nn_session n o0, shown = [] \<rparr>)))
                                (nn_X n) ! i)
                            = argmax (nn_Y n ! i)})
              / real (length (nn_X n))
          \<and> 0 \<le> accs ! k \<and> accs ! k \<le> 1
          \<and> sess ((nn_epoch tr ^^ Suc k) \<lparr> self = n, sess = nn_session n o0, shown = [] \<rparr>)
              = foldl (nn_batch tr n)
                  (sess ((nn_epoch tr ^^ k) \<lparr> self = n, sess = nn_session n o0, shown = [] \<rparr>))
                  (batches (length (nn_X n)) (nn_batchsize n)))"
proof -
  let ?st = "\<lparr> self = n, sess = nn_session n o0, shown = [] \<rparr>"
  note t = NN_train_Inr[OF assms(1)]
  have len: "length accs = epoches n"
    using nn_epochs_fields[where tr=tr and k="epoches n" and st="?st"] by (simp add: t(1))
  have per: "\<forall>k<epoches n.
          accs ! k
            = real (card {i. i < length (nn_X n)
                          \<and> argmax (forward (var_w (sess ((nn_epoch tr ^^ Suc k) ?st)))
                                (var_b (sess ((nn_epoch tr ^^ Suc k) ?st))) (nn_X n) ! i)
                            = argmax (nn_Y n ! i)})
              / real (length (nn_X n))
          \<and> 0 \<le> accs ! k \<and> accs ! k \<le> 1
          \<and> sess ((nn_epoch tr ^^ Suc k) ?st)
              = foldl (nn_batch tr n) (sess ((nn_epoch tr ^^ k) ?st))
                  (batches (length (nn_X n)) (nn_batchsize n))"
  proof (intro allI impI)
    fix k assume k: "k < epoches n"
    let ?S = "sess ((nn_epoch tr ^^ Suc k) ?st)"
    have a: "accs ! k = mean_equal (map argmax (nn_Y n)) (predict_op ?S (nn_X n))"
      using nn_shown_nth[OF k, where st="?st" and tr=tr] by (simp add: t(1))
    have ne: "map argmax (nn_Y n) \<noteq> []" using assms(2,3) by auto
    have c: "mean_equal (map argmax (nn_Y n)) (predict_op ?S (nn_X n))
        = real (card {i. i < length (nn_X n)
                       \<and> map argmax (nn_Y n) ! i = predict_op ?S (nn_X n) ! i})
          / real (length (nn_X n))"
      by (rule mean_equal_card) (simp_all add: assms(3) length_predict_op)
    have "{i. i < length (nn_X n) \<and> map argmax (nn_Y n) ! i = predict_op ?S (nn_X n) ! i}
        = {i. i < length (nn_X n)
              \<and> argmax (forward (var_w ?S) (var_b ?S) (nn_X n) ! i) = argmax (nn_Y n ! i)}"
      using assms(3) by (auto simp: predict_op_def length_forward)
    then have d: "accs ! k
        = real (card {i. i < length (nn_X n)
              \<and> argmax (forward (var_w ?S) (var_b ?S) (nn_X n) ! i) = argmax (nn_Y n ! i)})
          / real (length (nn_X n))"
      unfolding a c by simp
    have b: "0 \<le> accs ! k" "accs ! k \<le> 1"
      unfolding a by (rule mean_equal_bounds[OF ne])+
    have e: "?S = foldl (nn_batch tr n) (sess ((nn_epoch tr ^^ k) ?st))
                  (batches (length (nn_X n)) (nn_batchsize n))"
      using nn_sess_step[where tr=tr and k=k and st="?st"] by simp
    show "accs ! k
            = real (card {i. i < length (nn_X n)
                          \<and> argmax (forward (var_w ?S) (var_b ?S) (nn_X n) ! i)
                            = argmax (nn_Y n ! i)})
              / real (length (nn_X n))
          \<and> 0 \<le> accs ! k \<and> accs ! k \<le> 1
          \<and> ?S = foldl (nn_batch tr n) (sess ((nn_epoch tr ^^ k) ?st))
                  (batches (length (nn_X n)) (nn_batchsize n))"
      by (rule conjI[OF d conjI[OF b(1) conjI[OF b(2) e]]])
  qed
  show ?thesis by (rule conjI[OF len per])
qed

lemma eval_predict:
  "predict_op \<lparr> var_w = [[[0, 0]]], var_b = [[0, 0]], slots = () \<rparr> [[0], [0]] = [0, 0]"
  by (simp add: predict_op_def forward_def argmax_def broadcast_add_def array_defs sigmoid_zero
      upt_conv_Cons)

lemma eval_mean_equal: "mean_equal [argmax [1, 0], argmax [0, 1]] [0, 0] = 1 / 2"
  by (simp add: mean_equal_def argmax_def)

lemma eval_NN_train:
  "NN_train (\<lambda>s bx by. s) ()
      \<lparr> sizes = [], nn_X = [[0], [0]], nn_Y = [[1, 0], [0, 1]], w_list = [[[0, 0]]],
        b_list = [[0, 0]], nn_learning_rate = 1, momentum = 0, epoches = 1, nn_batchsize = 100 \<rparr>
   = Inr (\<lparr> sizes = [], nn_X = [[0], [0]], nn_Y = [[1, 0], [0, 1]], w_list = [[[0, 0]]],
        b_list = [[0, 0]], nn_learning_rate = 1, momentum = 0, epoches = 1, nn_batchsize = 100 \<rparr>,
        [1 / 2])"
proof -
  have b: "batches (Suc (Suc 0)) 100 = []" by (simp add: batches_empty)
  have g: "graph_width \<lparr> sizes = [], nn_X = [[0], [0]], nn_Y = [[1, 0], [0, 1]],
      w_list = [[[0, 0]]], b_list = [[0, 0]], nn_learning_rate = lr, momentum = mo, epoches = e,
      nn_batchsize = bsz \<rparr> = Some (Suc (Suc 0))" for lr mo e bsz
    by (simp add: graph_width_def broadcast_width_def ncols_def)
  show ?thesis
    by (simp add: NN_train_def g nn_session_def nn_epoch_def Let_def b eval_predict eval_mean_equal)
qed

theorem accuracy_per_epoch_witness:
  "NN_train (\<lambda>s bx by. s) ()
      \<lparr> sizes = [], nn_X = [[0], [0]], nn_Y = [[1, 0], [0, 1]], w_list = [[[0, 0]]],
        b_list = [[0, 0]], nn_learning_rate = 1, momentum = 0, epoches = 1, nn_batchsize = 100 \<rparr>
   = Inr (\<lparr> sizes = [], nn_X = [[0], [0]], nn_Y = [[1, 0], [0, 1]], w_list = [[[0, 0]]],
        b_list = [[0, 0]], nn_learning_rate = 1, momentum = 0, epoches = 1, nn_batchsize = 100 \<rparr>,
        [1 / 2])
   \<and> length [1 / 2 :: real] = 1
   \<and> 0 \<le> [1 / 2 :: real] ! 0 \<and> [1 / 2 :: real] ! 0 \<le> 1
   \<and> [1 / 2 :: real] ! 0
     = real (card {i. i < length [[0], [0::real]]
                   \<and> argmax (forward
                         (var_w (sess ((nn_epoch (\<lambda>s bx by. s) ^^ Suc 0)
                            \<lparr> self = \<lparr> sizes = [], nn_X = [[0], [0]], nn_Y = [[1, 0], [0, 1]],
                                 w_list = [[[0, 0]]], b_list = [[0, 0]], nn_learning_rate = 1,
                                 momentum = 0, epoches = 1, nn_batchsize = 100 \<rparr>,
                               sess = \<lparr> var_w = [[[0, 0]]], var_b = [[0, 0]], slots = () \<rparr>,
                               shown = [] \<rparr>)))
                         (var_b (sess ((nn_epoch (\<lambda>s bx by. s) ^^ Suc 0)
                            \<lparr> self = \<lparr> sizes = [], nn_X = [[0], [0]], nn_Y = [[1, 0], [0, 1]],
                                 w_list = [[[0, 0]]], b_list = [[0, 0]], nn_learning_rate = 1,
                                 momentum = 0, epoches = 1, nn_batchsize = 100 \<rparr>,
                               sess = \<lparr> var_w = [[[0, 0]]], var_b = [[0, 0]], slots = () \<rparr>,
                               shown = [] \<rparr>)))
                         [[0], [0]] ! i)
                     = argmax ([[1, 0], [0, 1]] ! i)})
       / real (length [[0], [0::real]])"
proof -
  let ?n = "\<lparr> sizes = [], nn_X = [[0], [0]], nn_Y = [[1, 0], [0, 1]], w_list = [[[0, 0]]],
        b_list = [[0, 0]], nn_learning_rate = 1, momentum = 0, epoches = 1, nn_batchsize = 100 \<rparr>"
  have p: "nn_X ?n \<noteq> []" "length (nn_Y ?n) = length (nn_X ?n)" by simp_all
  have s: "nn_session ?n () = \<lparr> var_w = [[[0, 0]]], var_b = [[0, 0]], slots = () \<rparr>"
    by (simp add: nn_session_def)
  note t = accuracy_per_epoch[OF eval_NN_train p, unfolded s]
  have a: "length [1 / 2 :: real] = 1" using t[THEN conjunct1] by simp
  have k: "0 < epoches ?n" by simp
  note u = t[THEN conjunct2, rule_format, OF k]
  have b: "0 \<le> [1 / 2 :: real] ! 0" "[1 / 2 :: real] ! 0 \<le> 1"
    using u[THEN conjunct2, THEN conjunct1] u[THEN conjunct2, THEN conjunct2, THEN conjunct1]
    by simp_all
  show ?thesis
    using eval_NN_train a b u[THEN conjunct1] by simp
qed

section \<open>Claim C8: the initial parameters of the classifier\<close>

lemma uniform_shape: "has_shape n m (uniform lo hi n m u)"
  by (simp add: has_shape_iff uniform_def)

lemma uniform_nth: "i < n \<Longrightarrow> j < m \<Longrightarrow> uniform lo hi n m u ! i ! j = lo + (hi - lo) * u i j"
  by (simp add: uniform_def)

lemma upt_Suc_shift: "[0..<Suc n] = 0 # map Suc [0..<n]"
  by (simp add: upt_conv_Cons map_Suc_upt del: upt_Suc)

lemma init_layers_result:
  "init_layers n_in szs rng k acc = Inr res \<Longrightarrow>
     res = (fst acc @ map (\<lambda>i. uniform (- (4 * sqrt (6 / real ((n_in # szs) ! i + szs ! i))))
                                 (4 * sqrt (6 / real ((n_in # szs) ! i + szs ! i)))
                                 ((n_in # szs) ! i) (szs ! i) (rng (k + i))) [0..<length szs],
            snd acc @ map zeros_vec szs)
     \<and> (\<forall>i<length szs. 0 < (n_in # szs) ! i + szs ! i)"
proof (induction szs arbitrary: n_in k acc)
  case Nil
  then show ?case by simp
next
  case (Cons sz rest)
  have nz: "0 < n_in + sz"
    using Cons.prems by (cases "n_in + sz = 0") simp_all
  let ?acc = "(fst acc @ [uniform (- (4 * sqrt (6 / real (n_in + sz)))) (4 * sqrt (6 / real (n_in + sz)))
                   n_in sz (rng k)], snd acc @ [zeros_vec sz])"
  have "init_layers sz rest rng (Suc k) ?acc = Inr res"
    using Cons.prems nz by (auto simp: Let_def split: if_splits)
  note ih = Cons.IH[OF this]
  have a: "\<forall>i<length (sz # rest). 0 < (n_in # sz # rest) ! i + (sz # rest) ! i"
  proof (intro allI impI)
    fix i assume "i < length (sz # rest)"
    then show "0 < (n_in # sz # rest) ! i + (sz # rest) ! i"
      using nz ih[THEN conjunct2] by (cases i) simp_all
  qed
  have b: "res = (fst acc @ map (\<lambda>i. uniform (- (4 * sqrt (6 / real ((n_in # sz # rest) ! i + (sz # rest) ! i))))
                                 (4 * sqrt (6 / real ((n_in # sz # rest) ! i + (sz # rest) ! i)))
                                 ((n_in # sz # rest) ! i) ((sz # rest) ! i) (rng (k + i)))
                         [0..<length (sz # rest)],
            snd acc @ map zeros_vec (sz # rest))"
    unfolding ih[THEN conjunct1] length_Cons upt_Suc_shift
    by (simp add: comp_def)
  show ?case by (rule conjI[OF b a])
qed

lemma NN_init_Inr:
  assumes "NN_init szs X Y rng = Inr n"
  shows "w_list n = map (\<lambda>i. uniform
             (- (4 * sqrt (6 / real ((ncols X # szs @ [ncols Y]) ! i + (szs @ [ncols Y]) ! i))))
             (4 * sqrt (6 / real ((ncols X # szs @ [ncols Y]) ! i + (szs @ [ncols Y]) ! i)))
             ((ncols X # szs @ [ncols Y]) ! i) ((szs @ [ncols Y]) ! i) (rng i))
           [0..<length szs + 1]"
    and "b_list n = map zeros_vec (szs @ [ncols Y])"
    and "\<forall>i<length szs + 1. 0 < (ncols X # szs @ [ncols Y]) ! i + (szs @ [ncols Y]) ! i"
    and "sizes n = szs"
proof -
  obtain res where r: "init_layers (ncols X) (szs @ [ncols Y]) rng 0 ([], []) = Inr res"
    and n: "n = \<lparr> sizes = szs, nn_X = X, nn_Y = Y, w_list = fst res, b_list = snd res,
                nn_learning_rate = 1, momentum = 0, epoches = 10, nn_batchsize = 100 \<rparr>"
    using assms by (auto simp: NN_init_def split: sum.splits)
  note i = init_layers_result[OF r]
  show "w_list n = map (\<lambda>i. uniform
             (- (4 * sqrt (6 / real ((ncols X # szs @ [ncols Y]) ! i + (szs @ [ncols Y]) ! i))))
             (4 * sqrt (6 / real ((ncols X # szs @ [ncols Y]) ! i + (szs @ [ncols Y]) ! i)))
             ((ncols X # szs @ [ncols Y]) ! i) ((szs @ [ncols Y]) ! i) (rng i))
           [0..<length szs + 1]"
    using i[THEN conjunct1] by (simp add: n)
  show "b_list n = map zeros_vec (szs @ [ncols Y])"
    using i[THEN conjunct1] by (simp add: n)
  show "\<forall>i<length szs + 1. 0 < (ncols X # szs @ [ncols Y]) ! i + (szs @ [ncols Y]) ! i"
    using i[THEN conjunct2] by simp
  show "sizes n = szs" by (simp add: n)
qed

lemma eval_NN_init:
  "NN_init [1] [[0]] [[0]] (\<lambda>k i j. c)
     = Inr \<lparr> sizes = [1], nn_X = [[0]], nn_Y = [[0]],
             w_list = [[[- (4 * sqrt 3) + (4 * sqrt 3 - - (4 * sqrt 3)) * c]],
                       [[- (4 * sqrt 3) + (4 * sqrt 3 - - (4 * sqrt 3)) * c]]],
             b_list = [[0], [0]],
             nn_learning_rate = 1, momentum = 0, epoches = 10, nn_batchsize = 100 \<rparr>"
  by (simp add: NN_init_def ncols_def uniform_def zeros_vec_def Let_def)

text \<open>
  C8, as the code has it. When \<^verbatim>\<open>NN.__init__\<close> returns, there is one weight matrix and
  one bias vector per layer. For layer \<open>k\<close> with fan-in \<open>n_in\<close> and fan-out \<open>n_out\<close>, let
  \<open>r = 4 * sqrt (6 / (n_in + n_out))\<close>, which is positive. The weight matrix has
  \<open>n_in\<close> rows and \<open>n_out\<close> columns and its entry \<open>(i, j)\<close> is the uniform sample
  \<open>-r + 2 r u\<close> for the draw \<open>u\<close> of \<open>[0, 1)\<close> at that position, so it lies in \<open>[-r, r]\<close>
  (in the real-number model even below \<open>r\<close>).
  The bias vector is not random: it consists of \<open>n_out\<close> zeros (which lie in \<open>[-r, r]\<close>).
\<close>

theorem NN_init_parameters:
  fixes szs :: "nat list" and X Y :: matrix and rng :: "nat \<Rightarrow> samples"
  defines "fan_in \<equiv> \<lambda>k. (ncols X # szs) ! k"
    and "fan_out \<equiv> \<lambda>k. (szs @ [ncols Y]) ! k"
  defines "r \<equiv> \<lambda>k. 4 * sqrt (6 / real (fan_in k + fan_out k))"
  assumes "NN_init szs X Y rng = Inr n" and "\<forall>k i j. 0 \<le> rng k i j \<and> rng k i j < 1"
  shows "length (w_list n) = length szs + 1 \<and> length (b_list n) = length szs + 1
    \<and> (\<forall>k<length szs + 1.
          0 < r k
          \<and> has_shape (fan_in k) (fan_out k) (w_list n ! k)
          \<and> (\<forall>i<fan_in k. \<forall>j<fan_out k.
                w_list n ! k ! i ! j = - r k + 2 * r k * rng k i j
                \<and> - r k \<le> w_list n ! k ! i ! j \<and> w_list n ! k ! i ! j < r k)
          \<and> b_list n ! k = replicate (fan_out k) 0
          \<and> (\<forall>j<fan_out k. - r k \<le> b_list n ! k ! j \<and> b_list n ! k ! j \<le> r k))"
proof -
  note t = NN_init_Inr[OF assms(4)]
  have lw: "length (w_list n) = length szs + 1" by (simp add: t(1))
  have lb: "length (b_list n) = length szs + 1" by (simp add: t(2))
  have per: "\<forall>k<length szs + 1.
          0 < r k
          \<and> has_shape (fan_in k) (fan_out k) (w_list n ! k)
          \<and> (\<forall>i<fan_in k. \<forall>j<fan_out k.
                w_list n ! k ! i ! j = - r k + 2 * r k * rng k i j
                \<and> - r k \<le> w_list n ! k ! i ! j \<and> w_list n ! k ! i ! j < r k)
          \<and> b_list n ! k = replicate (fan_out k) 0
          \<and> (\<forall>j<fan_out k. - r k \<le> b_list n ! k ! j \<and> b_list n ! k ! j \<le> r k)"
  proof (intro allI impI)
    fix k assume k: "k < length szs + 1"
    have fi: "(ncols X # szs @ [ncols Y]) ! k = fan_in k"
      using k by (cases k) (simp_all add: fan_in_def nth_append)
    have pos: "0 < fan_in k + fan_out k"
      using t(3)[rule_format, OF k] unfolding fi fan_out_def .
    then have rp: "0 < r k" by (simp add: r_def del: of_nat_add)
    have w: "w_list n ! k = uniform (- r k) (r k) (fan_in k) (fan_out k) (rng k)"
      using k unfolding t(1) r_def fan_out_def fi[symmetric] by (simp del: upt_Suc)
    have sh: "has_shape (fan_in k) (fan_out k) (w_list n ! k)"
      unfolding w by (rule uniform_shape)
    have en: "\<forall>i<fan_in k. \<forall>j<fan_out k.
                w_list n ! k ! i ! j = - r k + 2 * r k * rng k i j
                \<and> - r k \<le> w_list n ! k ! i ! j \<and> w_list n ! k ! i ! j < r k"
    proof (intro allI impI)
      fix i j assume ij: "i < fan_in k" "j < fan_out k"
      have e: "w_list n ! k ! i ! j = - r k + 2 * r k * rng k i j"
        unfolding w using ij by (simp add: uniform_nth)
      have u: "0 \<le> rng k i j" "rng k i j < 1" using assms(5) by simp_all
      have "0 \<le> 2 * r k * rng k i j" using rp u(1) by simp
      moreover have "2 * r k * rng k i j < 2 * r k * 1"
        using rp u(2) by (intro mult_strict_left_mono) simp_all
      ultimately show "w_list n ! k ! i ! j = - r k + 2 * r k * rng k i j
                \<and> - r k \<le> w_list n ! k ! i ! j \<and> w_list n ! k ! i ! j < r k"
        unfolding e by simp
    qed
    have b: "b_list n ! k = replicate (fan_out k) 0"
    proof -
      have "k < length (szs @ [ncols Y])" using k by simp
      then have "map zeros_vec (szs @ [ncols Y]) ! k = zeros_vec ((szs @ [ncols Y]) ! k)"
        by (rule nth_map)
      then show ?thesis unfolding t(2) fan_out_def zeros_vec_def .
    qed
    have bb: "\<forall>j<fan_out k. - r k \<le> b_list n ! k ! j \<and> b_list n ! k ! j \<le> r k"
      unfolding b using rp by simp
    show "0 < r k
          \<and> has_shape (fan_in k) (fan_out k) (w_list n ! k)
          \<and> (\<forall>i<fan_in k. \<forall>j<fan_out k.
                w_list n ! k ! i ! j = - r k + 2 * r k * rng k i j
                \<and> - r k \<le> w_list n ! k ! i ! j \<and> w_list n ! k ! i ! j < r k)
          \<and> b_list n ! k = replicate (fan_out k) 0
          \<and> (\<forall>j<fan_out k. - r k \<le> b_list n ! k ! j \<and> b_list n ! k ! j \<le> r k)"
      by (rule conjI[OF rp conjI[OF sh conjI[OF en conjI[OF b bb]]]])
  qed
  show ?thesis by (rule conjI[OF lw conjI[OF lb per]])
qed

theorem NN_init_parameters_witness:
  "NN_init [1] [[0]] [[0]] (\<lambda>k i j. 3 / 4)
     = Inr \<lparr> sizes = [1], nn_X = [[0]], nn_Y = [[0]],
             w_list = [[[2 * sqrt 3]], [[2 * sqrt 3]]], b_list = [[0], [0]],
             nn_learning_rate = 1, momentum = 0, epoches = 10, nn_batchsize = 100 \<rparr>
   \<and> - (4 * sqrt 3) \<le> 2 * sqrt 3 \<and> 2 * sqrt 3 < 4 * sqrt 3
   \<and> has_shape 1 1 [[2 * sqrt 3]]"
proof -
  let ?n = "\<lparr> sizes = [1], nn_X = [[0]], nn_Y = [[0]],
             w_list = [[[2 * sqrt 3]], [[2 * sqrt 3]]], b_list = [[0], [0::real]],
             nn_learning_rate = 1, momentum = 0, epoches = 10, nn_batchsize = 100 \<rparr>"
  have e: "NN_init [1] [[0]] [[0]] (\<lambda>k i j. 3 / 4) = Inr ?n"
    unfolding eval_NN_init by simp
  have u: "\<forall>k i j. 0 \<le> (\<lambda>(k::nat) (i::nat) (j::nat). 3 / 4 :: real) k i j
      \<and> (\<lambda>(k::nat) (i::nat) (j::nat). 3 / 4 :: real) k i j < 1"
    by simp
  note t = NN_init_parameters[OF e u, THEN conjunct2, THEN conjunct2, rule_format, of 0]
  have k: "(0::nat) < length [1::nat] + 1" by simp
  note v = t[OF k]
  have s: "has_shape 1 1 [[2 * sqrt 3]]"
    using v[THEN conjunct2, THEN conjunct1] by (simp add: ncols_def)
  have b: "- (4 * sqrt 3) \<le> 2 * sqrt 3 \<and> 2 * sqrt 3 < 4 * sqrt 3"
    using v[THEN conjunct2, THEN conjunct2, THEN conjunct1, rule_format, of 0 0]
    by (simp add: ncols_def)
  show ?thesis using e s b by simp
qed

text \<open>
  The claim as stated fails for the biases: two random sources that give different weights
  give the same biases, all zero.
\<close>

theorem NN_init_parameters_counterexample:
  "NN_init [1] [[0]] [[0]] (\<lambda>k i j. 0)
     = Inr \<lparr> sizes = [1], nn_X = [[0]], nn_Y = [[0]],
             w_list = [[[- (4 * sqrt 3)]], [[- (4 * sqrt 3)]]], b_list = [[0], [0]],
             nn_learning_rate = 1, momentum = 0, epoches = 10, nn_batchsize = 100 \<rparr>
   \<and> NN_init [1] [[0]] [[0]] (\<lambda>k i j. 3 / 4)
     = Inr \<lparr> sizes = [1], nn_X = [[0]], nn_Y = [[0]],
             w_list = [[[2 * sqrt 3]], [[2 * sqrt 3]]], b_list = [[0], [0]],
             nn_learning_rate = 1, momentum = 0, epoches = 10, nn_batchsize = 100 \<rparr>
   \<and> - (4 * sqrt 3) \<noteq> 2 * sqrt 3"
  unfolding eval_NN_init by simp

end
